theory Spec2Isabelle
  imports Main "HOL-Library.AList" "HOL-Library.Monad_Syntax"
begin

section \<open>JavaScript strings used by the plugin\<close>

text \<open>
  Strings are character lists. The helpers below are the JavaScript string methods the
  plugin calls: \<^verbatim>\<open>startsWith\<close>, \<^verbatim>\<open>includes\<close>, \<^verbatim>\<open>substring(0, n)\<close>,
  \<^verbatim>\<open>padStart(n, '0')\<close> and \<^verbatim>\<open>String(n)\<close> on a non-negative integer.
\<close>

definition startsWith :: "string \<Rightarrow> string \<Rightarrow> bool" where
  "startsWith s p = (take (length p) s = p)"

fun includes_str :: "string \<Rightarrow> string \<Rightarrow> bool" where
  "includes_str [] sub = (sub = [])"
| "includes_str (c # cs) sub = (startsWith (c # cs) sub \<or> includes_str cs sub)"

definition digit_char :: "nat \<Rightarrow> char" where
  "digit_char d = char_of (48 + d)"

fun String_of_nat :: "nat \<Rightarrow> string" where
  "String_of_nat n =
     (if n < 10 then [digit_char n] else String_of_nat (n div 10) @ [digit_char (n mod 10)])"

declare String_of_nat.simps [simp del]

definition padStart :: "nat \<Rightarrow> char \<Rightarrow> string \<Rightarrow> string" where
  "padStart n c s = replicate (n - length s) c @ s"

definition is_digit :: "char \<Rightarrow> bool" where
  "is_digit c = ((48 :: nat) \<le> of_char c \<and> of_char c \<le> (57 :: nat))"

text \<open>Reading a digit string back as a number (the inverse of \<^const>\<open>String_of_nat\<close>).\<close>

definition nat_of_digits :: "string \<Rightarrow> nat" where
  "nat_of_digits s = foldl (\<lambda>acc c. 10 * acc + (of_char c - 48)) 0 s"

section \<open>Data model\<close>

text \<open>
  The resources are the interfaces of \<^verbatim>\<open>types.ts\<close>, one record each. A field of type
  \<^verbatim>\<open>string | null\<close> is a \<open>string option\<close>. Field names carry the resource as a
  prefix, since several interfaces share \<^verbatim>\<open>id\<close> and \<^verbatim>\<open>name\<close>.
\<close>

record UserResource =
  user_id :: string
  user_name :: string
  user_email :: string
  user_profile_photo_url :: string
  user_timezone :: string
  user_week_start :: string

record MemberResource =
  member_id :: string
  member_user_id :: string
  member_name :: string
  member_email :: string
  member_role :: string
  member_is_placeholder :: bool
  member_billable_rate :: "int option"

record ProjectResource =
  project_id :: string
  project_name :: string
  project_color :: string
  project_client_id :: "string option"
  project_is_archived :: bool
  project_billable_rate :: "int option"
  project_is_billable :: bool
  project_estimated_time :: "int option"
  project_spent_time :: int
  project_is_public :: bool

record TaskResource =
  task_id :: string
  task_name :: string
  task_is_done :: bool
  task_project_id :: string
  task_estimated_time :: "int option"
  task_spent_time :: int
  task_created_at :: string
  task_updated_at :: string

record TagResource =
  tag_id :: string
  tag_name :: string
  tag_created_at :: string
  tag_updated_at :: string

record TimeEntryResource =
  entry_id :: string
  entry_start :: string
  entry_end :: "string option"
  entry_duration :: "int option"
  entry_description :: "string option"
  entry_task_id :: "string option"
  entry_project_id :: "string option"
  entry_organization_id :: string
  entry_user_id :: string
  entry_tags :: "string list"
  entry_billable :: bool

record SolidTimeSettings =
  apiKey :: string
  apiBaseUrl :: string
  selectedOrganizationId :: string
  selectedMemberId :: string
  statusBarUpdateIntervalSeconds :: int
  autoFetchIntervalMinutes :: int
  defaultBillable :: bool

text \<open>
  A request body is the object literal handed to \<^verbatim>\<open>JSON.stringify\<close>: its keys in
  the order written, each with its value.
\<close>

datatype jsvalue = JNull | JBool bool | JString string | JArray "string list"

type_synonym payload = "(string \<times> jsvalue) list"

definition nullable :: "string option \<Rightarrow> jsvalue" where
  "nullable s = (case s of None \<Rightarrow> JNull | Some v \<Rightarrow> JString v)"

text \<open>JavaScript truthiness of a property that may be missing.\<close>

fun truthy :: "jsvalue option \<Rightarrow> bool" where
  "truthy None = False"
| "truthy (Some JNull) = False"
| "truthy (Some (JBool b)) = b"
| "truthy (Some (JString s)) = (s \<noteq> [])"
| "truthy (Some (JArray xs)) = True"

definition keys :: "payload \<Rightarrow> string list" where
  "keys p = map fst p"

record RequestUrlParam =
  url :: string
  http_method :: string
  body :: "payload option"
  headers :: "(string \<times> string) list"

datatype error = Error (message: string)

text \<open>
  What the code reads of a response of \<^verbatim>\<open>requestUrl\<close>: the status, whether a body is
  there (\<^verbatim>\<open>arrayBuffer.byteLength\<close>, \<^verbatim>\<open>text\<close>), and the parsed body. \<^verbatim>\<open>json\<close> is the
  getter: it throws, or gives the body at the type \<open>'a\<close> the caller casts it to
  (\<open>None\<close> is the JSON \<^verbatim>\<open>null\<close>). On the error path the same body is read as
  \<^verbatim>\<open>any\<close>: \<open>json_message\<close> is its \<^verbatim>\<open>message\<close> (empty when missing or falsy) and
  \<open>json_errors\<close> is \<^verbatim>\<open>JSON.stringify(errors)\<close> when \<^verbatim>\<open>errors\<close> is truthy.
\<close>

record 'a RequestUrlResponse =
  status :: nat
  arrayBuffer_byteLength :: nat
  response_text :: string
  json :: "error + 'a option"
  json_message :: string
  json_errors :: "string option"

text \<open>
  The envelopes of the wire protocol. \<open>data = None\<close> is a body without a truthy
  \<^verbatim>\<open>data\<close>; in a page, \<open>page_data = None\<close> is a \<^verbatim>\<open>data\<close> that is not an array and
  \<open>links_next = None\<close> is a missing \<^verbatim>\<open>links\<close> or a \<^verbatim>\<open>next\<close> that is null.
\<close>

datatype 'a Envelope = Envelope (data: "'a option")

datatype 'a PaginatedResponse =
  PaginatedResponse (page_data: "'a list option") (links_next: "string option")

text \<open>
  Everything observable that the plugin does is appended to a trace: requests sent,
  notices shown, console output, and the two redraw hooks with the active entry they
  display.
\<close>

datatype event =
    Request RequestUrlParam
  | Notice string
  | ConsoleError
  | ConsoleWarn
  | StatusBarText string
  | RenderStatusBar "TimeEntryResource option"
  | UpdateView "TimeEntryResource option"

fun sent :: "event list \<Rightarrow> RequestUrlParam list" where
  "sent [] = []"
| "sent (Request r # es) = r # sent es"
| "sent (e # es) = sent es"

text \<open>The writes among the requests of a trace: every request that is not a GET.\<close>

definition writes :: "event list \<Rightarrow> RequestUrlParam list" where
  "writes tr = filter (\<lambda>r. http_method r \<noteq> ''GET'') (sent tr)"

fun notices :: "event list \<Rightarrow> string list" where
  "notices [] = []"
| "notices (Notice s # es) = s # notices es"
| "notices (e # es) = notices es"

text \<open>
  The remote service answers a request given the requests sent before it: it throws (a
  network failure) or responds. There is one such function for each response type the
  client casts to.
\<close>

type_synonym 'a requestUrl =
  "RequestUrlParam list \<Rightarrow> RequestUrlParam \<Rightarrow> error + 'a RequestUrlResponse"

record Service =
  requestUrl_user :: "UserResource Envelope requestUrl"
  requestUrl_entry :: "TimeEntryResource Envelope requestUrl"
  requestUrl_members :: "MemberResource PaginatedResponse requestUrl"
  requestUrl_projects :: "ProjectResource PaginatedResponse requestUrl"
  requestUrl_tasks :: "TaskResource PaginatedResponse requestUrl"
  requestUrl_tags :: "TagResource list Envelope requestUrl"
  requestUrl_tag :: "TagResource Envelope requestUrl"

section \<open>Transport: SolidTimeApi.request\<close>

record SolidTimeApi =
  api_apiKey :: string
  api_baseUrl :: string

text \<open>The constructor strips one trailing slash from the base URL.\<close>

definition new_SolidTimeApi :: "string \<Rightarrow> string \<Rightarrow> SolidTimeApi" where
  "new_SolidTimeApi key base =
     \<lparr>api_apiKey = key,
      api_baseUrl = (if base \<noteq> [] \<and> last base = CHR ''/'' then butlast base else base)\<rparr>"

definition defaultHeaders :: "SolidTimeApi \<Rightarrow> (string \<times> string) list" where
  "defaultHeaders a =
     [(''Authorization'', ''Bearer '' @ api_apiKey a),
      (''Accept'', ''application/json''),
      (''Content-Type'', ''application/json'')]"

definition finalUrl :: "SolidTimeApi \<Rightarrow> string \<Rightarrow> string" where
  "finalUrl a u =
     (if u \<noteq> [] \<and> \<not> startsWith u ''http://'' \<and> \<not> startsWith u ''https://''
      then api_baseUrl a @ (if startsWith u ''/'' then [] else ''/'') @ u
      else u)"

definition bodyPresent :: "'a RequestUrlResponse \<Rightarrow> bool" where
  "bodyPresent response = (arrayBuffer_byteLength response > 0 \<or> response_text response \<noteq> [])"

text \<open>
  The message built for a status that is neither 2xx nor allowed, with the console
  warning of the branch where the body does not parse.
\<close>

definition errorMsg :: "'a RequestUrlResponse \<Rightarrow> string \<times> event list" where
  "errorMsg response =
     (let msg = ''SolidTime API Error: '' @ String_of_nat (status response);
          snippet = (if response_text response \<noteq> [] then '' - '' @ take 100 (response_text response) else [])
      in if bodyPresent response then
           (case json response of
              Inl e \<Rightarrow> (msg @ snippet, [ConsoleWarn])
            | Inr None \<Rightarrow> (msg @ snippet, [])
            | Inr (Some v) \<Rightarrow>
                if json_message response \<noteq> [] then
                  (msg @ '' - '' @ json_message response @
                     (case json_errors response of
                        None \<Rightarrow> []
                      | Some errs \<Rightarrow> '' ('' @ errs @ '')''), [])
                else (msg @ snippet, []))
         else (msg @ snippet, []))"

text \<open>
  The outer \<^verbatim>\<open>catch\<close> of \<^verbatim>\<open>request\<close>: it logs, shows a notice unless the error is one
  the function built itself, and throws the error again.
\<close>

definition request_catch :: "error \<Rightarrow> event list \<Rightarrow> (error + 'a option) \<times> event list" where
  "request_catch e tr =
     (Inl e,
      tr @ [ConsoleError] @
        (if \<not> startsWith (message e) ''SolidTime API Error:''
         then [Notice (''SolidTime Network Error: '' @ message e)] else []))"

text \<open>The request as it is sent: default headers merged in, the URL made absolute.\<close>

definition prepare :: "SolidTimeApi \<Rightarrow> RequestUrlParam \<Rightarrow> RequestUrlParam" where
  "prepare a options =
     options\<lparr>headers := AList.merge (defaultHeaders a) (headers options),
             url := finalUrl a (url options)\<rparr>"

definition request ::
  "SolidTimeApi \<Rightarrow> 'a requestUrl \<Rightarrow> RequestUrlParam \<Rightarrow> nat list \<Rightarrow> event list
     \<Rightarrow> (error + 'a option) \<times> event list"
where
  "request a requestUrl options allowedNon2xxStatuses tr =
     (if api_apiKey a = [] then (Inl (Error ''SolidTime API Key is not configured.''), tr)
      else if api_baseUrl a = [] then
        (Inl (Error ''SolidTime API Base URL is not configured.''), tr)
      else
        let options1 = prepare a options;
            tr1 = tr @ [Request options1]
        in case requestUrl (sent tr) options1 of
             Inl e \<Rightarrow> request_catch e tr1
           | Inr response \<Rightarrow>
               let isAllowedNon2xx = (status response \<in> set allowedNon2xxStatuses) in
               if (200 \<le> status response \<and> status response < 300) \<or> isAllowedNon2xx then
                 if status response = 204 then (Inr None, tr1)
                 else if isAllowedNon2xx then (Inr None, tr1)
                 else if bodyPresent response then
                   (case json response of
                      Inl e \<Rightarrow> request_catch e tr1
                    | Inr v \<Rightarrow> (Inr v, tr1))
                 else (Inr None, tr1)
               else
                 (case errorMsg response of
                    (msg, warns) \<Rightarrow>
                      request_catch (Error msg)
                        (tr1 @ [ConsoleError] @ warns @ [Notice msg])))"

section \<open>Resource client: the methods of SolidTimeApi\<close>

text \<open>The options the methods pass to \<^const>\<open>request\<close>: a URL, a method, and for a write a body.\<close>

definition GET :: "string \<Rightarrow> RequestUrlParam" where
  "GET u = \<lparr>url = u, http_method = ''GET'', body = None, headers = []\<rparr>"

definition POST :: "string \<Rightarrow> payload \<Rightarrow> RequestUrlParam" where
  "POST u payload = \<lparr>url = u, http_method = ''POST'', body = Some payload, headers = []\<rparr>"

definition PUT :: "string \<Rightarrow> payload \<Rightarrow> RequestUrlParam" where
  "PUT u payload = \<lparr>url = u, http_method = ''PUT'', body = Some payload, headers = []\<rparr>"

text \<open>The paths of the endpoints that depend on an identifier.\<close>

definition url_time_entries :: "string \<Rightarrow> string" where
  "url_time_entries orgId = ''/v1/organizations/'' @ orgId @ ''/time-entries''"

definition url_time_entry :: "string \<Rightarrow> string \<Rightarrow> string" where
  "url_time_entry orgId timeEntryId =
     ''/v1/organizations/'' @ orgId @ ''/time-entries/'' @ timeEntryId"

definition url_members :: "string \<Rightarrow> string" where
  "url_members orgId = ''/v1/organizations/'' @ orgId @ ''/members''"

definition url_projects :: "string \<Rightarrow> string" where
  "url_projects orgId = ''/v1/organizations/'' @ orgId @ ''/projects?archived=false''"

definition url_tasks :: "string \<Rightarrow> string option \<Rightarrow> string" where
  "url_tasks orgId projectId =
     ''/v1/organizations/'' @ orgId @ ''/tasks?done=false'' @
       (case projectId of
          None \<Rightarrow> []
        | Some pid \<Rightarrow> if pid = [] then [] else ''&project_id='' @ pid)"

definition url_tags :: "string \<Rightarrow> string" where
  "url_tags orgId = ''/v1/organizations/'' @ orgId @ ''/tags''"

definition url_active :: string where
  "url_active = ''/v1/users/me/time-entries/active''"

definition getMe ::
  "SolidTimeApi \<Rightarrow> UserResource Envelope requestUrl \<Rightarrow> event list
     \<Rightarrow> (error + UserResource) \<times> event list"
where
  "getMe a requestUrl tr =
     (case request a requestUrl (GET ''/v1/users/me'') [] tr of
        (Inl e, tr1) \<Rightarrow> (Inl e, tr1)
      | (Inr response, tr1) \<Rightarrow>
          (case response of
             Some (Envelope (Some u)) \<Rightarrow> (Inr u, tr1)
           | _ \<Rightarrow> (Inl (Error ''API did not return expected data for /users/me.''), tr1)))"

definition getActiveTimeEntry ::
  "SolidTimeApi \<Rightarrow> TimeEntryResource Envelope requestUrl \<Rightarrow> event list
     \<Rightarrow> (error + TimeEntryResource option) \<times> event list"
where
  "getActiveTimeEntry a requestUrl tr =
     (case request a requestUrl (GET url_active) [404] tr of
        (Inl e, tr1) \<Rightarrow> (Inl e, tr1 @ [ConsoleError])
      | (Inr None, tr1) \<Rightarrow> (Inr None, tr1)
      | (Inr (Some response), tr1) \<Rightarrow> (Inr (data response), tr1))"

definition startTimeEntry ::
  "SolidTimeApi \<Rightarrow> TimeEntryResource Envelope requestUrl \<Rightarrow> string \<Rightarrow> payload \<Rightarrow> event list
     \<Rightarrow> (error + TimeEntryResource) \<times> event list"
where
  "startTimeEntry a requestUrl orgId payload tr =
     (if orgId = [] then
        (Inl (Error ''Organization ID is required to start a time entry.''), tr)
      else if \<not> truthy (map_of payload ''member_id'') then
        (Inl (Error ''Member ID is required to start a time entry.''), tr)
      else
        (case request a requestUrl
                (POST (url_time_entries orgId) payload) [] tr of
           (Inl e, tr1) \<Rightarrow> (Inl e, tr1)
         | (Inr response, tr1) \<Rightarrow>
             (case response of
                Some (Envelope (Some entry)) \<Rightarrow> (Inr entry, tr1)
              | _ \<Rightarrow> (Inl (Error ''API did not return expected data on start timer.''), tr1))))"

definition stopTimeEntry ::
  "SolidTimeApi \<Rightarrow> TimeEntryResource Envelope requestUrl \<Rightarrow> string \<Rightarrow> string \<Rightarrow> payload
     \<Rightarrow> event list \<Rightarrow> (error + TimeEntryResource) \<times> event list"
where
  "stopTimeEntry a requestUrl orgId timeEntryId payload tr =
     (if orgId = [] then
        (Inl (Error ''Organization ID is required to stop a time entry.''), tr)
      else if timeEntryId = [] then
        (Inl (Error ''Time Entry ID is required to stop a time entry.''), tr)
      else
        (case request a requestUrl
                (PUT (url_time_entry orgId timeEntryId) payload)
                [] tr of
           (Inl e, tr1) \<Rightarrow> (Inl e, tr1)
         | (Inr response, tr1) \<Rightarrow>
             (case response of
                Some (Envelope (Some entry)) \<Rightarrow> (Inr entry, tr1)
              | _ \<Rightarrow> (Inl (Error ''API did not return expected data on stop timer.''), tr1))))"

subsection \<open>Pagination\<close>

text \<open>
  The body of the loop of \<^verbatim>\<open>fetchAllPaginated\<close> after the request has returned: a page
  with a \<^verbatim>\<open>data\<close> array is appended and its next link followed; anything else ends the
  loop, with a console warning when the response was not null.
\<close>

definition page_step ::
  "'a list \<Rightarrow> 'a PaginatedResponse option \<Rightarrow> event list
     \<Rightarrow> 'a list \<times> string option \<times> event list"
where
  "page_step allData response tr =
     (case response of
        Some (PaginatedResponse (Some d) rawNextUrl) \<Rightarrow> (allData @ d, rawNextUrl, tr)
      | Some (PaginatedResponse None rawNextUrl) \<Rightarrow> (allData, None, tr @ [ConsoleWarn])
      | None \<Rightarrow> (allData, None, tr))"

text \<open>
  The loop may run forever, so it is a partial function: \<open>None\<close> is a run that does not
  return. \<^verbatim>\<open>while (nextPageUrl)\<close> stops on null and on the empty string.
\<close>

partial_function (option) fetchAllPaginated_loop ::
  "SolidTimeApi \<Rightarrow> 'a PaginatedResponse requestUrl \<Rightarrow> 'a list \<Rightarrow> string option \<Rightarrow> event list
     \<Rightarrow> ((error + 'a list) \<times> event list) option"
where
  "fetchAllPaginated_loop a requestUrl allData nextPageUrl tr =
     (case nextPageUrl of
        None \<Rightarrow> Some (Inr allData, tr)
      | Some u \<Rightarrow>
          if u = [] then Some (Inr allData, tr)
          else
            (case request a requestUrl (GET u) [] tr of
               (Inl e, tr1) \<Rightarrow> Some (Inl e, tr1)
             | (Inr response, tr1) \<Rightarrow>
                 (case page_step allData response tr1 of
                    (allData1, nextPageUrl1, tr2) \<Rightarrow>
                      if length allData1 > 10000 then Some (Inr allData1, tr2 @ [ConsoleWarn])
                      else fetchAllPaginated_loop a requestUrl allData1 nextPageUrl1 tr2)))"

definition fetchAllPaginated ::
  "SolidTimeApi \<Rightarrow> 'a PaginatedResponse requestUrl \<Rightarrow> string \<Rightarrow> event list
     \<Rightarrow> ((error + 'a list) \<times> event list) option"
where
  "fetchAllPaginated a requestUrl initialUrl tr =
     fetchAllPaginated_loop a requestUrl [] (Some initialUrl) tr"

text \<open>The items of a response: the \<^verbatim>\<open>data\<close> array of a page, nothing otherwise.\<close>

definition items :: "'a PaginatedResponse option \<Rightarrow> 'a list" where
  "items response =
     (case response of
        Some (PaginatedResponse (Some d) rawNextUrl) \<Rightarrow> d
      | _ \<Rightarrow> [])"

text \<open>
  A service serves a list of pages from a URL when a request for that URL is answered
  with the first page and, page after page, a request for the next link of a page is
  answered with the page that follows; every page but the last then has a \<^verbatim>\<open>data\<close>
  array and a next link that is not empty. \<open>chain_urls\<close> are the URLs of that walk.
\<close>

fun serves ::
  "SolidTimeApi \<Rightarrow> 'a PaginatedResponse requestUrl \<Rightarrow> event list \<Rightarrow> string
     \<Rightarrow> 'a PaginatedResponse option list \<Rightarrow> bool"
where
  "serves a requestUrl tr u [] = True"
| "serves a requestUrl tr u (pg # rest) =
     (request a requestUrl (GET u) [] tr = (Inr pg, tr @ [Request (prepare a (GET u))]) \<and>
      (case rest of
         [] \<Rightarrow> True
       | next_page # later \<Rightarrow>
           (case pg of
              Some (PaginatedResponse (Some d) (Some n)) \<Rightarrow>
                n \<noteq> [] \<and> serves a requestUrl (tr @ [Request (prepare a (GET u))]) n rest
            | _ \<Rightarrow> False)))"

fun chain_urls :: "string \<Rightarrow> 'a PaginatedResponse option list \<Rightarrow> string list" where
  "chain_urls u [] = []"
| "chain_urls u (pg # rest) =
     u # (case pg of
            Some (PaginatedResponse d (Some n)) \<Rightarrow> chain_urls n rest
          | _ \<Rightarrow> [])"

definition getMembers ::
  "SolidTimeApi \<Rightarrow> MemberResource PaginatedResponse requestUrl \<Rightarrow> string \<Rightarrow> event list
     \<Rightarrow> (MemberResource list \<times> event list) option"
where
  "getMembers a requestUrl orgId tr =
     (if orgId = [] then Some ([], tr)
      else
        (case fetchAllPaginated a requestUrl (url_members orgId) tr of
           None \<Rightarrow> None
         | Some (Inr members, tr1) \<Rightarrow> Some (members, tr1)
         | Some (Inl e, tr1) \<Rightarrow> Some ([], tr1 @ [ConsoleError])))"

definition getProjects ::
  "SolidTimeApi \<Rightarrow> ProjectResource PaginatedResponse requestUrl \<Rightarrow> string \<Rightarrow> event list
     \<Rightarrow> ((error + ProjectResource list) \<times> event list) option"
where
  "getProjects a requestUrl orgId tr =
     (if orgId = [] then Some (Inr [], tr)
      else fetchAllPaginated a requestUrl (url_projects orgId) tr)"

definition getTasks ::
  "SolidTimeApi \<Rightarrow> TaskResource PaginatedResponse requestUrl \<Rightarrow> string \<Rightarrow> string option
     \<Rightarrow> event list \<Rightarrow> ((error + TaskResource list) \<times> event list) option"
where
  "getTasks a requestUrl orgId projectId tr =
     (if orgId = [] then Some (Inr [], tr)
      else fetchAllPaginated a requestUrl (url_tasks orgId projectId) tr)"

definition getTags ::
  "SolidTimeApi \<Rightarrow> TagResource list Envelope requestUrl \<Rightarrow> string \<Rightarrow> event list
     \<Rightarrow> TagResource list \<times> event list"
where
  "getTags a requestUrl orgId tr =
     (if orgId = [] then ([], tr)
      else
        (case request a requestUrl (GET (url_tags orgId)) [] tr of
           (Inl e, tr1) \<Rightarrow> ([], tr1 @ [ConsoleError])
         | (Inr response, tr1) \<Rightarrow>
             (case response of
                Some (Envelope (Some ts)) \<Rightarrow> (ts, tr1)
              | _ \<Rightarrow> ([], tr1))))"


section \<open>The plugin: SolidTimePlugin\<close>

text \<open>
  \<open>statusBarItemEl\<close> says whether the status bar element exists. The status bar text
  itself is not part of the state; what is written to it appears in the trace.
\<close>

record SolidTimePlugin =
  settings :: SolidTimeSettings
  api :: "SolidTimeApi option"
  statusBarItemEl :: bool
  activeTimeEntry :: "TimeEntryResource option"
  projects :: "ProjectResource list"
  tasks :: "TaskResource list"
  tags :: "TagResource list"
  currentUser :: "UserResource option"
  trace :: "event list"

definition notice :: "string \<Rightarrow> SolidTimePlugin \<Rightarrow> SolidTimePlugin" where
  "notice msg p = p\<lparr>trace := trace p @ [Notice msg]\<rparr>"

definition console_error :: "SolidTimePlugin \<Rightarrow> SolidTimePlugin" where
  "console_error p = p\<lparr>trace := trace p @ [ConsoleError]\<rparr>"

text \<open>
  The two redraw hooks. Both read \<open>activeTimeEntry\<close> when they run, which the event
  records. \<^verbatim>\<open>renderStatusBar\<close> returns at once when there is no status bar element.
\<close>

definition renderStatusBar :: "SolidTimePlugin \<Rightarrow> SolidTimePlugin" where
  "renderStatusBar p =
     (if \<not> statusBarItemEl p then p
      else p\<lparr>trace := trace p @ [RenderStatusBar (activeTimeEntry p)]\<rparr>)"

definition updateSolidTimeView :: "SolidTimePlugin \<Rightarrow> SolidTimePlugin" where
  "updateSolidTimeView p = p\<lparr>trace := trace p @ [UpdateView (activeTimeEntry p)]\<rparr>"

definition setupApi :: "SolidTimePlugin \<Rightarrow> SolidTimePlugin" where
  "setupApi p =
     (if apiKey (settings p) \<noteq> [] \<and> apiBaseUrl (settings p) \<noteq> [] then
        (case api p of
           None \<Rightarrow>
             p\<lparr>api := Some (new_SolidTimeApi (apiKey (settings p)) (apiBaseUrl (settings p)))\<rparr>
         | Some a \<Rightarrow>
             if api_apiKey a \<noteq> apiKey (settings p) \<or> api_baseUrl a \<noteq> apiBaseUrl (settings p)
             then p\<lparr>api :=
                     Some (new_SolidTimeApi (apiKey (settings p)) (apiBaseUrl (settings p)))\<rparr>
             else p)
      else p\<lparr>api := None\<rparr>)"

definition checkSettingsAndApi :: "bool \<Rightarrow> SolidTimePlugin \<Rightarrow> bool \<times> SolidTimePlugin" where
  "checkSettingsAndApi showNotice p =
     (let invalid = (\<lambda>msg q.
            (False, if showNotice then notice (msg @ '' Please configure in plugin settings.'') q
                    else q))
      in if apiKey (settings p) = [] \<or> apiBaseUrl (settings p) = [] then
           invalid ''SolidTime API Key or Base URL not set.'' p
         else if selectedOrganizationId (settings p) = [] then
           invalid ''SolidTime organization not selected.'' p
         else if api p = None then
           (let p1 = setupApi p
            in if api p1 = None then invalid ''SolidTime API client not initialized.'' p1
               else (True, p1))
         else (True, p))"

subsection \<open>updateStatus\<close>

text \<open>
  Without an API client the source also resets the status bar text when it starts with
  a stopwatch sign; that write to the DOM is left out.
\<close>

definition updateStatus :: "Service \<Rightarrow> SolidTimePlugin \<Rightarrow> SolidTimePlugin" where
  "updateStatus srv p =
     (case api p of
        None \<Rightarrow> p\<lparr>activeTimeEntry := None\<rparr>
      | Some a \<Rightarrow>
          (case getActiveTimeEntry a (requestUrl_entry srv) (trace p) of
             (Inr entry, tr) \<Rightarrow>
               updateSolidTimeView (renderStatusBar (p\<lparr>activeTimeEntry := entry, trace := tr\<rparr>))
           | (Inl e, tr) \<Rightarrow>
               (let p1 = p\<lparr>trace := tr @ [ConsoleError]\<rparr>;
                    p2 = (if statusBarItemEl p1 then
                            (if includes_str (message e) ''401'' \<or> includes_str (message e) ''403''
                             then p1\<lparr>trace := trace p1 @
                                    [StatusBarText ''SolidTime: Auth Error'',
                                     Notice ''SolidTime: Authentication error fetching status. Check API Key.'']\<rparr>
                             else p1\<lparr>trace := trace p1 @ [StatusBarText ''SolidTime: Error'']\<rparr>)
                          else p1)
                in updateSolidTimeView (p2\<lparr>activeTimeEntry := None\<rparr>))))"

subsection \<open>The clock\<close>

text \<open>
  \<^verbatim>\<open>moment.utc()\<close> reads the clock; the reading is an argument \<open>now\<close> of the operations
  that take one. \<^verbatim>\<open>format("YYYY-MM-DDTHH:mm:ss")\<close> writes its fields in decimal, the
  year padded to four digits and the others to two. This is the output of the library
  in its default locale; a locale that rewrites the digits is not modelled.
\<close>

record moment =
  moment_year :: nat
  moment_month :: nat
  moment_date :: nat
  moment_hours :: nat
  moment_minutes :: nat
  moment_seconds :: nat

definition moment_format :: "moment \<Rightarrow> string" where
  "moment_format t =
     padStart 4 CHR ''0'' (String_of_nat (moment_year t)) @ ''-'' @
     padStart 2 CHR ''0'' (String_of_nat (moment_month t)) @ ''-'' @
     padStart 2 CHR ''0'' (String_of_nat (moment_date t)) @ ''T'' @
     padStart 2 CHR ''0'' (String_of_nat (moment_hours t)) @ '':'' @
     padStart 2 CHR ''0'' (String_of_nat (moment_minutes t)) @ '':'' @
     padStart 2 CHR ''0'' (String_of_nat (moment_seconds t))"

text \<open>The wire format of a timestamp, \<^verbatim>\<open>YYYY-MM-DDTHH:mm:ssZ\<close>, as a check on a string.\<close>

definition wire_format :: "string \<Rightarrow> bool" where
  "wire_format s =
     (length s = 20 \<and>
      list_all is_digit (take 4 s) \<and> s ! 4 = CHR ''-'' \<and>
      list_all is_digit (take 2 (drop 5 s)) \<and> s ! 7 = CHR ''-'' \<and>
      list_all is_digit (take 2 (drop 8 s)) \<and> s ! 10 = CHR ''T'' \<and>
      list_all is_digit (take 2 (drop 11 s)) \<and> s ! 13 = CHR '':'' \<and>
      list_all is_digit (take 2 (drop 14 s)) \<and> s ! 16 = CHR '':'' \<and>
      list_all is_digit (take 2 (drop 17 s)) \<and> s ! 19 = CHR ''Z'')"

text \<open>The clock reading that a timestamp in the wire format denotes: its six fields.\<close>

definition wire_fields :: "string \<Rightarrow> moment" where
  "wire_fields s =
     \<lparr>moment_year = nat_of_digits (take 4 s),
      moment_month = nat_of_digits (take 2 (drop 5 s)),
      moment_date = nat_of_digits (take 2 (drop 8 s)),
      moment_hours = nat_of_digits (take 2 (drop 11 s)),
      moment_minutes = nat_of_digits (take 2 (drop 14 s)),
      moment_seconds = nat_of_digits (take 2 (drop 17 s))\<rparr>"

text \<open>The ranges of the fields of a UTC clock reading.\<close>

definition valid_moment :: "moment \<Rightarrow> bool" where
  "valid_moment t =
     (moment_year t \<le> 9999 \<and> 1 \<le> moment_month t \<and> moment_month t \<le> 12 \<and>
      1 \<le> moment_date t \<and> moment_date t \<le> 31 \<and> moment_hours t < 24 \<and>
      moment_minutes t < 60 \<and> moment_seconds t < 60)"

subsection \<open>startTimer\<close>

record StartOptions =
  opt_description :: "string option"
  opt_projectId :: "string option"
  opt_taskId :: "string option"
  opt_tagIds :: "string list"
  opt_billable :: bool

definition start_payload :: "string \<Rightarrow> string \<Rightarrow> StartOptions \<Rightarrow> payload" where
  "start_payload memberId start options =
     [(''member_id'', JString memberId),
      (''start'', JString start),
      (''billable'', JBool (opt_billable options)),
      (''project_id'', nullable (opt_projectId options)),
      (''task_id'', nullable (opt_taskId options)),
      (''description'', nullable (opt_description options)),
      (''tags'', if length (opt_tagIds options) > 0 then JArray (opt_tagIds options) else JNull)]"

definition startTimer ::
  "Service \<Rightarrow> moment \<Rightarrow> StartOptions \<Rightarrow> SolidTimePlugin \<Rightarrow> SolidTimePlugin"
where
  "startTimer srv now options p0 =
     (case checkSettingsAndApi True p0 of
        (False, p) \<Rightarrow> p
      | (True, p) \<Rightarrow>
          if selectedMemberId (settings p) = [] then
            notice ''Error: Member ID missing. Please re-select organization in settings.'' p
          else if activeTimeEntry p \<noteq> None then
            notice ''SolidTime: Please stop the current timer first.'' p
          else
            (let start = moment_format now @ ''Z'';
                 payload = start_payload (selectedMemberId (settings p)) start options;
                 p1 = notice ''SolidTime: Starting timer...'' p
             in case api p1 of
                  None \<Rightarrow> console_error p1
                | Some a \<Rightarrow>
                    (case startTimeEntry a (requestUrl_entry srv)
                            (selectedOrganizationId (settings p1)) payload (trace p1) of
                       (Inr newEntry, tr) \<Rightarrow>
                         notice ''SolidTime: Timer started!''
                           (updateSolidTimeView (renderStatusBar
                              (p1\<lparr>activeTimeEntry := Some newEntry, trace := tr\<rparr>)))
                     | (Inl e, tr) \<Rightarrow> console_error (p1\<lparr>trace := tr\<rparr>))))"

subsection \<open>stopCurrentTimer\<close>

definition stop_payloadToSend :: "string \<Rightarrow> string \<Rightarrow> TimeEntryResource \<Rightarrow> payload" where
  "stop_payloadToSend correctMemberId end_time entryToStop =
     [(''member_id'', JString correctMemberId),
      (''end'', JString end_time),
      (''billable'', JBool (entry_billable entryToStop)),
      (''project_id'', nullable (entry_project_id entryToStop)),
      (''task_id'', nullable (entry_task_id entryToStop)),
      (''description'', nullable (entry_description entryToStop)),
      (''tags'', JArray (entry_tags entryToStop))]"

text \<open>
  The last \<^verbatim>\<open>try\<close> block of \<^verbatim>\<open>stopCurrentTimer\<close>: the state is cleared and the user
  interface redrawn (\<open>stopCurrentTimer_clear\<close>), then the PUT is sent; when it fails the
  status is fetched again.
\<close>

definition stopCurrentTimer_clear :: "SolidTimePlugin \<Rightarrow> SolidTimePlugin" where
  "stopCurrentTimer_clear p =
     updateSolidTimeView (renderStatusBar
       ((notice ''SolidTime: Stopping timer...'' p)\<lparr>activeTimeEntry := None\<rparr>))"

definition stopCurrentTimer_send ::
  "Service \<Rightarrow> SolidTimeApi \<Rightarrow> string \<Rightarrow> TimeEntryResource \<Rightarrow> payload \<Rightarrow> SolidTimePlugin
     \<Rightarrow> SolidTimePlugin"
where
  "stopCurrentTimer_send srv a orgIdForEntry entryToStop payloadToSend p =
     (let p1 = stopCurrentTimer_clear p
      in case stopTimeEntry a (requestUrl_entry srv) orgIdForEntry (entry_id entryToStop)
                payloadToSend (trace p1) of
           (Inr stopped, tr) \<Rightarrow> notice ''SolidTime: Timer stopped!'' (p1\<lparr>trace := tr\<rparr>)
         | (Inl e, tr) \<Rightarrow>
             notice ''SolidTime: Failed to stop timer. Status refreshed.''
               (updateStatus srv (console_error (p1\<lparr>trace := tr\<rparr>))))"

text \<open>
  The first block of \<^verbatim>\<open>stopCurrentTimer\<close>: the current user, fetched with \<^verbatim>\<open>getMe\<close>
  when none is cached.
\<close>

definition stopCurrentTimer_user ::
  "Service \<Rightarrow> SolidTimeApi \<Rightarrow> SolidTimePlugin \<Rightarrow> (error + UserResource) \<times> SolidTimePlugin"
where
  "stopCurrentTimer_user srv a p =
     (case currentUser p of
        Some u \<Rightarrow> (Inr u, p)
      | None \<Rightarrow>
          (case getMe a (requestUrl_user srv) (trace p) of
             (Inr u, tr) \<Rightarrow> (Inr u, p\<lparr>currentUser := Some u, trace := tr\<rparr>)
           | (Inl e, tr) \<Rightarrow>
               (Inl e, p\<lparr>trace := tr @
                  [ConsoleError,
                   Notice ''Error: Could not verify current user. Cannot stop timer.'']\<rparr>)))"

text \<open>
  \<^verbatim>\<open>getMembers\<close> catches every error and a membership is a record, so the \<^verbatim>\<open>catch\<close>
  around the member lookup is never entered; it has no branch here.
\<close>

definition stopCurrentTimer ::
  "Service \<Rightarrow> moment \<Rightarrow> SolidTimePlugin \<Rightarrow> SolidTimePlugin option"
where
  "stopCurrentTimer srv now p =
     (case api p of
        None \<Rightarrow> Some (notice ''SolidTime: API not configured.'' p)
      | Some a \<Rightarrow>
          (case stopCurrentTimer_user srv a p of
             (Inl e, p1) \<Rightarrow> Some p1
           | (Inr u, p1) \<Rightarrow>
               (case activeTimeEntry p1 of
                  None \<Rightarrow> Some (notice ''SolidTime: No timer is currently running.'' p1)
                | Some entryToStop \<Rightarrow>
                    if entry_organization_id entryToStop = [] \<or> entry_start entryToStop = [] then
                      Some (updateStatus srv
                        (notice ''Error: Cannot stop timer, active entry data is incomplete. Please refresh.''
                           (console_error p1)))
                    else
                      (let orgIdForEntry = entry_organization_id entryToStop;
                           end_time = moment_format now @ ''Z''
                       in case getMembers a (requestUrl_members srv) orgIdForEntry (trace p1) of
                            None \<Rightarrow> None
                          | Some (members, tr) \<Rightarrow>
                              (case find (\<lambda>member. member_user_id member = user_id u) members of
                                 None \<Rightarrow>
                                   Some (p1\<lparr>trace := tr @
                                     [ConsoleError,
                                      Notice (''Error: Your user was not found in the timer'' @ [CHR 0x27] @
                                              ''s organization ('' @ orgIdForEntry @
                                              ''). Cannot stop timer.''),
                                      Notice ''Error: Could not determine correct Member ID. Cannot stop timer.'']\<rparr>)
                               | Some currentMembership \<Rightarrow>
                                   if member_id currentMembership = [] then
                                     Some (p1\<lparr>trace := tr @
                                       [Notice ''Error: Could not determine correct Member ID. Cannot stop timer.'']\<rparr>)
                                   else
                                     Some (stopCurrentTimer_send srv a orgIdForEntry entryToStop
                                       (stop_payloadToSend (member_id currentMembership) end_time
                                          entryToStop)
                                       (p1\<lparr>trace := tr\<rparr>)))))))"

subsection \<open>updateActiveTimerDetails\<close>

text \<open>
  The argument \<^verbatim>\<open>updates\<close> has optional fields: \<open>None\<close> is a key that is not
  \<^verbatim>\<open>in updates\<close>, and a nullable field that is present holds a \<open>string option\<close>.
\<close>

record TimerUpdates =
  upd_description :: "string option option"
  upd_projectId :: "string option option"
  upd_taskId :: "string option option"
  upd_tagIds :: "string list option"
  upd_billable :: "bool option"

definition update_payloadToSend ::
  "string \<Rightarrow> TimerUpdates \<Rightarrow> TimeEntryResource \<Rightarrow> payload"
where
  "update_payloadToSend correctMemberId updates entryToUpdate =
     [(''member_id'', JString correctMemberId),
      (''billable'', JBool (case upd_billable updates of
                             Some b \<Rightarrow> b | None \<Rightarrow> entry_billable entryToUpdate)),
      (''project_id'', nullable (case upd_projectId updates of
                             Some v \<Rightarrow> v | None \<Rightarrow> entry_project_id entryToUpdate)),
      (''task_id'', nullable (case upd_taskId updates of
                             Some v \<Rightarrow> v | None \<Rightarrow> entry_task_id entryToUpdate)),
      (''description'', nullable (case upd_description updates of
                             Some v \<Rightarrow> v | None \<Rightarrow> entry_description entryToUpdate)),
      (''tags'', JArray (case upd_tagIds updates of
                             Some v \<Rightarrow> v | None \<Rightarrow> entry_tags entryToUpdate))]"

definition updateActiveTimerDetails_send ::
  "Service \<Rightarrow> SolidTimeApi \<Rightarrow> string \<Rightarrow> TimeEntryResource \<Rightarrow> payload \<Rightarrow> SolidTimePlugin
     \<Rightarrow> SolidTimePlugin"
where
  "updateActiveTimerDetails_send srv a orgIdForEntry entryToUpdate payloadToSend p =
     (let p1 = notice ''SolidTime: Updating timer...'' p
      in case stopTimeEntry a (requestUrl_entry srv) orgIdForEntry (entry_id entryToUpdate)
                payloadToSend (trace p1) of
           (Inr updatedEntry, tr) \<Rightarrow>
             notice ''SolidTime: Timer updated!''
               (updateSolidTimeView (renderStatusBar
                  (p1\<lparr>activeTimeEntry := Some updatedEntry, trace := tr\<rparr>)))
         | (Inl e, tr) \<Rightarrow>
             updateStatus srv
               (notice ''SolidTime: Failed to update timer. Check console.''
                  (console_error (p1\<lparr>trace := tr\<rparr>))))"

definition updateActiveTimerDetails_user ::
  "Service \<Rightarrow> SolidTimeApi \<Rightarrow> SolidTimePlugin \<Rightarrow> (error + UserResource) \<times> SolidTimePlugin"
where
  "updateActiveTimerDetails_user srv a p =
     (case currentUser p of
        Some u \<Rightarrow> (Inr u, p)
      | None \<Rightarrow>
          (case getMe a (requestUrl_user srv) (trace p) of
             (Inr u, tr) \<Rightarrow> (Inr u, p\<lparr>currentUser := Some u, trace := tr\<rparr>)
           | (Inl e, tr) \<Rightarrow>
               (Inl e, p\<lparr>trace := tr @ [Notice ''Error: Could not verify current user.'']\<rparr>)))"

definition updateActiveTimerDetails ::
  "Service \<Rightarrow> TimerUpdates \<Rightarrow> SolidTimePlugin \<Rightarrow> SolidTimePlugin option"
where
  "updateActiveTimerDetails srv updates p =
     (case api p of
        None \<Rightarrow> Some (notice ''SolidTime: API not configured.'' p)
      | Some a \<Rightarrow>
          (case updateActiveTimerDetails_user srv a p of
             (Inl e, p1) \<Rightarrow> Some p1
           | (Inr u, p1) \<Rightarrow>
               (case activeTimeEntry p1 of
                  None \<Rightarrow> Some (notice ''SolidTime: No timer is running to update.'' p1)
                | Some entryToUpdate \<Rightarrow>
                    if entry_organization_id entryToUpdate = [] \<or> entry_start entryToUpdate = []
                    then Some (notice ''Error: Active entry data incomplete.'' p1)
                    else
                      (let orgIdForEntry = entry_organization_id entryToUpdate
                       in case getMembers a (requestUrl_members srv) orgIdForEntry (trace p1) of
                            None \<Rightarrow> None
                          | Some (members, tr) \<Rightarrow>
                              (case find (\<lambda>member. member_user_id member = user_id u) members of
                                 None \<Rightarrow>
                                   Some (p1\<lparr>trace := tr @
                                     [Notice (''Error: User not found in org '' @ orgIdForEntry @
                                              ''.'')]\<rparr>)
                               | Some currentMembership \<Rightarrow>
                                   if member_id currentMembership = [] then
                                     Some (p1\<lparr>trace := tr @
                                       [Notice ''Error determining Member ID.'']\<rparr>)
                                   else
                                     Some (updateActiveTimerDetails_send srv a orgIdForEntry
                                       entryToUpdate
                                       (update_payloadToSend (member_id currentMembership) updates
                                          entryToUpdate)
                                       (p1\<lparr>trace := tr\<rparr>)))))))"

subsection \<open>loadSolidTimeData\<close>

text \<open>
  A promise is fulfilled with a value, is rejected with an error, or never settles.
  \<^verbatim>\<open>Promise.all\<close> of three promises is rejected as soon as one of them is, is
  fulfilled once all three are, and otherwise never settles. When more than one is
  rejected the error kept is that of the first to reject; here it is the first in the
  order of the arguments, and the code only logs it.
\<close>

datatype 'a settled = Fulfilled 'a | Rejected error | Pending

definition Promise_all :: "'a settled \<Rightarrow> 'b settled \<Rightarrow> 'c settled \<Rightarrow> ('a \<times> 'b \<times> 'c) settled" where
  "Promise_all x y z =
     (case x of
        Rejected e \<Rightarrow> Rejected e
      | _ \<Rightarrow>
        (case y of
           Rejected e \<Rightarrow> Rejected e
         | _ \<Rightarrow>
           (case z of
              Rejected e \<Rightarrow> Rejected e
            | _ \<Rightarrow>
              (case (x, y, z) of
                 (Fulfilled u, Fulfilled v, Fulfilled w) \<Rightarrow> Fulfilled (u, v, w)
               | _ \<Rightarrow> Pending))))"

text \<open>How a paginated fetch ends, and the events it has added to a trace.\<close>

definition settle :: "((error + 'a) \<times> event list) option \<Rightarrow> 'a settled" where
  "settle r =
     (case r of
        None \<Rightarrow> Pending
      | Some (Inr v, tr) \<Rightarrow> Fulfilled v
      | Some (Inl e, tr) \<Rightarrow> Rejected e)"

definition events_since :: "event list \<Rightarrow> ('a \<times> event list) option \<Rightarrow> event list" where
  "events_since tr r = (case r of None \<Rightarrow> [] | Some (v, tr1) \<Rightarrow> drop (length tr) tr1)"

text \<open>
  The three fetches are started together, so each of them begins with the trace as it
  is at the call. Their events are recorded one fetch after the other, projects, tasks,
  then tags; in the code the requests of the three interleave in an order that depends
  on when the responses arrive, which is not modelled, and the events of a fetch that
  never settles are left out. The caches depend only on how the three fetches end.
\<close>

definition clear_caches :: "SolidTimePlugin \<Rightarrow> SolidTimePlugin" where
  "clear_caches p = p\<lparr>projects := [], tasks := [], tags := []\<rparr>"

definition loadSolidTimeData :: "Service \<Rightarrow> SolidTimePlugin \<Rightarrow> SolidTimePlugin option" where
  "loadSolidTimeData srv p =
     (case api p of
        None \<Rightarrow> Some (clear_caches p)
      | Some a \<Rightarrow>
          if selectedOrganizationId (settings p) = [] then Some (clear_caches p)
          else
            (let fetchedProjects =
                   getProjects a (requestUrl_projects srv)
                     (selectedOrganizationId (settings p)) (trace p);
                 fetchedTasks =
                   getTasks a (requestUrl_tasks srv)
                     (selectedOrganizationId (settings p)) None (trace p);
                 fetchedTags =
                   getTags a (requestUrl_tags srv) (selectedOrganizationId (settings p)) (trace p);
                 tr = trace p @ events_since (trace p) fetchedProjects @
                        events_since (trace p) fetchedTasks @
                        drop (length (trace p)) (snd fetchedTags)
             in case Promise_all (settle fetchedProjects) (settle fetchedTasks)
                       (Fulfilled (fst fetchedTags)) of
                  Fulfilled (ps, ts, gs) \<Rightarrow>
                    Some (p\<lparr>projects := ps, tasks := ts, tags := gs, trace := tr\<rparr>)
                | Rejected e \<Rightarrow> Some (clear_caches (console_error (p\<lparr>trace := tr\<rparr>)))
                | Pending \<Rightarrow> None))"

subsection \<open>Tags: createTag and the Create button of TagSelectionModal\<close>

text \<open>
  \<^verbatim>\<open>Array.prototype.sort\<close> with a comparator: a stable sort, written here as an
  insertion sort. The two agree for a comparator that is a total preorder, as
  \<^verbatim>\<open>localeCompare\<close> is; for any other comparator the order the engine produces is
  not specified. \<^verbatim>\<open>localeCompare\<close> and \<^verbatim>\<open>toLowerCase\<close> depend on the locale and
  are arguments.
\<close>

fun insert_sorted :: "('a \<Rightarrow> 'a \<Rightarrow> int) \<Rightarrow> 'a \<Rightarrow> 'a list \<Rightarrow> 'a list" where
  "insert_sorted cmp x [] = [x]"
| "insert_sorted cmp x (y # ys) =
     (if cmp x y \<le> 0 then x # y # ys else y # insert_sorted cmp x ys)"

definition Array_sort :: "('a \<Rightarrow> 'a \<Rightarrow> int) \<Rightarrow> 'a list \<Rightarrow> 'a list" where
  "Array_sort cmp xs = foldr (insert_sorted cmp) xs []"









section \<open>A concrete service, for running the model\<close>

definition demo_api :: SolidTimeApi where
  "demo_api = new_SolidTimeApi ''key'' ''https://app.solidtime.io/api/''"

definition demo_entry :: TimeEntryResource where
  "demo_entry =
     \<lparr>entry_id = ''e1'', entry_start = ''2024-01-01T12:00:00Z'', entry_end = None,
      entry_duration = None, entry_description = Some ''Writing spec'',
      entry_task_id = None, entry_project_id = Some ''p1'', entry_organization_id = ''org1'',
      entry_user_id = ''u1'', entry_tags = [''t1''], entry_billable = True\<rparr>"

definition respond :: "nat \<Rightarrow> 'a option \<Rightarrow> 'a RequestUrlResponse" where
  "respond code v =
     \<lparr>status = code, arrayBuffer_byteLength = (if v = None then 0 else 2),
      response_text = (if v = None then [] else ''{}''), json = Inr v,
      json_message = [], json_errors = None\<rparr>"

text \<open>
  A paginated endpoint that answers by URL: the page listed for the URL requested, and
  404 for any other URL.
\<close>

definition paged ::
  "(string \<times> 'a PaginatedResponse option) list \<Rightarrow> 'a PaginatedResponse requestUrl"
where
  "paged table hist r =
     (case map_of table (url r) of
        Some pg \<Rightarrow> Inr (respond 200 pg)
      | None \<Rightarrow> Inr (respond 404 None))"

text \<open>An endpoint whose every page links to a next one.\<close>

definition cyclic :: "'a list \<Rightarrow> 'a PaginatedResponse requestUrl" where
  "cyclic d hist r =
     Inr (respond 200 (Some (PaginatedResponse (Some d) (Some ''/v1/organizations/org1/projects?page=2''))))"

definition demo_project :: "nat \<Rightarrow> ProjectResource" where
  "demo_project n =
     \<lparr>project_id = String_of_nat n, project_name = ''Project '' @ String_of_nat n,
      project_color = ''#000000'', project_client_id = None, project_is_archived = False,
      project_billable_rate = None, project_is_billable = False,
      project_estimated_time = None, project_spent_time = 0, project_is_public = False\<rparr>"

definition page2_url :: string where
  "page2_url = ''https://app.solidtime.io/api/v1/organizations/org1/projects?page=2''"

definition page3_url :: string where
  "page3_url = ''https://app.solidtime.io/api/v1/organizations/org1/projects?page=3''"

definition three_pages :: "ProjectResource PaginatedResponse option list" where
  "three_pages =
     [Some (PaginatedResponse (Some (map demo_project [0..<10])) (Some page2_url)),
      Some (PaginatedResponse (Some (map demo_project [10..<20])) (Some page3_url)),
      Some (PaginatedResponse (Some (map demo_project [20..<30])) None)]"

text \<open>The three pages, each under its URL.\<close>

definition projects_table :: "(string \<times> ProjectResource PaginatedResponse option) list" where
  "projects_table =
     zip [''https://app.solidtime.io/api/v1/organizations/org1/projects?archived=false'',
          page2_url, page3_url] three_pages"

text \<open>A configured plugin, idle or with a running entry, and a service that answers.\<close>

definition demo_settings :: SolidTimeSettings where
  "demo_settings =
     \<lparr>apiKey = ''key'', apiBaseUrl = ''https://app.solidtime.io/api/'',
      selectedOrganizationId = ''org1'', selectedMemberId = ''m1'',
      statusBarUpdateIntervalSeconds = 30, autoFetchIntervalMinutes = 15,
      defaultBillable = False\<rparr>"

definition demo_user :: UserResource where
  "demo_user =
     \<lparr>user_id = ''u1'', user_name = ''Ada'', user_email = ''ada@example.org'',
      user_profile_photo_url = [], user_timezone = ''Europe/Berlin'',
      user_week_start = ''monday''\<rparr>"

definition demo_member :: MemberResource where
  "demo_member =
     \<lparr>member_id = ''m1'', member_user_id = ''u1'', member_name = ''Ada'',
      member_email = ''ada@example.org'', member_role = ''owner'',
      member_is_placeholder = False, member_billable_rate = None\<rparr>"

definition other_member :: MemberResource where
  "other_member =
     \<lparr>member_id = ''m2'', member_user_id = ''u2'', member_name = ''Bob'',
      member_email = ''bob@example.org'', member_role = ''employee'',
      member_is_placeholder = False, member_billable_rate = None\<rparr>"

definition idle_plugin :: SolidTimePlugin where
  "idle_plugin =
     \<lparr>settings = demo_settings, api = Some demo_api, statusBarItemEl = True,
      activeTimeEntry = None, projects = [], tasks = [], tags = [],
      currentUser = Some demo_user, trace = []\<rparr>"

definition running_plugin :: SolidTimePlugin where
  "running_plugin = idle_plugin\<lparr>activeTimeEntry := Some demo_entry\<rparr>"

definition demo_now :: moment where
  "demo_now =
     \<lparr>moment_year = 2024, moment_month = 1, moment_date = 1, moment_hours = 12,
      moment_minutes = 0, moment_seconds = 0\<rparr>"

definition later_now :: moment where
  "later_now =
     \<lparr>moment_year = 2025, moment_month = 11, moment_date = 3, moment_hours = 9,
      moment_minutes = 41, moment_seconds = 7\<rparr>"

definition demo_options :: StartOptions where
  "demo_options =
     \<lparr>opt_description = Some ''Writing spec'', opt_projectId = Some ''p1'', opt_taskId = None,
      opt_tagIds = [], opt_billable = True\<rparr>"

definition demo_tag :: TagResource where
  "demo_tag =
     \<lparr>tag_id = ''t1'', tag_name = ''Focus'', tag_created_at = ''2024-01-01T00:00:00Z'',
      tag_updated_at = ''2024-01-01T00:00:00Z''\<rparr>"

definition demo_service :: Service where
  "demo_service =
     \<lparr>requestUrl_user = (\<lambda>hist r. Inr (respond 200 (Some (Envelope (Some demo_user))))),
      requestUrl_entry = (\<lambda>hist r. Inr (respond 200 (Some (Envelope (Some demo_entry))))),
      requestUrl_members =
        (\<lambda>hist r. Inr (respond 200 (Some (PaginatedResponse (Some [demo_member]) None)))),
      requestUrl_projects =
        (\<lambda>hist r. Inr (respond 200 (Some (PaginatedResponse (Some [demo_project 0]) None)))),
      requestUrl_tasks = (\<lambda>hist r. Inr (respond 200 (Some (PaginatedResponse (Some []) None)))),
      requestUrl_tags = (\<lambda>hist r. Inr (respond 200 (Some (Envelope (Some [demo_tag]))))),
      requestUrl_tag = (\<lambda>hist r. Inr (respond 200 (Some (Envelope (Some demo_tag)))))\<rparr>"

text \<open>The same service with every time-entry request answered by 500.\<close>

definition failing_service :: Service where
  "failing_service = demo_service\<lparr>requestUrl_entry := (\<lambda>hist r. Inr (respond 500 None))\<rparr>"

text \<open>
  A service that rejects every PUT with 500 and otherwise reports the entry as running.
\<close>

definition put_failing_service :: Service where
  "put_failing_service =
     demo_service\<lparr>requestUrl_entry :=
       (\<lambda>hist r. if http_method r = ''PUT'' then Inr (respond 500 None)
                  else Inr (respond 200 (Some (Envelope (Some demo_entry)))))\<rparr>"

text \<open>A service whose organization does not list the current user.\<close>

definition stranger_service :: Service where
  "stranger_service =
     demo_service\<lparr>requestUrl_members :=
       (\<lambda>hist r. Inr (respond 200 (Some (PaginatedResponse (Some [other_member]) None))))\<rparr>"

text \<open>
  A service where the current user is a member under another id than the one in the
  settings of the plugin.
\<close>

definition moved_member :: MemberResource where
  "moved_member = demo_member\<lparr>member_id := ''m9''\<rparr>"

definition moved_service :: Service where
  "moved_service =
     demo_service\<lparr>requestUrl_members :=
       (\<lambda>hist r. Inr (respond 200 (Some (PaginatedResponse (Some [moved_member]) None))))\<rparr>"

text \<open>The plugin with no member id in its settings.\<close>

definition no_member_plugin :: SolidTimePlugin where
  "no_member_plugin = idle_plugin\<lparr>settings := demo_settings\<lparr>selectedMemberId := []\<rparr>\<rparr>"

definition demo_updates :: TimerUpdates where
  "demo_updates =
     \<lparr>upd_description = None, upd_projectId = None, upd_taskId = None,
      upd_tagIds = Some [''t1'', ''t2''], upd_billable = None\<rparr>"

text \<open>Services whose tags endpoint, or projects endpoint, answers with 500.\<close>

definition tags_failing_service :: Service where
  "tags_failing_service = demo_service\<lparr>requestUrl_tags := (\<lambda>hist r. Inr (respond 500 None))\<rparr>"

definition projects_failing_service :: Service where
  "projects_failing_service =
     demo_service\<lparr>requestUrl_projects := (\<lambda>hist r. Inr (respond 500 None))\<rparr>"

definition tasks_failing_service :: Service where
  "tasks_failing_service =
     demo_service\<lparr>requestUrl_tasks := (\<lambda>hist r. Inr (respond 500 None))\<rparr>"

text \<open>
  A service whose projects endpoint serves empty pages that always link to a next one,
  and whose tasks endpoint answers with 500.
\<close>

definition stuck_service :: Service where
  "stuck_service = tasks_failing_service\<lparr>requestUrl_projects := cyclic []\<rparr>"

text \<open>The idle plugin with caches filled by an earlier refresh.\<close>

definition cached_plugin :: SolidTimePlugin where
  "cached_plugin = idle_plugin\<lparr>projects := [demo_project 7], tags := [demo_tag]\<rparr>"

text \<open>
  Stand-ins for \<^verbatim>\<open>localeCompare\<close> and \<^verbatim>\<open>toLowerCase\<close> on ASCII: comparison by
  character code, and the letters A to Z mapped to a to z.
\<close>

fun compare_nats :: "nat list \<Rightarrow> nat list \<Rightarrow> int" where
  "compare_nats [] [] = 0"
| "compare_nats [] (y # ys) = - 1"
| "compare_nats (x # xs) [] = 1"
| "compare_nats (x # xs) (y # ys) =
     (if x < y then - 1 else if y < x then 1 else compare_nats xs ys)"

definition compare_codes :: "string \<Rightarrow> string \<Rightarrow> int" where
  "compare_codes a b = compare_nats (map of_char a) (map of_char b)"

definition ascii_lower :: "string \<Rightarrow> string" where
  "ascii_lower s =
     map (\<lambda>c. if 65 \<le> (of_char c :: nat) \<and> (of_char c :: nat) \<le> 90
              then char_of ((of_char c :: nat) + 32) else c) s"


section \<open>Properties of the string helpers\<close>

lemma String_of_nat_nonempty: "String_of_nat n \<noteq> []"
  by (subst String_of_nat.simps) simp

lemma is_digit_digit_char: "d < 10 \<Longrightarrow> is_digit (digit_char d)"
  by (simp add: is_digit_def digit_char_def)

lemma digit_value: "d < 10 \<Longrightarrow> of_char (digit_char d) - 48 = d"
  by (simp add: digit_char_def)

lemma String_of_nat_digits: "\<forall>c \<in> set (String_of_nat n). is_digit c"
proof (induction n rule: String_of_nat.induct)
  case (1 n)
  show ?case
  proof (cases "n < 10")
    case True
    then show ?thesis
      by (subst String_of_nat.simps) (simp add: is_digit_digit_char)
  next
    case False
    have "n mod 10 < 10" by simp
    with False 1 show ?thesis
      by (subst String_of_nat.simps) (simp add: is_digit_digit_char)
  qed
qed

lemma nat_of_digits_snoc:
  "nat_of_digits (s @ [c]) = 10 * nat_of_digits s + (of_char c - 48)"
  by (simp add: nat_of_digits_def)

lemma nat_of_digits_String_of_nat: "nat_of_digits (String_of_nat n) = n"
proof (induction n rule: String_of_nat.induct)
  case (1 n)
  show ?case
  proof (cases "n < 10")
    case True
    then show ?thesis
      by (subst String_of_nat.simps) (simp add: nat_of_digits_def digit_value)
  next
    case False
    have m: "n mod 10 < 10" by simp
    from False 1 have "nat_of_digits (String_of_nat (n div 10)) = n div 10" by simp
    with False m show ?thesis
      by (subst String_of_nat.simps) (simp add: nat_of_digits_snoc digit_value)
  qed
qed

lemma length_padStart: "length (padStart n c s) = max n (length s)"
  by (simp add: padStart_def)

lemma padStart_long: "n \<le> length s \<Longrightarrow> padStart n c s = s"
  by (simp add: padStart_def)

lemma padStart_digits:
  "\<forall>c \<in> set s. is_digit c \<Longrightarrow> \<forall>c \<in> set (padStart n CHR ''0'' s). is_digit c"
  by (auto simp: padStart_def is_digit_def)

lemma nat_of_digits_zeros: "nat_of_digits (replicate k CHR ''0'' @ s) = nat_of_digits s"
proof -
  have "foldl (\<lambda>acc c. 10 * acc + (of_char c - 48)) 0 (replicate k CHR ''0'') = (0::nat)"
    by (induction k) simp_all
  then show ?thesis by (simp add: nat_of_digits_def)
qed

lemma nat_of_digits_padStart:
  "nat_of_digits (padStart n CHR ''0'' s) = nat_of_digits s"
  by (simp add: padStart_def nat_of_digits_zeros)

section \<open>Transport and getActiveTimeEntry\<close>

lemma sent_append: "sent (xs @ ys) = sent xs @ sent ys"
  by (induction xs rule: sent.induct) simp_all

lemma notices_append: "notices (xs @ ys) = notices xs @ notices ys"
  by (induction xs rule: notices.induct) simp_all

text \<open>What \<^const>\<open>request\<close> does once the service has responded.\<close>

lemma request_sent:
  assumes "api_apiKey a \<noteq> []" "api_baseUrl a \<noteq> []"
    and "requestUrl (sent tr) (prepare a options) = Inr response"
  shows "request a requestUrl options allowed tr =
     (if (200 \<le> status response \<and> status response < 300) \<or> status response \<in> set allowed then
        if status response = 204 then (Inr None, tr @ [Request (prepare a options)])
        else if status response \<in> set allowed then (Inr None, tr @ [Request (prepare a options)])
        else if bodyPresent response then
          (case json response of
             Inl e \<Rightarrow> request_catch e (tr @ [Request (prepare a options)])
           | Inr v \<Rightarrow> (Inr v, tr @ [Request (prepare a options)]))
        else (Inr None, tr @ [Request (prepare a options)])
      else
        (case errorMsg response of
           (msg, warns) \<Rightarrow>
             request_catch (Error msg)
               (tr @ [Request (prepare a options)] @ [ConsoleError] @ warns @ [Notice msg])))"
  using assms by (simp add: request_def Let_def)


text \<open>
  Claim C5. When the client is configured and the service answers the active-entry
  lookup with 404, getActiveTimeEntry returns null without raising, and the only
  effect is the request itself: no notice is shown. When the service answers with a 2xx
  status other than 204 and a body, it returns the data field of the body.
\<close>

theorem getActiveTimeEntry_404_is_null:
  "api_apiKey a \<noteq> [] \<longrightarrow> api_baseUrl a \<noteq> [] \<longrightarrow>
   requestUrl (sent tr) (prepare a (GET url_active)) = Inr response \<longrightarrow>
     (status response = 404 \<longrightarrow>
        getActiveTimeEntry a requestUrl tr =
          (Inr None, tr @ [Request (prepare a (GET url_active))]) \<and>
        notices (snd (getActiveTimeEntry a requestUrl tr)) = notices tr) \<and>
     (200 \<le> status response \<and> status response < 300 \<and> status response \<noteq> 204 \<and>
      bodyPresent response \<and> json response = Inr (Some (Envelope d)) \<longrightarrow>
        getActiveTimeEntry a requestUrl tr =
          (Inr d, tr @ [Request (prepare a (GET url_active))]))"
proof (intro impI conjI)
  assume k: "api_apiKey a \<noteq> []" and b: "api_baseUrl a \<noteq> []"
    and r: "requestUrl (sent tr) (prepare a (GET url_active)) =
      Inr response"
  note rq = request_sent [where requestUrl = requestUrl and allowed = "[404]", OF k b r]
  { assume "status response = 404"
    then show "getActiveTimeEntry a requestUrl tr =
          (Inr None, tr @ [Request (prepare a (GET url_active))])"
      by (simp add: getActiveTimeEntry_def rq)
    then show "notices (snd (getActiveTimeEntry a requestUrl tr)) = notices tr"
      by (simp add: notices_append) }
  { assume "200 \<le> status response \<and> status response < 300 \<and> status response \<noteq> 204 \<and>
      bodyPresent response \<and> json response = Inr (Some (Envelope d))"
    then show "getActiveTimeEntry a requestUrl tr =
          (Inr d, tr @ [Request (prepare a (GET url_active))])"
      by (simp add: getActiveTimeEntry_def rq) }
qed

theorem getActiveTimeEntry_404_is_null_witness:
  "getActiveTimeEntry demo_api (\<lambda>hist r. Inr (respond 404 None)) [] =
     (Inr None, [Request (prepare demo_api (GET url_active))]) \<and>
   notices (snd (getActiveTimeEntry demo_api (\<lambda>hist r. Inr (respond 404 None)) [])) = [] \<and>
   getActiveTimeEntry demo_api
       (\<lambda>hist r. Inr (respond 200 (Some (Envelope (Some demo_entry))))) [] =
     (Inr (Some demo_entry),
      [Request (prepare demo_api (GET url_active))])"
proof -
  have k: "api_apiKey demo_api \<noteq> []" and b: "api_baseUrl demo_api \<noteq> []"
    by (simp_all add: demo_api_def new_SolidTimeApi_def)
  have nf: "status (respond 404 (None :: TimeEntryResource Envelope option)) = 404"
    by (simp add: respond_def)
  have ok: "200 \<le> status (respond 200 (Some (Envelope (Some demo_entry)))) \<and>
      status (respond 200 (Some (Envelope (Some demo_entry)))) < 300 \<and>
      status (respond 200 (Some (Envelope (Some demo_entry)))) \<noteq> 204 \<and>
      bodyPresent (respond 200 (Some (Envelope (Some demo_entry)))) \<and>
      json (respond 200 (Some (Envelope (Some demo_entry)))) =
        Inr (Some (Envelope (Some demo_entry)))"
    by (simp add: respond_def bodyPresent_def)
  from getActiveTimeEntry_404_is_null
    [of demo_api "\<lambda>hist r. Inr (respond 404 None)" "[]" "respond 404 None"] k b nf
  have one: "getActiveTimeEntry demo_api (\<lambda>hist r. Inr (respond 404 None)) [] =
      (Inr None, [Request (prepare demo_api (GET url_active))]) \<and>
    notices (snd (getActiveTimeEntry demo_api (\<lambda>hist r. Inr (respond 404 None)) [])) = []"
    by simp
  from getActiveTimeEntry_404_is_null
    [of demo_api "\<lambda>hist r. Inr (respond 200 (Some (Envelope (Some demo_entry))))" "[]"
        "respond 200 (Some (Envelope (Some demo_entry)))" "Some demo_entry"] k b ok
  have two: "getActiveTimeEntry demo_api
       (\<lambda>hist r. Inr (respond 200 (Some (Envelope (Some demo_entry))))) [] =
     (Inr (Some demo_entry),
      [Request (prepare demo_api (GET url_active))])"
    by simp
  from one two show ?thesis by simp
qed

section \<open>Pagination\<close>

text \<open>A request that returns a value was answered by the service with that value.\<close>

lemma request_Inr:
  assumes "request a req opts allowed tr = (Inr v, tr1)"
  shows "tr1 = tr @ [Request (prepare a opts)] \<and>
     (\<exists>response. req (sent tr) (prepare a opts) = Inr response \<and>
        (v = None \<or> json response = Inr v))"
  using assms
  by (auto simp: request_def Let_def request_catch_def split: if_splits sum.splits prod.splits)

lemma loop_None: "fetchAllPaginated_loop a req d None tr = Some (Inr d, tr)"
  by (subst fetchAllPaginated_loop.simps) simp

lemma loop_empty: "fetchAllPaginated_loop a req d (Some []) tr = Some (Inr d, tr)"
  by (subst fetchAllPaginated_loop.simps) simp

lemma loop_step:
  "u \<noteq> [] \<Longrightarrow> fetchAllPaginated_loop a req d (Some u) tr =
     (case request a req (GET u) [] tr of
        (Inl e, tr1) \<Rightarrow> Some (Inl e, tr1)
      | (Inr response, tr1) \<Rightarrow>
          (case page_step d response tr1 of
             (d1, n1, tr2) \<Rightarrow>
               if length d1 > 10000 then Some (Inr d1, tr2 @ [ConsoleWarn])
               else fetchAllPaginated_loop a req d1 n1 tr2))"
  by (subst fetchAllPaginated_loop.simps) simp

text \<open>
  The loop returns when every page that links to a next page brings at least one item:
  the room left under the ceiling shrinks with each such page.
\<close>

lemma loop_terminates:
  assumes progress: "\<And>hist r response d u. req hist r = Inr response \<Longrightarrow>
      json response = Inr (Some (PaginatedResponse (Some d) (Some u))) \<Longrightarrow> u \<noteq> [] \<Longrightarrow> d \<noteq> []"
  shows "\<exists>res. fetchAllPaginated_loop a req allData nxt tr = Some res"
proof (induction "10001 - length allData" arbitrary: allData nxt tr rule: less_induct)
  case less
  show ?case
  proof (cases nxt)
    case None
    then show ?thesis by (simp add: loop_None)
  next
    case (Some u)
    show ?thesis
    proof (cases "u = []")
      case True
      with Some show ?thesis by (simp add: loop_empty)
    next
      case False
      obtain res tr1 where rq: "request a req (GET u) [] tr = (res, tr1)"
        by (cases "request a req (GET u) [] tr")
      show ?thesis
      proof (cases res)
        case (Inl e)
        with Some False rq show ?thesis by (simp add: loop_step)
      next
        case (Inr response)
        obtain d1 n1 tr2 where ps: "page_step allData response tr1 = (d1, n1, tr2)"
          by (cases "page_step allData response tr1")
        show ?thesis
        proof (cases "length d1 > 10000")
          case True
          with Some False rq Inr ps show ?thesis by (simp add: loop_step)
        next
          case small: False
          have step: "fetchAllPaginated_loop a req allData nxt tr =
              fetchAllPaginated_loop a req d1 n1 tr2"
            using Some False rq Inr ps small by (simp add: loop_step)
          have "\<exists>res. fetchAllPaginated_loop a req d1 n1 tr2 = Some res"
          proof (cases "n1 = None \<or> n1 = Some []")
            case True
            then show ?thesis by (auto simp: loop_None loop_empty)
          next
            case follow: False
            then obtain d u1 where resp: "response = Some (PaginatedResponse (Some d) (Some u1))"
              and u1: "u1 \<noteq> []" and d1: "d1 = allData @ d"
              using ps
              by (auto simp: page_step_def split: option.splits PaginatedResponse.splits)
            from request_Inr [OF rq [unfolded Inr]] resp obtain r0 where
              "req (sent tr) (prepare a (GET u)) = Inr r0"
              "json r0 = Inr (Some (PaginatedResponse (Some d) (Some u1)))"
              by auto
            from progress [OF this u1] have "d \<noteq> []" .
            with d1 small have "10001 - length d1 < 10001 - length allData"
              by (cases d) simp_all
            then show ?thesis by (rule less)
          qed
          with step show ?thesis by simp
        qed
      qed
    qed
  qed
qed

lemma url_nonempty:
  "url_projects orgId \<noteq> []" "url_members orgId \<noteq> []" "url_tasks orgId projectId \<noteq> []"
  "url_tags orgId \<noteq> []" "url_time_entries orgId \<noteq> []" "url_time_entry orgId i \<noteq> []"
  by (simp_all add: url_projects_def url_members_def url_tasks_def url_tags_def
      url_time_entries_def url_time_entry_def)

lemma demo_api_configured: "api_apiKey demo_api \<noteq> []" "api_baseUrl demo_api \<noteq> []"
  by (simp_all add: demo_api_def new_SolidTimeApi_def)

lemma request_cyclic:
  "request demo_api (cyclic d) opts [] tr =
     (Inr (Some (PaginatedResponse (Some d) (Some ''/v1/organizations/org1/projects?page=2''))),
      tr @ [Request (prepare demo_api opts)])"
  using demo_api_configured
  by (simp add: request_def Let_def cyclic_def respond_def bodyPresent_def)

text \<open>An endpoint that serves empty pages with a next link is followed forever.\<close>

lemma cyclic_empty_no_result:
  assumes "fetchAllPaginated_loop a req allData nxt tr = Some y"
  shows "\<not> (a = demo_api \<and> req = cyclic [] \<and> allData = [] \<and> (\<exists>u. nxt = Some u \<and> u \<noteq> []))"
proof (rule fetchAllPaginated_loop.raw_induct
    [where P = "\<lambda>a req allData nxt tr y.
       \<not> (a = demo_api \<and> req = cyclic [] \<and> allData = [] \<and> (\<exists>u. nxt = Some u \<and> u \<noteq> []))",
     OF _ assms])
  fix f :: "SolidTimeApi \<Rightarrow> 'a PaginatedResponse requestUrl \<Rightarrow> 'a list \<Rightarrow> string option
      \<Rightarrow> event list \<Rightarrow> ((error + 'a list) \<times> event list) option"
  fix a req allData nxt tr y
  assume IH: "\<And>a req allData nxt tr y. f a req allData nxt tr = Some y \<Longrightarrow>
      \<not> (a = demo_api \<and> req = cyclic [] \<and> allData = [] \<and> (\<exists>u. nxt = Some u \<and> u \<noteq> []))"
  assume body: "(case nxt of
        None \<Rightarrow> Some (Inr allData, tr)
      | Some u \<Rightarrow>
          if u = [] then Some (Inr allData, tr)
          else
            (case request a req (GET u) [] tr of
               (Inl e, tr1) \<Rightarrow> Some (Inl e, tr1)
             | (Inr response, tr1) \<Rightarrow>
                 (case page_step allData response tr1 of
                    (allData1, nextPageUrl1, tr2) \<Rightarrow>
                      if length allData1 > 10000 then Some (Inr allData1, tr2 @ [ConsoleWarn])
                      else f a req allData1 nextPageUrl1 tr2))) = Some y"
  show "\<not> (a = demo_api \<and> req = cyclic [] \<and> allData = [] \<and> (\<exists>u. nxt = Some u \<and> u \<noteq> []))"
  proof
    assume s: "a = demo_api \<and> req = cyclic [] \<and> allData = [] \<and> (\<exists>u. nxt = Some u \<and> u \<noteq> [])"
    then obtain u where u: "nxt = Some u" "u \<noteq> []" by blast
    from body s u have "f demo_api (cyclic []) [] (Some ''/v1/organizations/org1/projects?page=2'')
        (tr @ [Request (prepare demo_api (GET u))]) = Some y"
      by (simp add: request_cyclic page_step_def)
    from IH [OF this] show False by simp
  qed
qed


lemma serves_last:
  "serves a req tr u [pg] =
     (request a req (GET u) [] tr = (Inr pg, tr @ [Request (prepare a (GET u))]))"
  by simp

lemma serves_more:
  assumes "rest \<noteq> []"
  shows "serves a req tr u (pg # rest) =
     (request a req (GET u) [] tr = (Inr pg, tr @ [Request (prepare a (GET u))]) \<and>
      (\<exists>d n. pg = Some (PaginatedResponse (Some d) (Some n)) \<and> n \<noteq> [] \<and>
         serves a req (tr @ [Request (prepare a (GET u))]) n rest))"
proof -
  from assms obtain x xs where r: "rest = x # xs" by (cases rest) auto
  show ?thesis
    unfolding r
    by (subst serves.simps(2))
       (auto simp del: serves.simps split: option.splits PaginatedResponse.splits)
qed

lemma chain_urls_more:
  "chain_urls u (Some (PaginatedResponse d (Some n)) # rest) = u # chain_urls n rest"
  by simp

text \<open>
  Following a chain of linked pages: the pages of \<open>front\<close> are appended one after the
  other, each requested at the next link of the page before it, and the loop ends at
  \<open>lastp\<close>.
\<close>

lemma chain_run:
  "\<lbrakk>serves a req tr u (front @ [lastp]); u \<noteq> [];
      length (allData @ concat (map items front)) \<le> 10000;
      lastp = None \<or> page_data (the lastp) = None \<or> links_next (the lastp) = None \<or>
        links_next (the lastp) = Some [] \<or>
        length (allData @ concat (map items (front @ [lastp]))) > 10000\<rbrakk>
    \<Longrightarrow> \<exists>tr1. fetchAllPaginated_loop a req allData (Some u) tr =
          Some (Inr (allData @ concat (map items (front @ [lastp]))), tr1) \<and>
          sent tr1 = sent tr @ map (\<lambda>v. prepare a (GET v)) (chain_urls u (front @ [lastp])) \<and>
          length (chain_urls u (front @ [lastp])) = length (front @ [lastp])"
proof (induction front arbitrary: allData u tr)
  case Nil
  then have rq: "request a req (GET u) [] tr = (Inr lastp, tr @ [Request (prepare a (GET u))])"
    by (simp add: serves_last)
  have urls: "chain_urls u [lastp] = [u]"
    by (simp split: option.splits PaginatedResponse.splits)
  show ?case
  proof (cases lastp)
    case None
    with rq Nil.prems urls show ?thesis
      by (simp add: loop_step page_step_def items_def loop_None sent_append)
  next
    case (Some pg)
    obtain pd nx where pg: "pg = PaginatedResponse pd nx" by (cases pg)
    show ?thesis
    proof (cases pd)
      case None
      with rq Nil.prems Some pg urls show ?thesis
        by (simp add: loop_step page_step_def items_def loop_None sent_append)
    next
      case (Some d)
      with rq Nil.prems \<open>lastp = Some pg\<close> pg urls show ?thesis
        by (auto simp: loop_step page_step_def items_def loop_None loop_empty sent_append)
    qed
  qed
next
  case (Cons p front)
  have ne: "front @ [lastp] \<noteq> []" by simp
  from Cons.prems(1) have sv: "serves a req tr u (p # (front @ [lastp]))" by simp
  from sv [unfolded serves_more [OF ne]]
  have rq: "request a req (GET u) [] tr = (Inr p, tr @ [Request (prepare a (GET u))])"
    by simp
  from sv [unfolded serves_more [OF ne]]
  obtain d u1 where p: "p = Some (PaginatedResponse (Some d) (Some u1))"
    and u1: "u1 \<noteq> []"
    and rest: "serves a req (tr @ [Request (prepare a (GET u))]) u1 (front @ [lastp])"
    by blast
  have ip: "items p = d" by (simp add: p items_def)
  from Cons.prems(3) ip have small: "\<not> length (allData @ d) > 10000" by simp
  have step: "fetchAllPaginated_loop a req allData (Some u) tr =
      fetchAllPaginated_loop a req (allData @ d) (Some u1) (tr @ [Request (prepare a (GET u))])"
    using rq small Cons.prems(2) by (simp add: loop_step page_step_def p)
  have "\<exists>tr1. fetchAllPaginated_loop a req (allData @ d) (Some u1)
        (tr @ [Request (prepare a (GET u))]) =
      Some (Inr ((allData @ d) @ concat (map items (front @ [lastp]))), tr1) \<and>
      sent tr1 = sent (tr @ [Request (prepare a (GET u))]) @
        map (\<lambda>v. prepare a (GET v)) (chain_urls u1 (front @ [lastp])) \<and>
      length (chain_urls u1 (front @ [lastp])) = length (front @ [lastp])"
  proof (rule Cons.IH)
    show "serves a req (tr @ [Request (prepare a (GET u))]) u1 (front @ [lastp])" by (rule rest)
    show "u1 \<noteq> []" by (rule u1)
    show "length ((allData @ d) @ concat (map items front)) \<le> 10000"
      using Cons.prems(3) ip by simp
    show "lastp = None \<or> page_data (the lastp) = None \<or> links_next (the lastp) = None \<or>
        links_next (the lastp) = Some [] \<or>
        length ((allData @ d) @ concat (map items (front @ [lastp]))) > 10000"
      using Cons.prems(4) ip by simp
  qed
  with step ip p show ?case by (simp add: sent_append del: serves.simps)
qed

text \<open>
  Claim C4, as the code has it. The loop counts items, not requests, so it returns
  whenever every page that links to a next page brings at least one item. On a chain
  of linked pages that stays within 10,000 items before its last response, the loop
  requests the initial URL and then the next link of each page, in that order and
  nothing else, and the result is the concatenation of the data arrays in page order,
  without an error; the last response is the one that ends the loop: a null body, a
  body whose data is not an array, a page without a next link (or with an empty one),
  or the page that takes the accumulator past 10,000 items.
\<close>

theorem fetchAllPaginated_pages:
  "(initialUrl \<noteq> [] \<and> serves a requestUrl tr initialUrl (front @ [lastp]) \<and>
    length (concat (map items front)) \<le> 10000 \<and>
    (lastp = None \<or> page_data (the lastp) = None \<or> links_next (the lastp) = None \<or>
     links_next (the lastp) = Some [] \<or>
     length (concat (map items (front @ [lastp]))) > 10000)
    \<longrightarrow>
      (\<exists>tr1. fetchAllPaginated a requestUrl initialUrl tr =
         Some (Inr (concat (map items (front @ [lastp]))), tr1) \<and>
         sent tr1 =
           sent tr @ map (\<lambda>v. prepare a (GET v)) (chain_urls initialUrl (front @ [lastp])) \<and>
         length (chain_urls initialUrl (front @ [lastp])) = length (front @ [lastp]))) \<and>
   ((\<forall>hist r response d u.
       requestUrl hist r = Inr response \<longrightarrow>
       json response = Inr (Some (PaginatedResponse (Some d) (Some u))) \<longrightarrow> u \<noteq> [] \<longrightarrow> d \<noteq> [])
    \<longrightarrow> (\<exists>res. fetchAllPaginated a requestUrl initialUrl tr = Some res))"
proof (intro conjI impI)
  assume h: "initialUrl \<noteq> [] \<and> serves a requestUrl tr initialUrl (front @ [lastp]) \<and>
    length (concat (map items front)) \<le> 10000 \<and>
    (lastp = None \<or> page_data (the lastp) = None \<or> links_next (the lastp) = None \<or>
     links_next (the lastp) = Some [] \<or>
     length (concat (map items (front @ [lastp]))) > 10000)"
  from chain_run [of a requestUrl tr initialUrl front lastp "[]"] h
  show "\<exists>tr1. fetchAllPaginated a requestUrl initialUrl tr =
         Some (Inr (concat (map items (front @ [lastp]))), tr1) \<and>
         sent tr1 =
           sent tr @ map (\<lambda>v. prepare a (GET v)) (chain_urls initialUrl (front @ [lastp])) \<and>
         length (chain_urls initialUrl (front @ [lastp])) = length (front @ [lastp])"
    by (simp add: fetchAllPaginated_def)
next
  assume "\<forall>hist r response d u.
       requestUrl hist r = Inr response \<longrightarrow>
       json response = Inr (Some (PaginatedResponse (Some d) (Some u))) \<longrightarrow> u \<noteq> [] \<longrightarrow> d \<noteq> []"
  then have "\<And>hist r response d u. requestUrl hist r = Inr response \<Longrightarrow>
      json response = Inr (Some (PaginatedResponse (Some d) (Some u))) \<Longrightarrow> u \<noteq> [] \<Longrightarrow> d \<noteq> []"
    by blast
  then show "\<exists>res. fetchAllPaginated a requestUrl initialUrl tr = Some res"
    unfolding fetchAllPaginated_def by (rule loop_terminates)
qed

lemma projects_table_serves:
  "serves demo_api (paged projects_table) [] (url_projects ''org1'') three_pages"
  by code_simp

lemma three_pages_urls:
  "chain_urls (url_projects ''org1'') three_pages = [url_projects ''org1'', page2_url, page3_url]"
  by (simp add: three_pages_def)

theorem fetchAllPaginated_pages_witness:
  "(\<exists>tr1. fetchAllPaginated demo_api (paged projects_table) (url_projects ''org1'') [] =
          Some (Inr (map demo_project [0..<30]), tr1) \<and>
          sent tr1 =
            [prepare demo_api (GET (url_projects ''org1'')), prepare demo_api (GET page2_url),
             prepare demo_api (GET page3_url)]) \<and>
   length (map demo_project [0..<30]) = 30 \<and>
   (\<exists>res. fetchAllPaginated demo_api (cyclic [demo_project 0])
            (url_projects ''org1'') [] = Some res)"
proof -
  define front where "front =
     [Some (PaginatedResponse (Some (map demo_project [0..<10])) (Some page2_url)),
      Some (PaginatedResponse (Some (map demo_project [10..<20])) (Some page3_url))]"
  define lastp where "lastp = Some (PaginatedResponse (Some (map demo_project [20..<30])) None)"
  have tp: "three_pages = front @ [lastp]"
    by (simp add: three_pages_def front_def lastp_def)
  have sv: "serves demo_api (paged projects_table) [] (url_projects ''org1'') (front @ [lastp])"
    using projects_table_serves by (simp only: tp)
  have len: "length (concat (map items front)) \<le> 10000"
    by (simp add: front_def items_def)
  have stop: "links_next (the lastp) = None"
    by (simp add: lastp_def)
  have "[0..<30] = [0..<10] @ [10..<20] @ [20..<(30::nat)]"
    by code_simp
  then have all: "concat (map items (front @ [lastp])) = map demo_project [0..<30]"
    by (simp add: front_def lastp_def items_def)
  from all have all3: "concat (map items three_pages) = map demo_project [0..<30]"
    by (simp only: tp)
  have nonempty: "\<forall>hist r response d u.
       cyclic [demo_project 0] hist r = Inr response \<longrightarrow>
       json response = Inr (Some (PaginatedResponse (Some d) (Some u))) \<longrightarrow> u \<noteq> [] \<longrightarrow> d \<noteq> []"
    by (auto simp: cyclic_def respond_def)
  from fetchAllPaginated_pages
    [of "url_projects ''org1''" demo_api "paged projects_table" "[]" front lastp,
     THEN conjunct1, THEN mp]
    sv len stop url_nonempty(1) [of "''org1''"]
  have "\<exists>tr1. fetchAllPaginated demo_api (paged projects_table) (url_projects ''org1'') [] =
         Some (Inr (concat (map items (front @ [lastp]))), tr1) \<and>
         sent tr1 =
           sent [] @ map (\<lambda>v. prepare demo_api (GET v))
             (chain_urls (url_projects ''org1'') (front @ [lastp])) \<and>
         length (chain_urls (url_projects ''org1'') (front @ [lastp])) = length (front @ [lastp])"
    by blast
  then have one: "\<exists>tr1. fetchAllPaginated demo_api (paged projects_table)
          (url_projects ''org1'') [] =
          Some (Inr (map demo_project [0..<30]), tr1) \<and>
          sent tr1 =
            [prepare demo_api (GET (url_projects ''org1'')), prepare demo_api (GET page2_url),
             prepare demo_api (GET page3_url)]"
    unfolding tp [symmetric] three_pages_urls all3 by auto
  from fetchAllPaginated_pages
    [of "url_projects ''org1''" demo_api "cyclic [demo_project 0]" "[]" front lastp,
     THEN conjunct2, THEN mp, OF nonempty]
  have two: "\<exists>res. fetchAllPaginated demo_api (cyclic [demo_project 0])
            (url_projects ''org1'') [] = Some res" .
  have "length (map demo_project [0..<30]) = 30" by simp
  with one two show ?thesis by blast
qed

text \<open>
  As the claim states it, the loop would return on every service. On the endpoint whose
  pages are empty and always link to a next page it does not: \<^const>\<open>getProjects\<close> has
  no result.
\<close>

theorem getProjects_empty_cycle_never_returns:
  "getProjects demo_api (cyclic []) ''org1'' [] = None"
proof (cases "getProjects demo_api (cyclic []) ''org1'' []")
  case None
  then show ?thesis .
next
  case (Some y)
  then have "fetchAllPaginated_loop demo_api (cyclic [])
      [] (Some (url_projects ''org1'')) [] = Some y"
    by (simp add: getProjects_def fetchAllPaginated_def)
  from cyclic_empty_no_result [OF this] show ?thesis by (simp add: url_nonempty)
qed

section \<open>What the client methods add to the trace\<close>

lemma writes_append: "writes (xs @ ys) = writes xs @ writes ys"
  by (simp add: writes_def sent_append)

lemma writes_no_request: "sent ev = [] \<Longrightarrow> writes ev = []"
  by (simp add: writes_def)

lemma writes_other [simp]:
  "writes [] = []" "writes [Notice s] = []" "writes [ConsoleError] = []"
  "writes [ConsoleWarn] = []" "writes [StatusBarText s] = []"
  "writes [RenderStatusBar e] = []" "writes [UpdateView e] = []"
  by (simp_all add: writes_def)

lemma writes_Cons [simp]:
  "writes (Notice s # es) = writes es" "writes (ConsoleError # es) = writes es"
  "writes (ConsoleWarn # es) = writes es" "writes (StatusBarText s # es) = writes es"
  "writes (RenderStatusBar e # es) = writes es" "writes (UpdateView e # es) = writes es"
  "writes (Request r # es) = (if http_method r \<noteq> ''GET'' then r # writes es else writes es)"
  by (simp_all add: writes_def)

lemma prepare_fields:
  "http_method (prepare a opts) = http_method opts" "body (prepare a opts) = body opts"
  by (simp_all add: prepare_def)

lemma writes_GET: "sent ev = [prepare a (GET u)] \<Longrightarrow> writes ev = []"
  by (simp add: writes_def prepare_fields GET_def)

lemma errorMsg_warns: "errorMsg response = (msg, warns) \<Longrightarrow> sent warns = []"
  by (auto simp: errorMsg_def Let_def split: sum.splits option.splits if_splits)

lemma request_Inr_Some:
  assumes "request a req opts [] tr = (Inr (Some v), tr1)"
  shows "tr1 = tr @ [Request (prepare a opts)] \<and>
     (\<exists>response. req (sent tr) (prepare a opts) = Inr response \<and>
        200 \<le> status response \<and> status response < 300 \<and> json response = Inr (Some v))"
  using assms
  by (auto simp: request_def Let_def request_catch_def split: if_splits sum.splits prod.splits)

lemma request_trace:
  "\<exists>ev. snd (request a req opts allowed tr) = tr @ ev \<and>
     (sent ev = [] \<or> sent ev = [prepare a opts])"
  by (auto simp: request_def Let_def request_catch_def sent_append
      split: if_splits sum.splits prod.splits dest: errorMsg_warns)

lemma request_configured:
  assumes "api_apiKey a \<noteq> []" "api_baseUrl a \<noteq> []"
  shows "\<exists>ev. snd (request a req opts allowed tr) = tr @ ev \<and> sent ev = [prepare a opts]"
  using assms
  by (auto simp: request_def Let_def request_catch_def sent_append
      split: if_splits sum.splits prod.splits dest: errorMsg_warns)

lemma request_traceE:
  assumes "request a req opts allowed tr = (res, tr1)"
  obtains ev where "tr1 = tr @ ev" "sent ev = [] \<or> sent ev = [prepare a opts]"
  using request_trace [of a req opts allowed tr] assms by auto

subsection \<open>Reads\<close>

lemma getMe_trace:
  assumes "getMe a req tr = (res, tr1)"
  obtains ev where "tr1 = tr @ ev" "writes ev = []"
proof -
  obtain r t where rq: "request a req (GET ''/v1/users/me'') [] tr = (r, t)"
    by (cases "request a req (GET ''/v1/users/me'') [] tr")
  with assms have "tr1 = t"
    by (auto simp: getMe_def split: sum.splits option.splits Envelope.splits)
  with request_traceE [OF rq] that show ?thesis
    by (metis writes_GET writes_no_request)
qed

lemma getActiveTimeEntry_trace:
  assumes "getActiveTimeEntry a req tr = (res, tr1)"
  obtains ev where "tr1 = tr @ ev" "writes ev = []"
proof -
  obtain r t where rq: "request a req (GET url_active) [404] tr = (r, t)"
    by (cases "request a req (GET url_active) [404] tr")
  from request_traceE [OF rq] obtain ev where ev: "t = tr @ ev" "writes ev = []"
    by (metis writes_GET writes_no_request)
  from assms rq have "tr1 = t \<or> tr1 = t @ [ConsoleError]"
    by (auto simp: getActiveTimeEntry_def split: sum.splits option.splits)
  then show ?thesis
  proof
    assume "tr1 = t"
    with ev that show ?thesis by blast
  next
    assume "tr1 = t @ [ConsoleError]"
    with ev have "tr1 = tr @ (ev @ [ConsoleError])" "writes (ev @ [ConsoleError]) = []"
      by (simp_all add: writes_append)
    with that show ?thesis by blast
  qed
qed

lemma page_step_trace:
  assumes "page_step d response tr = (d1, n1, tr1)"
  shows "tr1 = tr \<or> tr1 = tr @ [ConsoleWarn]"
  using assms by (auto simp: page_step_def split: option.splits PaginatedResponse.splits)

lemma loop_trace:
  assumes "fetchAllPaginated_loop a req allData nxt tr = Some (res, tr1)"
  shows "\<exists>ev. tr1 = tr @ ev \<and> writes ev = []"
proof -
  have "\<exists>ev. snd (res, tr1) = tr @ ev \<and> writes ev = []"
  proof (rule fetchAllPaginated_loop.raw_induct
      [where P = "\<lambda>a req allData nxt tr y. \<exists>ev. snd y = tr @ ev \<and> writes ev = []",
       OF _ assms])
    fix f :: "SolidTimeApi \<Rightarrow> 'a PaginatedResponse requestUrl \<Rightarrow> 'a list \<Rightarrow> string option
        \<Rightarrow> event list \<Rightarrow> ((error + 'a list) \<times> event list) option"
    fix a req allData nxt tr y
    assume IH: "\<And>a req allData nxt tr y. f a req allData nxt tr = Some y \<Longrightarrow>
        \<exists>ev. snd y = tr @ ev \<and> writes ev = []"
    assume body: "(case nxt of
          None \<Rightarrow> Some (Inr allData, tr)
        | Some u \<Rightarrow>
            if u = [] then Some (Inr allData, tr)
            else
              (case request a req (GET u) [] tr of
                 (Inl e, tr1) \<Rightarrow> Some (Inl e, tr1)
               | (Inr response, tr1) \<Rightarrow>
                   (case page_step allData response tr1 of
                      (allData1, nextPageUrl1, tr2) \<Rightarrow>
                        if length allData1 > 10000 then Some (Inr allData1, tr2 @ [ConsoleWarn])
                        else f a req allData1 nextPageUrl1 tr2))) = Some y"
    show "\<exists>ev. snd y = tr @ ev \<and> writes ev = []"
    proof (cases "nxt = None \<or> nxt = Some []")
      case True
      with body have "snd y = tr @ []" by auto
      then show ?thesis by (intro exI [of _ "[]"]) simp
    next
      case False
      then obtain u where u: "nxt = Some u" "u \<noteq> []" by auto
      obtain r t where rq: "request a req (GET u) [] tr = (r, t)"
        by (cases "request a req (GET u) [] tr")
      from request_traceE [OF rq] obtain ev where ev: "t = tr @ ev" "writes ev = []"
        by (metis writes_GET writes_no_request)
      show ?thesis
      proof (cases r)
        case (Inl e)
        with body u rq have "snd y = t" by auto
        with ev show ?thesis by blast
      next
        case (Inr response)
        obtain d1 n1 t2 where ps: "page_step allData response t = (d1, n1, t2)"
          by (cases "page_step allData response t")
        from page_step_trace [OF ps] have "t2 = tr @ ev \<or> t2 = tr @ (ev @ [ConsoleWarn])"
          using ev by auto
        with ev obtain ev2 where ev2: "t2 = tr @ ev2" "writes ev2 = []"
          by (metis writes_append writes_other(4) append_Nil2)
        show ?thesis
        proof (cases "length d1 > 10000")
          case True
          with body u rq Inr ps have "snd y = t2 @ [ConsoleWarn]" by auto
          with ev2 have "snd y = tr @ (ev2 @ [ConsoleWarn])" "writes (ev2 @ [ConsoleWarn]) = []"
            by (simp_all add: writes_append)
          then show ?thesis by blast
        next
          case False
          with body u rq Inr ps have "f a req d1 n1 t2 = Some y" by simp
          from IH [OF this] obtain ev3 where "snd y = t2 @ ev3" "writes ev3 = []" by blast
          with ev2 have "snd y = tr @ (ev2 @ ev3)" "writes (ev2 @ ev3) = []"
            by (simp_all add: writes_append)
          then show ?thesis by blast
        qed
      qed
    qed
  qed
  then show ?thesis by simp
qed

lemma getMembers_trace:
  assumes "getMembers a req org tr = Some (members, tr1)"
  obtains ev where "tr1 = tr @ ev" "writes ev = []"
proof (cases "org = []")
  case True
  with assms have "tr1 = tr @ []" by (simp add: getMembers_def)
  with that show ?thesis by (metis writes_other(1))
next
  case False
  with assms obtain res t where l: "fetchAllPaginated_loop a req [] (Some (url_members org)) tr =
      Some (res, t)" and t: "tr1 = t \<or> tr1 = t @ [ConsoleError]"
    by (auto simp: getMembers_def fetchAllPaginated_def split: option.splits sum.splits)
  from loop_trace [OF l] obtain ev where ev: "t = tr @ ev" "writes ev = []" by blast
  from t show ?thesis
  proof
    assume "tr1 = t"
    with ev that show ?thesis by blast
  next
    assume "tr1 = t @ [ConsoleError]"
    with ev have "tr1 = tr @ (ev @ [ConsoleError])" "writes (ev @ [ConsoleError]) = []"
      by (simp_all add: writes_append)
    with that show ?thesis by blast
  qed
qed

text \<open>A members endpoint that answers with one page and no next link.\<close>

lemma getMembers_single_page:
  assumes "api_apiKey a \<noteq> []" "api_baseUrl a \<noteq> []" "org \<noteq> []"
    and "req (sent tr) (prepare a (GET (url_members org))) = Inr response"
    and "200 \<le> status response" "status response < 300" "status response \<noteq> 204"
      "bodyPresent response" "json response = Inr (Some (PaginatedResponse (Some ms) None))"
  shows "getMembers a req org tr =
     Some (ms, tr @ [Request (prepare a (GET (url_members org)))] @
               (if length ms > 10000 then [ConsoleWarn] else []))"
proof -
  have "request a req (GET (url_members org)) [] tr =
      (Inr (Some (PaginatedResponse (Some ms) None)),
       tr @ [Request (prepare a (GET (url_members org)))])"
    using assms(5-)
    by (simp add: request_sent [where requestUrl = req and allowed = "[]", OF assms(1,2,4)])
  then have "fetchAllPaginated_loop a req [] (Some (url_members org)) tr =
      (if length ms > 10000
       then Some (Inr ms, tr @ [Request (prepare a (GET (url_members org)))] @ [ConsoleWarn])
       else Some (Inr ms, tr @ [Request (prepare a (GET (url_members org)))]))"
    by (simp add: loop_step url_nonempty page_step_def loop_None)
  then show ?thesis
    using assms(3) by (simp add: getMembers_def fetchAllPaginated_def)
qed

subsection \<open>Writes\<close>

lemma startTimeEntry_Inr:
  assumes "startTimeEntry a req org pl tr = (Inr entry, tr1)"
  shows "tr1 = tr @ [Request (prepare a (POST (url_time_entries org) pl))] \<and>
     (\<exists>response.
        req (sent tr) (prepare a (POST (url_time_entries org) pl)) = Inr response \<and>
        200 \<le> status response \<and> status response < 300 \<and>
        json response = Inr (Some (Envelope (Some entry))))"
proof -
  from assms have "request a req (POST (url_time_entries org) pl) [] tr =
      (Inr (Some (Envelope (Some entry))), tr1)"
    by (auto simp: startTimeEntry_def split: if_splits sum.splits prod.splits option.splits
        Envelope.splits)
  then show ?thesis by (rule request_Inr_Some)
qed

lemma startTimeEntry_ok:
  assumes "api_apiKey a \<noteq> []" "api_baseUrl a \<noteq> []" "org \<noteq> []" "truthy (map_of pl ''member_id'')"
    and "req (sent tr) (prepare a (POST (url_time_entries org) pl)) = Inr response"
    and "200 \<le> status response" "status response < 300" "status response \<noteq> 204"
      "bodyPresent response" "json response = Inr (Some (Envelope (Some entry)))"
  shows "startTimeEntry a req org pl tr =
     (Inr entry, tr @ [Request (prepare a (POST (url_time_entries org) pl))])"
  using assms(3-4,6-)
  by (simp add: startTimeEntry_def
      request_sent [where requestUrl = req and allowed = "[]", OF assms(1,2,5)])

lemma startTimeEntry_trace:
  assumes "startTimeEntry a req org pl tr = (res, tr1)"
  obtains ev where "tr1 = tr @ ev"
    "sent ev = [] \<or> sent ev = [prepare a (POST (url_time_entries org) pl)]"
proof (cases "org = [] \<or> \<not> truthy (map_of pl ''member_id'')")
  case True
  with assms have "tr1 = tr @ []" by (auto simp: startTimeEntry_def split: if_splits)
  then show ?thesis using that by simp
next
  case False
  obtain r t where rq: "request a req (POST (url_time_entries org) pl) [] tr = (r, t)"
    by (cases "request a req (POST (url_time_entries org) pl) [] tr")
  with False assms have "tr1 = t"
    by (auto simp: startTimeEntry_def split: sum.splits option.splits Envelope.splits)
  with request_traceE [OF rq] that show ?thesis by blast
qed

lemma startTimeEntry_sent:
  assumes "api_apiKey a \<noteq> []" "api_baseUrl a \<noteq> []" "org \<noteq> []"
    "truthy (map_of pl ''member_id'')"
    and "startTimeEntry a req org pl tr = (res, tr1)"
  shows "\<exists>ev. tr1 = tr @ ev \<and> sent ev = [prepare a (POST (url_time_entries org) pl)]"
proof -
  obtain r t where rq: "request a req (POST (url_time_entries org) pl) [] tr = (r, t)"
    by (cases "request a req (POST (url_time_entries org) pl) [] tr")
  with assms(3-5) have "tr1 = t"
    by (auto simp: startTimeEntry_def split: sum.splits option.splits Envelope.splits)
  with request_configured [OF assms(1,2), of req "POST (url_time_entries org) pl" "[]" tr] rq
  show ?thesis by simp
qed


lemma stopTimeEntry_ok:
  assumes "api_apiKey a \<noteq> []" "api_baseUrl a \<noteq> []" "org \<noteq> []" "i \<noteq> []"
    and "req (sent tr) (prepare a (PUT (url_time_entry org i) pl)) = Inr response"
    and "200 \<le> status response" "status response < 300" "status response \<noteq> 204"
      "bodyPresent response" "json response = Inr (Some (Envelope (Some entry)))"
  shows "stopTimeEntry a req org i pl tr =
     (Inr entry, tr @ [Request (prepare a (PUT (url_time_entry org i) pl))])"
  using assms(3-4,6-)
  by (simp add: stopTimeEntry_def
      request_sent [where requestUrl = req and allowed = "[]", OF assms(1,2,5)])

lemma stopTimeEntry_trace:
  assumes "stopTimeEntry a req org i pl tr = (res, tr1)"
  obtains ev where "tr1 = tr @ ev"
    "sent ev = [] \<or> sent ev = [prepare a (PUT (url_time_entry org i) pl)]"
proof (cases "org = [] \<or> i = []")
  case True
  with assms have "tr1 = tr @ []" by (auto simp: stopTimeEntry_def split: if_splits)
  then show ?thesis using that by simp
next
  case False
  obtain r t where rq: "request a req (PUT (url_time_entry org i) pl) [] tr = (r, t)"
    by (cases "request a req (PUT (url_time_entry org i) pl) [] tr")
  with False assms have "tr1 = t"
    by (auto simp: stopTimeEntry_def split: sum.splits option.splits Envelope.splits)
  with request_traceE [OF rq] that show ?thesis by blast
qed

section \<open>The plugin operations\<close>

lemma notice_fields [simp]:
  "trace (notice m p) = trace p @ [Notice m]"
  "activeTimeEntry (notice m p) = activeTimeEntry p"
  "settings (notice m p) = settings p" "api (notice m p) = api p"
  "statusBarItemEl (notice m p) = statusBarItemEl p"
  "currentUser (notice m p) = currentUser p"
  "projects (notice m p) = projects p" "tasks (notice m p) = tasks p"
  "tags (notice m p) = tags p"
  by (simp_all add: notice_def)

lemma console_error_fields [simp]:
  "trace (console_error p) = trace p @ [ConsoleError]"
  "activeTimeEntry (console_error p) = activeTimeEntry p"
  "settings (console_error p) = settings p" "api (console_error p) = api p"
  "statusBarItemEl (console_error p) = statusBarItemEl p"
  "currentUser (console_error p) = currentUser p"
  "projects (console_error p) = projects p" "tasks (console_error p) = tasks p"
  "tags (console_error p) = tags p"
  by (simp_all add: console_error_def)

lemma renderStatusBar_fields [simp]:
  "trace (renderStatusBar p) =
     trace p @ (if statusBarItemEl p then [RenderStatusBar (activeTimeEntry p)] else [])"
  "activeTimeEntry (renderStatusBar p) = activeTimeEntry p"
  "settings (renderStatusBar p) = settings p" "api (renderStatusBar p) = api p"
  "statusBarItemEl (renderStatusBar p) = statusBarItemEl p"
  "currentUser (renderStatusBar p) = currentUser p"
  "projects (renderStatusBar p) = projects p" "tasks (renderStatusBar p) = tasks p"
  "tags (renderStatusBar p) = tags p"
  by (simp_all add: renderStatusBar_def)

lemma updateSolidTimeView_fields [simp]:
  "trace (updateSolidTimeView p) = trace p @ [UpdateView (activeTimeEntry p)]"
  "activeTimeEntry (updateSolidTimeView p) = activeTimeEntry p"
  "settings (updateSolidTimeView p) = settings p" "api (updateSolidTimeView p) = api p"
  "statusBarItemEl (updateSolidTimeView p) = statusBarItemEl p"
  "currentUser (updateSolidTimeView p) = currentUser p"
  "projects (updateSolidTimeView p) = projects p" "tasks (updateSolidTimeView p) = tasks p"
  "tags (updateSolidTimeView p) = tags p"
  by (simp_all add: updateSolidTimeView_def)

lemma checkSettingsAndApi_keeps:
  "activeTimeEntry (snd (checkSettingsAndApi b p)) = activeTimeEntry p"
  "settings (snd (checkSettingsAndApi b p)) = settings p"
  "sent (trace (snd (checkSettingsAndApi b p))) = sent (trace p)"
  "tags (snd (checkSettingsAndApi b p)) = tags p"
  by (auto simp: checkSettingsAndApi_def Let_def setupApi_def sent_append
      split: option.splits)

lemma checkSettingsAndApi_True:
  assumes "checkSettingsAndApi b p = (True, p1)"
  shows "trace p1 = trace p" "api p1 \<noteq> None" "apiKey (settings p) \<noteq> []"
    "apiBaseUrl (settings p) \<noteq> []" "selectedOrganizationId (settings p) \<noteq> []"
    "p1 = p\<lparr>api := api p1\<rparr>"
  using assms
  by (auto simp: checkSettingsAndApi_def Let_def setupApi_def notice_def
      split: option.splits if_splits)

lemma checkSettingsAndApi_False:
  assumes "checkSettingsAndApi b p = (False, p1)"
  shows "\<exists>ev. trace p1 = trace p @ ev \<and> sent ev = []"
  using assms
  by (auto simp: checkSettingsAndApi_def Let_def setupApi_def notice_def
      split: option.splits if_splits)

subsection \<open>startTimer\<close>

text \<open>startTimer refuses without a request, or makes one attempt.\<close>

lemma startTimer_refused:
  assumes "checkSettingsAndApi True p = (ok, p1)"
    and "\<not> ok \<or> selectedMemberId (settings p) = [] \<or> activeTimeEntry p \<noteq> None"
  shows "\<exists>ev. trace (startTimer srv now options p) = trace p @ ev \<and> sent ev = []"
    and "activeTimeEntry (startTimer srv now options p) = activeTimeEntry p"
proof -
  have s: "settings p1 = settings p" and a: "activeTimeEntry p1 = activeTimeEntry p"
    using checkSettingsAndApi_keeps(1,2) [of True p] assms(1) by simp_all
  show "\<exists>ev. trace (startTimer srv now options p) = trace p @ ev \<and> sent ev = []"
  proof (cases ok)
    case False
    with assms(1) checkSettingsAndApi_False [of True p p1] show ?thesis
      by (simp add: startTimer_def)
  next
    case True
    with assms(1) have "trace p1 = trace p" by (simp add: checkSettingsAndApi_True(1))
    with True assms s a show ?thesis
      by (auto simp: startTimer_def)
  qed
  show "activeTimeEntry (startTimer srv now options p) = activeTimeEntry p"
    using assms s a by (cases ok) (auto simp: startTimer_def)
qed

lemma startTimer_attempt:
  assumes "checkSettingsAndApi True p = (True, p1)"
    and "selectedMemberId (settings p) \<noteq> []" "activeTimeEntry p = None" "api p1 = Some a"
    and "startTimeEntry a (requestUrl_entry srv) (selectedOrganizationId (settings p))
           (start_payload (selectedMemberId (settings p)) (moment_format now @ ''Z'') options)
           (trace p @ [Notice ''SolidTime: Starting timer...'']) = (res, tr)"
  shows "startTimer srv now options p =
     (case res of
        Inr newEntry \<Rightarrow>
          p1\<lparr>activeTimeEntry := Some newEntry,
             trace := tr @ (if statusBarItemEl p then [RenderStatusBar (Some newEntry)] else []) @
                      [UpdateView (Some newEntry), Notice ''SolidTime: Timer started!'']\<rparr>
      | Inl e \<Rightarrow> p1\<lparr>trace := tr @ [ConsoleError]\<rparr>)"
proof -
  have s: "settings p1 = settings p" and a: "activeTimeEntry p1 = activeTimeEntry p"
    using checkSettingsAndApi_keeps(1,2) [of True p] assms(1) by simp_all
  have t: "trace p1 = trace p" using assms(1) by (rule checkSettingsAndApi_True(1))
  have "statusBarItemEl (p\<lparr>api := api p1\<rparr>) = statusBarItemEl p" by simp
  then have sb: "statusBarItemEl p1 = statusBarItemEl p"
    using checkSettingsAndApi_True(6) [OF assms(1)] by simp
  show ?thesis
    using assms s a t sb
    by (cases res)
       (simp_all add: startTimer_def Let_def notice_def console_error_def renderStatusBar_def
          updateSolidTimeView_def)
qed

subsection \<open>Timestamps in the wire format\<close>

lemma length_String_of_nat_le:
  "0 < k \<Longrightarrow> n < 10 ^ k \<Longrightarrow> length (String_of_nat n) \<le> k"
proof (induction k arbitrary: n)
  case 0
  then show ?case by simp
next
  case (Suc k)
  show ?case
  proof (cases "n < 10")
    case True
    then show ?thesis by (subst String_of_nat.simps) simp
  next
    case False
    with Suc.prems have k: "0 < k" by (cases k) simp_all
    from Suc.prems have "n div 10 < 10 ^ k"
      by (simp add: less_mult_imp_div_less mult.commute)
    from Suc.IH [OF k this] False show ?thesis
      by (subst String_of_nat.simps) simp
  qed
qed

lemma wire_format_parts:
  assumes "length y = 4" "length mo = 2" "length d = 2" "length h = 2" "length mi = 2"
    "length s = 2"
    and "list_all is_digit y" "list_all is_digit mo" "list_all is_digit d"
      "list_all is_digit h" "list_all is_digit mi" "list_all is_digit s"
  shows "wire_format (y @ ''-'' @ mo @ ''-'' @ d @ ''T'' @ h @ '':'' @ mi @ '':'' @ s @ ''Z'')"
  using assms by (simp add: wire_format_def nth_append)

lemma digits_field:
  assumes "0 < k" "n < 10 ^ k"
  shows "length (padStart k CHR ''0'' (String_of_nat n)) = k"
    and "list_all is_digit (padStart k CHR ''0'' (String_of_nat n))"
proof -
  from length_String_of_nat_le [OF assms] show "length (padStart k CHR ''0'' (String_of_nat n)) = k"
    by (simp add: length_padStart)
  show "list_all is_digit (padStart k CHR ''0'' (String_of_nat n))"
    using padStart_digits [OF String_of_nat_digits, of k n] by (simp add: list_all_iff)
qed

lemma moment_format_wire:
  assumes "valid_moment t"
  shows "wire_format (moment_format t @ ''Z'')"
proof -
  from assms have b: "moment_year t < 10 ^ 4" "moment_month t < 10 ^ 2" "moment_date t < 10 ^ 2"
    "moment_hours t < 10 ^ 2" "moment_minutes t < 10 ^ 2" "moment_seconds t < 10 ^ 2"
    by (simp_all add: valid_moment_def)
  have "wire_format (padStart 4 CHR ''0'' (String_of_nat (moment_year t)) @ ''-'' @
     padStart 2 CHR ''0'' (String_of_nat (moment_month t)) @ ''-'' @
     padStart 2 CHR ''0'' (String_of_nat (moment_date t)) @ ''T'' @
     padStart 2 CHR ''0'' (String_of_nat (moment_hours t)) @ '':'' @
     padStart 2 CHR ''0'' (String_of_nat (moment_minutes t)) @ '':'' @
     padStart 2 CHR ''0'' (String_of_nat (moment_seconds t)) @ ''Z'')"
    by (rule wire_format_parts) (simp_all only: digits_field b zero_less_numeral)
  then show ?thesis by (simp add: moment_format_def)
qed


lemma wire_fields_parts:
  assumes "length y = 4" "length mo = 2" "length d = 2" "length h = 2" "length mi = 2"
    "length s = 2"
  shows "wire_fields (y @ ''-'' @ mo @ ''-'' @ d @ ''T'' @ h @ '':'' @ mi @ '':'' @ s @ ''Z'') =
     \<lparr>moment_year = nat_of_digits y, moment_month = nat_of_digits mo,
      moment_date = nat_of_digits d, moment_hours = nat_of_digits h,
      moment_minutes = nat_of_digits mi, moment_seconds = nat_of_digits s\<rparr>"
  using assms by (simp add: wire_fields_def)

lemma moment_format_fields:
  assumes "valid_moment t"
  shows "wire_fields (moment_format t @ ''Z'') = t"
proof -
  from assms have b: "moment_year t < 10 ^ 4" "moment_month t < 10 ^ 2" "moment_date t < 10 ^ 2"
    "moment_hours t < 10 ^ 2" "moment_minutes t < 10 ^ 2" "moment_seconds t < 10 ^ 2"
    by (simp_all add: valid_moment_def)
  have "wire_fields (padStart 4 CHR ''0'' (String_of_nat (moment_year t)) @ ''-'' @
     padStart 2 CHR ''0'' (String_of_nat (moment_month t)) @ ''-'' @
     padStart 2 CHR ''0'' (String_of_nat (moment_date t)) @ ''T'' @
     padStart 2 CHR ''0'' (String_of_nat (moment_hours t)) @ '':'' @
     padStart 2 CHR ''0'' (String_of_nat (moment_minutes t)) @ '':'' @
     padStart 2 CHR ''0'' (String_of_nat (moment_seconds t)) @ ''Z'') =
     \<lparr>moment_year = nat_of_digits (padStart 4 CHR ''0'' (String_of_nat (moment_year t))),
      moment_month = nat_of_digits (padStart 2 CHR ''0'' (String_of_nat (moment_month t))),
      moment_date = nat_of_digits (padStart 2 CHR ''0'' (String_of_nat (moment_date t))),
      moment_hours = nat_of_digits (padStart 2 CHR ''0'' (String_of_nat (moment_hours t))),
      moment_minutes = nat_of_digits (padStart 2 CHR ''0'' (String_of_nat (moment_minutes t))),
      moment_seconds = nat_of_digits (padStart 2 CHR ''0'' (String_of_nat (moment_seconds t)))\<rparr>"
    by (rule wire_fields_parts) (simp_all only: digits_field b zero_less_numeral)
  then show ?thesis
    by (simp add: moment_format_def nat_of_digits_padStart nat_of_digits_String_of_nat)
qed

text \<open>
  Claim C6. When an entry is cached, startTimer leaves it in place and sends no request.
  When none is cached: the state after startTimer holds an entry only if the service
  answered the POST with a 2xx status and that entry as data, so it stays null when the
  start fails; and when the validation passes and the service answers the POST with a
  2xx body carrying an entry, the state holds exactly that entry.
\<close>

theorem startTimer_active_entry:
  "(activeTimeEntry p \<noteq> None \<longrightarrow>
      activeTimeEntry (startTimer srv now options p) = activeTimeEntry p \<and>
      sent (trace (startTimer srv now options p)) = sent (trace p)) \<and>
   (activeTimeEntry p = None \<longrightarrow>
      (activeTimeEntry (startTimer srv now options p) = Some entry \<longrightarrow>
         (\<exists>r response.
            sent (trace (startTimer srv now options p)) = sent (trace p) @ [r] \<and>
            http_method r = ''POST'' \<and>
            requestUrl_entry srv (sent (trace p)) r = Inr response \<and>
            200 \<le> status response \<and> status response < 300 \<and>
            json response = Inr (Some (Envelope (Some entry))))) \<and>
      ((\<forall>hist r response. requestUrl_entry srv hist r = Inr response \<longrightarrow>
           \<not> (200 \<le> status response \<and> status response < 300)) \<longrightarrow>
         activeTimeEntry (startTimer srv now options p) = None) \<and>
      (checkSettingsAndApi True p = (True, p1) \<and> selectedMemberId (settings p) \<noteq> [] \<and>
       api p1 = Some a \<and> api_apiKey a \<noteq> [] \<and> api_baseUrl a \<noteq> [] \<and>
       requestUrl_entry srv (sent (trace p))
         (prepare a (POST (url_time_entries (selectedOrganizationId (settings p)))
            (start_payload (selectedMemberId (settings p)) (moment_format now @ ''Z'') options))) =
         Inr answer \<and>
       200 \<le> status answer \<and> status answer < 300 \<and> status answer \<noteq> 204 \<and>
       bodyPresent answer \<and> json answer = Inr (Some (Envelope (Some newEntry)))
       \<longrightarrow> activeTimeEntry (startTimer srv now options p) = Some newEntry))"
proof (intro conjI impI)
  obtain ok q where c: "checkSettingsAndApi True p = (ok, q)"
    by (cases "checkSettingsAndApi True p")
  { assume act: "activeTimeEntry p \<noteq> None"
    from startTimer_refused [OF c, of srv now options] act
    show "activeTimeEntry (startTimer srv now options p) = activeTimeEntry p"
      and "sent (trace (startTimer srv now options p)) = sent (trace p)"
      by (auto simp: sent_append) }
  assume idle: "activeTimeEntry p = None"
  text \<open>Unless startTimer refuses, it makes one call of startTimeEntry.\<close>
  have attempt: "\<exists>a res tr. api q = Some a \<and>
      startTimeEntry a (requestUrl_entry srv) (selectedOrganizationId (settings p))
        (start_payload (selectedMemberId (settings p)) (moment_format now @ ''Z'') options)
        (trace p @ [Notice ''SolidTime: Starting timer...'']) = (res, tr) \<and>
      startTimer srv now options p =
        (case res of
           Inr newEntry \<Rightarrow>
             q\<lparr>activeTimeEntry := Some newEntry,
                trace := tr @ (if statusBarItemEl p then [RenderStatusBar (Some newEntry)] else []) @
                         [UpdateView (Some newEntry), Notice ''SolidTime: Timer started!'']\<rparr>
         | Inl e \<Rightarrow> q\<lparr>trace := tr @ [ConsoleError]\<rparr>)"
    if "ok" "selectedMemberId (settings p) \<noteq> []"
  proof -
    from c that have c1: "checkSettingsAndApi True p = (True, q)" by simp
    from checkSettingsAndApi_True(2) [OF c1] obtain a where a: "api q = Some a" by auto
    obtain res tr where st: "startTimeEntry a (requestUrl_entry srv)
        (selectedOrganizationId (settings p))
        (start_payload (selectedMemberId (settings p)) (moment_format now @ ''Z'') options)
        (trace p @ [Notice ''SolidTime: Starting timer...'']) = (res, tr)"
      by (cases "startTimeEntry a (requestUrl_entry srv)
        (selectedOrganizationId (settings p))
        (start_payload (selectedMemberId (settings p)) (moment_format now @ ''Z'') options)
        (trace p @ [Notice ''SolidTime: Starting timer...''])")
    from startTimer_attempt [OF c1 that(2) idle a st] a st show ?thesis by blast
  qed
  have q_idle: "activeTimeEntry q = None"
    using checkSettingsAndApi_keeps(1) [of True p] c idle by simp
  { assume got: "activeTimeEntry (startTimer srv now options p) = Some entry"
    have ok: "ok \<and> selectedMemberId (settings p) \<noteq> []"
    proof (rule ccontr)
      assume "\<not> (ok \<and> selectedMemberId (settings p) \<noteq> [])"
      with startTimer_refused(2) [OF c, of srv now options] idle got show False by auto
    qed
    with attempt obtain a res tr where a: "api q = Some a"
      and st: "startTimeEntry a (requestUrl_entry srv) (selectedOrganizationId (settings p))
        (start_payload (selectedMemberId (settings p)) (moment_format now @ ''Z'') options)
        (trace p @ [Notice ''SolidTime: Starting timer...'']) = (res, tr)"
      and run: "startTimer srv now options p =
        (case res of
           Inr newEntry \<Rightarrow>
             q\<lparr>activeTimeEntry := Some newEntry,
                trace := tr @ (if statusBarItemEl p then [RenderStatusBar (Some newEntry)] else []) @
                         [UpdateView (Some newEntry), Notice ''SolidTime: Timer started!'']\<rparr>
         | Inl e \<Rightarrow> q\<lparr>trace := tr @ [ConsoleError]\<rparr>)"
      by blast
    from run got q_idle have res: "res = Inr entry" by (cases res) simp_all
    from startTimeEntry_Inr [OF st [unfolded res]] obtain response where
      tr: "tr = (trace p @ [Notice ''SolidTime: Starting timer...'']) @
        [Request (prepare a (POST (url_time_entries (selectedOrganizationId (settings p)))
          (start_payload (selectedMemberId (settings p)) (moment_format now @ ''Z'') options)))]"
      and resp: "requestUrl_entry srv (sent (trace p @ [Notice ''SolidTime: Starting timer...'']))
        (prepare a (POST (url_time_entries (selectedOrganizationId (settings p)))
          (start_payload (selectedMemberId (settings p)) (moment_format now @ ''Z'') options))) =
        Inr response"
      and st2: "200 \<le> status response" "status response < 300"
        "json response = Inr (Some (Envelope (Some entry)))"
      by blast
    show "\<exists>r response.
            sent (trace (startTimer srv now options p)) = sent (trace p) @ [r] \<and>
            http_method r = ''POST'' \<and>
            requestUrl_entry srv (sent (trace p)) r = Inr response \<and>
            200 \<le> status response \<and> status response < 300 \<and>
            json response = Inr (Some (Envelope (Some entry)))"
      using run res tr resp st2
      by (intro exI [of _ "prepare a (POST (url_time_entries (selectedOrganizationId (settings p)))
          (start_payload (selectedMemberId (settings p)) (moment_format now @ ''Z'') options))"]
          exI [of _ response])
         (simp add: sent_append prepare_fields POST_def) }
  note only_from_service = this
  { assume never: "\<forall>hist r response. requestUrl_entry srv hist r = Inr response \<longrightarrow>
           \<not> (200 \<le> status response \<and> status response < 300)"
    show "activeTimeEntry (startTimer srv now options p) = None"
    proof (cases "activeTimeEntry (startTimer srv now options p)")
      case None
      then show ?thesis .
    next
      case (Some e)
      have ok: "ok \<and> selectedMemberId (settings p) \<noteq> []"
      proof (rule ccontr)
        assume "\<not> (ok \<and> selectedMemberId (settings p) \<noteq> [])"
        with startTimer_refused(2) [OF c, of srv now options] idle Some show False by auto
      qed
      with attempt obtain a res tr where
        st: "startTimeEntry a (requestUrl_entry srv) (selectedOrganizationId (settings p))
          (start_payload (selectedMemberId (settings p)) (moment_format now @ ''Z'') options)
          (trace p @ [Notice ''SolidTime: Starting timer...'']) = (res, tr)"
        and run: "startTimer srv now options p =
          (case res of
             Inr newEntry \<Rightarrow>
               q\<lparr>activeTimeEntry := Some newEntry,
                  trace := tr @ (if statusBarItemEl p then [RenderStatusBar (Some newEntry)] else []) @
                           [UpdateView (Some newEntry), Notice ''SolidTime: Timer started!'']\<rparr>
           | Inl e \<Rightarrow> q\<lparr>trace := tr @ [ConsoleError]\<rparr>)"
        by blast
      from run Some q_idle have res: "res = Inr e" by (cases res) simp_all
      from startTimeEntry_Inr [OF st [unfolded res]] never show ?thesis by blast
    qed }
  { assume h: "checkSettingsAndApi True p = (True, p1) \<and> selectedMemberId (settings p) \<noteq> [] \<and>
       api p1 = Some a \<and> api_apiKey a \<noteq> [] \<and> api_baseUrl a \<noteq> [] \<and>
       requestUrl_entry srv (sent (trace p))
         (prepare a (POST (url_time_entries (selectedOrganizationId (settings p)))
            (start_payload (selectedMemberId (settings p)) (moment_format now @ ''Z'') options))) =
         Inr answer \<and>
       200 \<le> status answer \<and> status answer < 300 \<and> status answer \<noteq> 204 \<and>
       bodyPresent answer \<and> json answer = Inr (Some (Envelope (Some newEntry)))"
    then have c1: "checkSettingsAndApi True p = (True, p1)" by simp
    have org: "selectedOrganizationId (settings p) \<noteq> []"
      by (rule checkSettingsAndApi_True(5) [OF c1])
    have mem: "truthy (map_of (start_payload (selectedMemberId (settings p))
        (moment_format now @ ''Z'') options) ''member_id'')"
      using h by (simp add: start_payload_def)
    have "startTimeEntry a (requestUrl_entry srv) (selectedOrganizationId (settings p))
        (start_payload (selectedMemberId (settings p)) (moment_format now @ ''Z'') options)
        (trace p @ [Notice ''SolidTime: Starting timer...'']) =
      (Inr newEntry, (trace p @ [Notice ''SolidTime: Starting timer...'']) @
         [Request (prepare a (POST (url_time_entries (selectedOrganizationId (settings p)))
            (start_payload (selectedMemberId (settings p)) (moment_format now @ ''Z'') options)))])"
      using h org mem
      by (intro startTimeEntry_ok [where response = answer]) (simp_all add: sent_append)
    from startTimer_attempt [OF c1 _ idle _ this] h
    show "activeTimeEntry (startTimer srv now options p) = Some newEntry"
      by simp }
qed


lemma demo_check: "checkSettingsAndApi True idle_plugin = (True, idle_plugin)"
  by (simp add: checkSettingsAndApi_def idle_plugin_def demo_settings_def Let_def)

lemma demo_respond:
  "status (respond 200 (Some v)) = 200" "bodyPresent (respond 200 (Some v))"
  "json (respond 200 (Some v)) = Inr (Some v)"
  by (simp_all add: respond_def bodyPresent_def)

theorem startTimer_active_entry_witness:
  "activeTimeEntry (startTimer demo_service demo_now demo_options running_plugin) =
     Some demo_entry \<and>
   sent (trace (startTimer demo_service demo_now demo_options running_plugin)) = [] \<and>
   activeTimeEntry (startTimer failing_service demo_now demo_options idle_plugin) = None \<and>
   activeTimeEntry (startTimer demo_service demo_now demo_options idle_plugin) = Some demo_entry"
proof -
  have running: "activeTimeEntry running_plugin = Some demo_entry" "trace running_plugin = []"
    by (simp_all add: running_plugin_def idle_plugin_def)
  have idle: "activeTimeEntry idle_plugin = None" "trace idle_plugin = []"
    "api idle_plugin = Some demo_api" "selectedMemberId (settings idle_plugin) \<noteq> []"
    by (simp_all add: idle_plugin_def demo_settings_def)
  have never: "\<forall>hist r response. requestUrl_entry failing_service hist r = Inr response \<longrightarrow>
      \<not> (200 \<le> status response \<and> status response < 300)"
    by (auto simp: failing_service_def respond_def)
  have answer: "\<And>hist r. requestUrl_entry demo_service hist r =
      Inr (respond 200 (Some (Envelope (Some demo_entry))))"
    by (simp add: demo_service_def)
  from startTimer_active_entry
    [where p = running_plugin and srv = demo_service and now = demo_now
       and options = demo_options] running
  have one: "activeTimeEntry (startTimer demo_service demo_now demo_options running_plugin) =
      Some demo_entry \<and>
    sent (trace (startTimer demo_service demo_now demo_options running_plugin)) = []"
    by simp
  from startTimer_active_entry
    [where p = idle_plugin and srv = failing_service and now = demo_now
       and options = demo_options] idle(1) never
  have two: "activeTimeEntry (startTimer failing_service demo_now demo_options idle_plugin) = None"
    by blast
  from startTimer_active_entry
    [where p = idle_plugin and srv = demo_service and now = demo_now
       and options = demo_options and ?p1.0 = idle_plugin and a = demo_api
       and answer = "respond 200 (Some (Envelope (Some demo_entry)))"
       and newEntry = demo_entry]
  have three: "activeTimeEntry (startTimer demo_service demo_now demo_options idle_plugin) =
      Some demo_entry"
    by (simp add: idle demo_check demo_api_configured answer demo_respond)
  from one two three show ?thesis by simp
qed

lemma start_payload_keys:
  "keys (start_payload m s options) =
     [''member_id'', ''start'', ''billable'', ''project_id'', ''task_id'', ''description'', ''tags'']"
  "map_of (start_payload m s options) ''member_id'' = Some (JString m)"
  "map_of (start_payload m s options) ''start'' = Some (JString s)"
  by (simp_all add: start_payload_def keys_def)

text \<open>
  Claim C7. Every request startTimer sends is a POST whose body has the keys member_id,
  start, billable, project_id, task_id, description and tags: member_id and start are
  there and end is not. member_id is the configured member id and start is the clock
  reading taken in this call, formatted and followed by Z; for a clock reading with
  fields in range it has the form YYYY-MM-DDTHH:mm:ssZ, and its six fields read back
  are that clock reading. With valid settings, a member id, no entry cached and a
  configured client, that request is sent, once.
\<close>

theorem startTimer_payload:
  "\<exists>ev. trace (startTimer srv now options p) = trace p @ ev \<and>
     (\<forall>r \<in> set (sent ev).
        http_method r = ''POST'' \<and>
        (\<exists>pl. body r = Some pl \<and>
           keys pl = [''member_id'', ''start'', ''billable'', ''project_id'', ''task_id'',
                      ''description'', ''tags''] \<and>
           ''end'' \<notin> set (keys pl) \<and>
           map_of pl ''member_id'' = Some (JString (selectedMemberId (settings p))) \<and>
           map_of pl ''start'' = Some (JString (moment_format now @ ''Z'')) \<and>
           (valid_moment now \<longrightarrow>
              wire_format (moment_format now @ ''Z'') \<and>
              wire_fields (moment_format now @ ''Z'') = now))) \<and>
     (\<forall>q a. checkSettingsAndApi True p = (True, q) \<and> selectedMemberId (settings p) \<noteq> [] \<and>
        activeTimeEntry p = None \<and> api q = Some a \<and>
        api_apiKey a \<noteq> [] \<and> api_baseUrl a \<noteq> [] \<longrightarrow>
          sent ev =
            [prepare a (POST (url_time_entries (selectedOrganizationId (settings p)))
               (start_payload (selectedMemberId (settings p)) (moment_format now @ ''Z'')
                  options))])"
proof -
  obtain ok q where c: "checkSettingsAndApi True p = (ok, q)"
    by (cases "checkSettingsAndApi True p")
  show ?thesis
  proof (cases "\<not> ok \<or> selectedMemberId (settings p) = [] \<or> activeTimeEntry p \<noteq> None")
    case True
    from startTimer_refused(1) [OF c True, of srv now options] obtain ev where
      "trace (startTimer srv now options p) = trace p @ ev" "sent ev = []"
      by blast
    with c True show ?thesis by (intro exI [of _ ev]) auto
  next
    case False
    then have c1: "checkSettingsAndApi True p = (True, q)" and m: "selectedMemberId (settings p) \<noteq> []"
      and idle: "activeTimeEntry p = None"
      using c by simp_all
    from checkSettingsAndApi_True(2) [OF c1] obtain a where a: "api q = Some a" by auto
    have org: "selectedOrganizationId (settings p) \<noteq> []"
      using c1 by (rule checkSettingsAndApi_True(5))
    let ?pl = "start_payload (selectedMemberId (settings p)) (moment_format now @ ''Z'') options"
    let ?r = "prepare a (POST (url_time_entries (selectedOrganizationId (settings p))) ?pl)"
    obtain res tr where st: "startTimeEntry a (requestUrl_entry srv)
        (selectedOrganizationId (settings p)) ?pl
        (trace p @ [Notice ''SolidTime: Starting timer...'']) = (res, tr)"
      by (cases "startTimeEntry a (requestUrl_entry srv)
        (selectedOrganizationId (settings p)) ?pl
        (trace p @ [Notice ''SolidTime: Starting timer...''])")
    from startTimeEntry_trace [OF st] obtain ev where
      ev: "tr = (trace p @ [Notice ''SolidTime: Starting timer...'']) @ ev"
        "sent ev = [] \<or> sent ev = [?r]"
      by blast
    have tm: "truthy (map_of ?pl ''member_id'')" using m by (simp add: start_payload_keys)
    have cfg: "sent ev = [?r]" if "api_apiKey a \<noteq> []" "api_baseUrl a \<noteq> []"
    proof -
      from startTimeEntry_sent [OF that org tm st] ev(1) show ?thesis by auto
    qed
    have t: "trace q = trace p" using c1 by (rule checkSettingsAndApi_True(1))
    from startTimer_attempt [OF c1 m idle a st] ev(1)
    have "\<exists>ev2. trace (startTimer srv now options p) =
        trace p @ ([Notice ''SolidTime: Starting timer...''] @ ev @ ev2) \<and> sent ev2 = []"
      by (cases res) simp_all
    then obtain ev2 where tr: "trace (startTimer srv now options p) =
        trace p @ ([Notice ''SolidTime: Starting timer...''] @ ev @ ev2)" and "sent ev2 = []"
      by blast
    then have s: "sent ([Notice ''SolidTime: Starting timer...''] @ ev @ ev2) = sent ev"
      by (simp add: sent_append)
    have r: "http_method ?r = ''POST'' \<and> body ?r = Some ?pl"
      by (simp add: prepare_fields POST_def)
    have all: "\<forall>r \<in> set (sent ev).
        http_method r = ''POST'' \<and>
        (\<exists>pl. body r = Some pl \<and>
           keys pl = [''member_id'', ''start'', ''billable'', ''project_id'', ''task_id'',
                      ''description'', ''tags''] \<and>
           ''end'' \<notin> set (keys pl) \<and>
           map_of pl ''member_id'' = Some (JString (selectedMemberId (settings p))) \<and>
           map_of pl ''start'' = Some (JString (moment_format now @ ''Z'')) \<and>
           (valid_moment now \<longrightarrow>
              wire_format (moment_format now @ ''Z'') \<and>
              wire_fields (moment_format now @ ''Z'') = now))"
      using ev(2) r by (auto simp: start_payload_keys moment_format_wire moment_format_fields)
    have sure: "\<forall>q a. checkSettingsAndApi True p = (True, q) \<and>
        selectedMemberId (settings p) \<noteq> [] \<and>
        activeTimeEntry p = None \<and> api q = Some a \<and>
        api_apiKey a \<noteq> [] \<and> api_baseUrl a \<noteq> [] \<longrightarrow>
          sent ev =
            [prepare a (POST (url_time_entries (selectedOrganizationId (settings p))) ?pl)]"
      using c1 a cfg by auto
    from tr s all sure show ?thesis
      by (intro exI [of _ "[Notice ''SolidTime: Starting timer...''] @ ev @ ev2"]) simp
  qed
qed

lemma demo_start_run:
  "sent (trace (startTimer demo_service now demo_options idle_plugin)) =
     [prepare demo_api (POST (url_time_entries ''org1'')
        (start_payload ''m1'' (moment_format now @ ''Z'') demo_options))]"
proof -
  have st: "startTimeEntry demo_api (requestUrl_entry demo_service)
      (selectedOrganizationId (settings idle_plugin))
      (start_payload (selectedMemberId (settings idle_plugin)) (moment_format now @ ''Z'')
         demo_options)
      (trace idle_plugin @ [Notice ''SolidTime: Starting timer...'']) =
    (Inr demo_entry, (trace idle_plugin @ [Notice ''SolidTime: Starting timer...'']) @
       [Request (prepare demo_api (POST (url_time_entries (selectedOrganizationId (settings idle_plugin)))
          (start_payload (selectedMemberId (settings idle_plugin)) (moment_format now @ ''Z'')
             demo_options)))])"
    by (rule startTimeEntry_ok [where response = "respond 200 (Some (Envelope (Some demo_entry)))"])
       (simp_all add: demo_api_configured demo_respond idle_plugin_def demo_settings_def
          start_payload_def demo_service_def)
  have "startTimer demo_service now demo_options idle_plugin =
     idle_plugin\<lparr>activeTimeEntry := Some demo_entry,
       trace := ((trace idle_plugin @ [Notice ''SolidTime: Starting timer...'']) @
         [Request (prepare demo_api (POST (url_time_entries (selectedOrganizationId (settings idle_plugin)))
            (start_payload (selectedMemberId (settings idle_plugin)) (moment_format now @ ''Z'')
               demo_options)))]) @
         (if statusBarItemEl idle_plugin then [RenderStatusBar (Some demo_entry)] else []) @
         [UpdateView (Some demo_entry), Notice ''SolidTime: Timer started!'']\<rparr>"
    using startTimer_attempt [OF demo_check _ _ _ st]
    by (simp add: idle_plugin_def demo_settings_def)
  then show ?thesis
    by (simp add: sent_append idle_plugin_def demo_settings_def)
qed

lemma demo_now_format: "moment_format demo_now @ ''Z'' = ''2024-01-01T12:00:00Z''"
  by code_simp

lemma later_now_format: "moment_format later_now @ ''Z'' = ''2025-11-03T09:41:07Z''"
  by code_simp

theorem startTimer_payload_witness:
  "\<exists>r pl r2 pl2.
     sent (trace (startTimer demo_service demo_now demo_options idle_plugin)) = [r] \<and>
     http_method r = ''POST'' \<and> body r = Some pl \<and>
     keys pl = [''member_id'', ''start'', ''billable'', ''project_id'', ''task_id'',
                ''description'', ''tags''] \<and>
     map_of pl ''member_id'' = Some (JString ''m1'') \<and>
     map_of pl ''start'' = Some (JString ''2024-01-01T12:00:00Z'') \<and>
     valid_moment demo_now \<and> wire_format ''2024-01-01T12:00:00Z'' \<and>
     wire_fields ''2024-01-01T12:00:00Z'' = demo_now \<and>
     sent (trace (startTimer demo_service later_now demo_options idle_plugin)) = [r2] \<and>
     body r2 = Some pl2 \<and>
     map_of pl2 ''start'' = Some (JString ''2025-11-03T09:41:07Z'') \<and>
     valid_moment later_now \<and> wire_format ''2025-11-03T09:41:07Z'' \<and>
     wire_fields ''2025-11-03T09:41:07Z'' = later_now"
proof -
  have v: "valid_moment demo_now" "valid_moment later_now"
    by (simp_all add: valid_moment_def demo_now_def later_now_def)
  have one: "\<exists>r pl.
     sent (trace (startTimer demo_service t demo_options idle_plugin)) = [r] \<and>
     http_method r = ''POST'' \<and> body r = Some pl \<and>
     keys pl = [''member_id'', ''start'', ''billable'', ''project_id'', ''task_id'',
                ''description'', ''tags''] \<and>
     map_of pl ''member_id'' = Some (JString ''m1'') \<and>
     map_of pl ''start'' = Some (JString (moment_format t @ ''Z'')) \<and>
     wire_format (moment_format t @ ''Z'') \<and> wire_fields (moment_format t @ ''Z'') = t"
    if t: "valid_moment t" for t
  proof -
    let ?r = "prepare demo_api (POST (url_time_entries ''org1'')
        (start_payload ''m1'' (moment_format t @ ''Z'') demo_options))"
    from startTimer_payload [of demo_service t demo_options idle_plugin]
    obtain ev where ev: "trace (startTimer demo_service t demo_options idle_plugin) =
        trace idle_plugin @ ev"
      and all: "\<forall>r \<in> set (sent ev).
        http_method r = ''POST'' \<and>
        (\<exists>pl. body r = Some pl \<and>
           keys pl = [''member_id'', ''start'', ''billable'', ''project_id'', ''task_id'',
                      ''description'', ''tags''] \<and>
           ''end'' \<notin> set (keys pl) \<and>
           map_of pl ''member_id'' = Some (JString (selectedMemberId (settings idle_plugin))) \<and>
           map_of pl ''start'' = Some (JString (moment_format t @ ''Z'')) \<and>
           (valid_moment t \<longrightarrow>
              wire_format (moment_format t @ ''Z'') \<and>
              wire_fields (moment_format t @ ''Z'') = t))"
      by blast
    from ev demo_start_run [of t] have "sent ev = [?r]" by (simp add: idle_plugin_def)
    with all have "http_method ?r = ''POST'' \<and>
        (\<exists>pl. body ?r = Some pl \<and>
           keys pl = [''member_id'', ''start'', ''billable'', ''project_id'', ''task_id'',
                      ''description'', ''tags''] \<and>
           ''end'' \<notin> set (keys pl) \<and>
           map_of pl ''member_id'' = Some (JString (selectedMemberId (settings idle_plugin))) \<and>
           map_of pl ''start'' = Some (JString (moment_format t @ ''Z'')) \<and>
           (valid_moment t \<longrightarrow>
              wire_format (moment_format t @ ''Z'') \<and>
              wire_fields (moment_format t @ ''Z'') = t))"
      by simp
    with t demo_start_run [of t] show ?thesis
      by (simp add: idle_plugin_def demo_settings_def) blast
  qed
  from one [OF v(1)] one [OF v(2)] v show ?thesis
    unfolding demo_now_format later_now_format by blast
qed

subsection \<open>updateStatus, stopCurrentTimer and updateActiveTimerDetails\<close>

lemma updateStatus_trace:
  "\<exists>ev. trace (updateStatus srv p) = trace p @ ev \<and> writes ev = []"
proof (cases "api p")
  case None
  then show ?thesis by (simp add: updateStatus_def)
next
  case (Some a)
  obtain res tr where g: "getActiveTimeEntry a (requestUrl_entry srv) (trace p) = (res, tr)"
    by (cases "getActiveTimeEntry a (requestUrl_entry srv) (trace p)")
  from getActiveTimeEntry_trace [OF g] obtain ev where ev: "tr = trace p @ ev" "writes ev = []"
    by blast
  show ?thesis
  proof (cases res)
    case (Inr entry)
    with Some g ev have "trace (updateStatus srv p) =
        trace p @ (ev @ (if statusBarItemEl p then [RenderStatusBar entry] else []) @ [UpdateView entry])"
      by (simp add: updateStatus_def)
    moreover have "writes (ev @ (if statusBarItemEl p then [RenderStatusBar entry] else []) @
        [UpdateView entry]) = []"
      using ev(2) by (simp add: writes_append)
    ultimately show ?thesis by blast
  next
    case (Inl e)
    with Some g ev have "\<exists>ev2. trace (updateStatus srv p) = trace p @ (ev @ ev2) \<and> writes ev2 = []"
      by (simp add: updateStatus_def Let_def)
    then obtain ev2 where "trace (updateStatus srv p) = trace p @ (ev @ ev2)" "writes ev2 = []"
      by blast
    with ev(2) have "trace (updateStatus srv p) = trace p @ (ev @ ev2)" "writes (ev @ ev2) = []"
      by (simp_all add: writes_append)
    then show ?thesis by blast
  qed
qed


lemma stopCurrentTimer_user_trace:
  assumes "stopCurrentTimer_user srv a p = (res, p1)"
  shows "\<exists>ev. trace p1 = trace p @ ev \<and> writes ev = []"
    and "activeTimeEntry p1 = activeTimeEntry p" and "statusBarItemEl p1 = statusBarItemEl p"
    and "api p1 = api p"
proof -
  obtain r tr where g: "getMe a (requestUrl_user srv) (trace p) = (r, tr)"
    by (cases "getMe a (requestUrl_user srv) (trace p)")
  from getMe_trace [OF g] obtain ev where ev: "tr = trace p @ ev" "writes ev = []" by blast
  have "writes (ev @ [ConsoleError, Notice ''Error: Could not verify current user. Cannot stop timer.'']) = []"
    using ev(2) by (simp add: writes_append)
  with assms g ev show "\<exists>ev. trace p1 = trace p @ ev \<and> writes ev = []"
    by (cases "currentUser p"; cases r) (auto simp: stopCurrentTimer_user_def)
  from assms g show "activeTimeEntry p1 = activeTimeEntry p"
    "statusBarItemEl p1 = statusBarItemEl p" "api p1 = api p"
    by (cases "currentUser p"; cases r; auto simp: stopCurrentTimer_user_def)+
qed

lemma updateActiveTimerDetails_user_trace:
  assumes "updateActiveTimerDetails_user srv a p = (res, p1)"
  shows "\<exists>ev. trace p1 = trace p @ ev \<and> writes ev = []"
    and "activeTimeEntry p1 = activeTimeEntry p" and "statusBarItemEl p1 = statusBarItemEl p"
    and "api p1 = api p"
proof -
  obtain r tr where g: "getMe a (requestUrl_user srv) (trace p) = (r, tr)"
    by (cases "getMe a (requestUrl_user srv) (trace p)")
  from getMe_trace [OF g] obtain ev where ev: "tr = trace p @ ev" "writes ev = []" by blast
  have "writes (ev @ [Notice ''Error: Could not verify current user.'']) = []"
    using ev(2) by (simp add: writes_append)
  with assms g ev show "\<exists>ev. trace p1 = trace p @ ev \<and> writes ev = []"
    by (cases "currentUser p"; cases r) (auto simp: updateActiveTimerDetails_user_def)
  from assms g show "activeTimeEntry p1 = activeTimeEntry p"
    "statusBarItemEl p1 = statusBarItemEl p" "api p1 = api p"
    by (cases "currentUser p"; cases r; auto simp: updateActiveTimerDetails_user_def)+
qed


lemma stopCurrentTimer_clear_fields:
  "activeTimeEntry (stopCurrentTimer_clear p) = None"
  "trace (stopCurrentTimer_clear p) =
     trace p @ [Notice ''SolidTime: Stopping timer...''] @
       (if statusBarItemEl p then [RenderStatusBar None] else []) @ [UpdateView None]"
  "api (stopCurrentTimer_clear p) = api p" "settings (stopCurrentTimer_clear p) = settings p"
  "statusBarItemEl (stopCurrentTimer_clear p) = statusBarItemEl p"
  by (simp_all add: stopCurrentTimer_clear_def)

lemma stopCurrentTimer_send_run:
  assumes "stopTimeEntry a (requestUrl_entry srv) org (entry_id entry) pl
      (trace (stopCurrentTimer_clear p)) = (res, tr)"
  shows "stopCurrentTimer_send srv a org entry pl p =
     (case res of
        Inr stopped \<Rightarrow>
          notice ''SolidTime: Timer stopped!'' ((stopCurrentTimer_clear p)\<lparr>trace := tr\<rparr>)
      | Inl e \<Rightarrow>
          notice ''SolidTime: Failed to stop timer. Status refreshed.''
            (updateStatus srv (console_error ((stopCurrentTimer_clear p)\<lparr>trace := tr\<rparr>))))"
  using assms by (cases res) (simp_all add: stopCurrentTimer_send_def Let_def)

lemma stopCurrentTimer_send_writes:
  "\<exists>ev. trace (stopCurrentTimer_send srv a org entry pl p) = trace p @ ev \<and>
     (writes ev = [] \<or> writes ev = [prepare a (PUT (url_time_entry org (entry_id entry)) pl)])"
proof -
  obtain pre where pre: "trace (stopCurrentTimer_clear p) = trace p @ pre" "writes pre = []"
    by (simp add: stopCurrentTimer_clear_fields writes_append)
  obtain res tr where st: "stopTimeEntry a (requestUrl_entry srv) org (entry_id entry) pl
      (trace (stopCurrentTimer_clear p)) = (res, tr)"
    by (cases "stopTimeEntry a (requestUrl_entry srv) org (entry_id entry) pl
      (trace (stopCurrentTimer_clear p))")
  from stopTimeEntry_trace [OF st] obtain ev where ev: "tr = trace (stopCurrentTimer_clear p) @ ev"
    "sent ev = [] \<or> sent ev = [prepare a (PUT (url_time_entry org (entry_id entry)) pl)]"
    by blast
  have put: "http_method (prepare a (PUT (url_time_entry org (entry_id entry)) pl)) \<noteq> ''GET''"
    by (simp add: prepare_fields PUT_def)
  from ev(2) put have w: "writes ev = [] \<or>
      writes ev = [prepare a (PUT (url_time_entry org (entry_id entry)) pl)]"
    by (auto simp: writes_def)
  show ?thesis
  proof (cases res)
    case (Inr stopped)
    with stopCurrentTimer_send_run [OF st] ev(1) pre(1)
    have "trace (stopCurrentTimer_send srv a org entry pl p) =
        trace p @ (pre @ ev @ [Notice ''SolidTime: Timer stopped!''])"
      by simp
    moreover have "writes (pre @ ev @ [Notice ''SolidTime: Timer stopped!'']) = writes ev"
      using pre(2) by (simp add: writes_append)
    ultimately show ?thesis using w by metis
  next
    case (Inl e)
    let ?q = "console_error ((stopCurrentTimer_clear p)\<lparr>trace := tr\<rparr>)"
    from updateStatus_trace [of srv ?q] obtain ev2 where
      ev2: "trace (updateStatus srv ?q) = trace ?q @ ev2" "writes ev2 = []"
      by blast
    with Inl stopCurrentTimer_send_run [OF st] ev(1) pre(1)
    have "trace (stopCurrentTimer_send srv a org entry pl p) =
        trace p @ (pre @ ev @ [ConsoleError] @ ev2 @
          [Notice ''SolidTime: Failed to stop timer. Status refreshed.''])"
      by simp
    moreover have "writes (pre @ ev @ [ConsoleError] @ ev2 @
          [Notice ''SolidTime: Failed to stop timer. Status refreshed.'']) = writes ev"
      using pre(2) ev2(2) by (simp add: writes_append)
    ultimately show ?thesis using w by metis
  qed
qed

lemma updateActiveTimerDetails_send_run:
  assumes "stopTimeEntry a (requestUrl_entry srv) org (entry_id entry) pl
      (trace p @ [Notice ''SolidTime: Updating timer...'']) = (res, tr)"
  shows "updateActiveTimerDetails_send srv a org entry pl p =
     (case res of
        Inr updatedEntry \<Rightarrow>
          notice ''SolidTime: Timer updated!''
            (updateSolidTimeView (renderStatusBar
               (p\<lparr>activeTimeEntry := Some updatedEntry, trace := tr\<rparr>)))
      | Inl e \<Rightarrow>
          updateStatus srv
            (notice ''SolidTime: Failed to update timer. Check console.''
               (console_error (p\<lparr>trace := tr\<rparr>))))"
  using assms
  by (cases res) (simp_all add: updateActiveTimerDetails_send_def Let_def notice_def)

lemma updateActiveTimerDetails_send_writes:
  "\<exists>ev. trace (updateActiveTimerDetails_send srv a org entry pl p) = trace p @ ev \<and>
     (writes ev = [] \<or> writes ev = [prepare a (PUT (url_time_entry org (entry_id entry)) pl)])"
proof -
  let ?t0 = "trace p @ [Notice ''SolidTime: Updating timer...'']"
  obtain res tr where st: "stopTimeEntry a (requestUrl_entry srv) org (entry_id entry) pl ?t0 =
      (res, tr)"
    by (cases "stopTimeEntry a (requestUrl_entry srv) org (entry_id entry) pl ?t0")
  from stopTimeEntry_trace [OF st] obtain ev where ev: "tr = ?t0 @ ev"
    "sent ev = [] \<or> sent ev = [prepare a (PUT (url_time_entry org (entry_id entry)) pl)]"
    by blast
  have put: "http_method (prepare a (PUT (url_time_entry org (entry_id entry)) pl)) \<noteq> ''GET''"
    by (simp add: prepare_fields PUT_def)
  from ev(2) put have w: "writes ev = [] \<or>
      writes ev = [prepare a (PUT (url_time_entry org (entry_id entry)) pl)]"
    by (auto simp: writes_def)
  show ?thesis
  proof (cases res)
    case (Inr updatedEntry)
    with updateActiveTimerDetails_send_run [OF st] ev(1)
    have "trace (updateActiveTimerDetails_send srv a org entry pl p) =
        trace p @ ([Notice ''SolidTime: Updating timer...''] @ ev @
          (if statusBarItemEl p then [RenderStatusBar (Some updatedEntry)] else []) @
          [UpdateView (Some updatedEntry), Notice ''SolidTime: Timer updated!''])"
      by simp
    moreover have "writes ([Notice ''SolidTime: Updating timer...''] @ ev @
          (if statusBarItemEl p then [RenderStatusBar (Some updatedEntry)] else []) @
          [UpdateView (Some updatedEntry), Notice ''SolidTime: Timer updated!'']) = writes ev"
      by (simp add: writes_append)
    ultimately show ?thesis using w by metis
  next
    case (Inl e)
    let ?q = "notice ''SolidTime: Failed to update timer. Check console.''
               (console_error (p\<lparr>trace := tr\<rparr>))"
    from updateStatus_trace [of srv ?q] obtain ev2 where
      ev2: "trace (updateStatus srv ?q) = trace ?q @ ev2" "writes ev2 = []"
      by blast
    with Inl updateActiveTimerDetails_send_run [OF st] ev(1)
    have "trace (updateActiveTimerDetails_send srv a org entry pl p) =
        trace p @ ([Notice ''SolidTime: Updating timer...''] @ ev @
          [ConsoleError, Notice ''SolidTime: Failed to update timer. Check console.''] @ ev2)"
      by simp
    moreover have "writes ([Notice ''SolidTime: Updating timer...''] @ ev @
          [ConsoleError, Notice ''SolidTime: Failed to update timer. Check console.''] @ ev2) =
        writes ev"
      using ev2(2) by (simp add: writes_append)
    ultimately show ?thesis using w by metis
  qed
qed

text \<open>stopCurrentTimer once the user, the entry and the members are at hand.\<close>

lemma stopCurrentTimer_resolved:
  assumes "api p = Some a" "stopCurrentTimer_user srv a p = (Inr u, p1)"
    "activeTimeEntry p1 = Some entry" "entry_organization_id entry \<noteq> []"
    "entry_start entry \<noteq> []"
    "getMembers a (requestUrl_members srv) (entry_organization_id entry) (trace p1) =
       Some (members, tr)"
  shows "stopCurrentTimer srv now p =
     Some (case find (\<lambda>member. member_user_id member = user_id u) members of
        None \<Rightarrow>
          p1\<lparr>trace := tr @
            [ConsoleError,
             Notice (''Error: Your user was not found in the timer'' @ [CHR 0x27] @
                     ''s organization ('' @ entry_organization_id entry @
                     ''). Cannot stop timer.''),
             Notice ''Error: Could not determine correct Member ID. Cannot stop timer.'']\<rparr>
      | Some currentMembership \<Rightarrow>
          if member_id currentMembership = [] then
            p1\<lparr>trace := tr @
              [Notice ''Error: Could not determine correct Member ID. Cannot stop timer.'']\<rparr>
          else
            stopCurrentTimer_send srv a (entry_organization_id entry) entry
              (stop_payloadToSend (member_id currentMembership) (moment_format now @ ''Z'') entry)
              (p1\<lparr>trace := tr\<rparr>))"
  using assms
  by (simp add: stopCurrentTimer_def Let_def split: option.splits)

lemma updateActiveTimerDetails_resolved:
  assumes "api p = Some a" "updateActiveTimerDetails_user srv a p = (Inr u, p1)"
    "activeTimeEntry p1 = Some entry" "entry_organization_id entry \<noteq> []"
    "entry_start entry \<noteq> []"
    "getMembers a (requestUrl_members srv) (entry_organization_id entry) (trace p1) =
       Some (members, tr)"
  shows "updateActiveTimerDetails srv updates p =
     Some (case find (\<lambda>member. member_user_id member = user_id u) members of
        None \<Rightarrow>
          p1\<lparr>trace := tr @
            [Notice (''Error: User not found in org '' @ entry_organization_id entry @ ''.'')]\<rparr>
      | Some currentMembership \<Rightarrow>
          if member_id currentMembership = [] then
            p1\<lparr>trace := tr @ [Notice ''Error determining Member ID.'']\<rparr>
          else
            updateActiveTimerDetails_send srv a (entry_organization_id entry) entry
              (update_payloadToSend (member_id currentMembership) updates entry)
              (p1\<lparr>trace := tr\<rparr>))"
  using assms
  by (simp add: updateActiveTimerDetails_def Let_def split: option.splits)

lemma stopCurrentTimer_writes:
  assumes run: "stopCurrentTimer srv now p = Some p'"
  shows "\<exists>ev. trace p' = trace p @ ev \<and>
     (writes ev = [] \<or>
      (\<exists>a u p1 entry members tr m.
         api p = Some a \<and> stopCurrentTimer_user srv a p = (Inr u, p1) \<and>
         activeTimeEntry p1 = Some entry \<and>
         getMembers a (requestUrl_members srv) (entry_organization_id entry) (trace p1) =
           Some (members, tr) \<and>
         find (\<lambda>member. member_user_id member = user_id u) members = Some m \<and>
         member_id m \<noteq> [] \<and>
         writes ev = [prepare a (PUT (url_time_entry (entry_organization_id entry) (entry_id entry))
            (stop_payloadToSend (member_id m) (moment_format now @ ''Z'') entry))]))"
proof (cases "api p")
  case None
  with run have "trace p' = trace p @ [Notice ''SolidTime: API not configured.'']"
    by (auto simp: stopCurrentTimer_def)
  then show ?thesis by (intro exI [of _ "[Notice ''SolidTime: API not configured.'']"]) simp
next
  case (Some a)
  obtain res p1 where user: "stopCurrentTimer_user srv a p = (res, p1)"
    by (cases "stopCurrentTimer_user srv a p")
  from stopCurrentTimer_user_trace(1) [OF user] obtain ev1 where
    ev1: "trace p1 = trace p @ ev1" "writes ev1 = []" by blast
  show ?thesis
  proof (cases res)
    case (Inl e)
    with run Some user have "p' = p1" by (simp add: stopCurrentTimer_def)
    with ev1 show ?thesis by blast
  next
    case (Inr u)
    show ?thesis
    proof (cases "activeTimeEntry p1")
      case None
      with run Some user Inr have "trace p' = trace p1 @ [Notice ''SolidTime: No timer is currently running.'']"
        by (auto simp: stopCurrentTimer_def)
      with ev1 have "trace p' = trace p @ (ev1 @ [Notice ''SolidTime: No timer is currently running.''])"
        "writes (ev1 @ [Notice ''SolidTime: No timer is currently running.'']) = []"
        by (simp_all add: writes_append)
      then show ?thesis by blast
    next
      case active: (Some entry)
      show ?thesis
      proof (cases "entry_organization_id entry = [] \<or> entry_start entry = []")
        case True
        let ?q = "notice ''Error: Cannot stop timer, active entry data is incomplete. Please refresh.''
                           (console_error p1)"
        from run Some user Inr active True have p': "p' = updateStatus srv ?q"
          by (auto simp: stopCurrentTimer_def)
        from updateStatus_trace [of srv ?q] obtain ev2 where
          "trace (updateStatus srv ?q) = trace ?q @ ev2" "writes ev2 = []" by blast
        with p' ev1 have "trace p' = trace p @ (ev1 @ [ConsoleError,
            Notice ''Error: Cannot stop timer, active entry data is incomplete. Please refresh.''] @ ev2)"
          "writes (ev1 @ [ConsoleError,
            Notice ''Error: Cannot stop timer, active entry data is incomplete. Please refresh.''] @ ev2) = []"
          by (simp_all add: writes_append)
        then show ?thesis by blast
      next
        case False
        then have org: "entry_organization_id entry \<noteq> []" and st: "entry_start entry \<noteq> []"
          by simp_all
        show ?thesis
        proof (cases "getMembers a (requestUrl_members srv) (entry_organization_id entry) (trace p1)")
          case None
          with run Some user Inr active False show ?thesis
            by (simp add: stopCurrentTimer_def)
        next
          case (Some mt)
          obtain members tr where mt: "mt = (members, tr)" by (cases mt)
          with Some have gm: "getMembers a (requestUrl_members srv) (entry_organization_id entry)
              (trace p1) = Some (members, tr)" by simp
          from getMembers_trace [OF gm] obtain ev2 where ev2: "tr = trace p1 @ ev2" "writes ev2 = []"
            by blast
          note resolved = stopCurrentTimer_resolved [OF \<open>api p = Some a\<close> user [unfolded Inr] active org st gm,
              of now]
          show ?thesis
          proof (cases "find (\<lambda>member. member_user_id member = user_id u) members")
            case None
            with resolved run have "trace p' = tr @
              [ConsoleError,
               Notice (''Error: Your user was not found in the timer'' @ [CHR 0x27] @
                     ''s organization ('' @ entry_organization_id entry @
                     ''). Cannot stop timer.''),
               Notice ''Error: Could not determine correct Member ID. Cannot stop timer.'']"
              by auto
            with ev1 ev2 have "\<exists>ev3. trace p' = trace p @ (ev1 @ ev2 @ ev3) \<and> writes ev3 = []"
              by simp
            then obtain ev3 where "trace p' = trace p @ (ev1 @ ev2 @ ev3)" "writes ev3 = []"
              by blast
            with ev1 ev2 have "trace p' = trace p @ (ev1 @ ev2 @ ev3)"
              "writes (ev1 @ ev2 @ ev3) = []"
              by (simp_all add: writes_append)
            then show ?thesis by blast
          next
            case found: (Some m)
            show ?thesis
            proof (cases "member_id m = []")
              case True
              with found resolved run have "trace p' = tr @
                [Notice ''Error: Could not determine correct Member ID. Cannot stop timer.'']"
                by auto
              with ev1 ev2 have "trace p' = trace p @ (ev1 @ ev2 @
                  [Notice ''Error: Could not determine correct Member ID. Cannot stop timer.''])"
                "writes (ev1 @ ev2 @
                  [Notice ''Error: Could not determine correct Member ID. Cannot stop timer.'']) = []"
                by (simp_all add: writes_append)
              then show ?thesis by blast
            next
              case False
              let ?pl = "stop_payloadToSend (member_id m) (moment_format now @ ''Z'') entry"
              from found False resolved run have p': "p' = stopCurrentTimer_send srv a
                  (entry_organization_id entry) entry ?pl (p1\<lparr>trace := tr\<rparr>)"
                by auto
              from stopCurrentTimer_send_writes
                [of srv a "entry_organization_id entry" entry ?pl "p1\<lparr>trace := tr\<rparr>"]
              obtain ev3 where ev3: "trace p' = tr @ ev3"
                "writes ev3 = [] \<or> writes ev3 =
                   [prepare a (PUT (url_time_entry (entry_organization_id entry) (entry_id entry)) ?pl)]"
                using p' by auto
              from ev1 ev2 ev3 have t: "trace p' = trace p @ (ev1 @ ev2 @ ev3)"
                and w: "writes (ev1 @ ev2 @ ev3) = writes ev3"
                by (simp_all add: writes_append)
              from ev3(2) show ?thesis
              proof
                assume "writes ev3 = []"
                with t w show ?thesis by metis
              next
                assume "writes ev3 =
                   [prepare a (PUT (url_time_entry (entry_organization_id entry) (entry_id entry)) ?pl)]"
                with w have w3: "writes (ev1 @ ev2 @ ev3) =
                   [prepare a (PUT (url_time_entry (entry_organization_id entry) (entry_id entry)) ?pl)]"
                  by simp
                from user Inr have user': "stopCurrentTimer_user srv a p = (Inr u, p1)" by simp
                from \<open>api p = Some a\<close> user' active gm found False w3
                have "\<exists>a u p1 entry members tr m.
                   api p = Some a \<and> stopCurrentTimer_user srv a p = (Inr u, p1) \<and>
                   activeTimeEntry p1 = Some entry \<and>
                   getMembers a (requestUrl_members srv) (entry_organization_id entry) (trace p1) =
                     Some (members, tr) \<and>
                   find (\<lambda>member. member_user_id member = user_id u) members = Some m \<and>
                   member_id m \<noteq> [] \<and>
                   writes (ev1 @ ev2 @ ev3) =
                     [prepare a (PUT (url_time_entry (entry_organization_id entry) (entry_id entry))
                        (stop_payloadToSend (member_id m) (moment_format now @ ''Z'') entry))]"
                  by blast
                with t show ?thesis by blast
              qed
            qed
          qed
        qed
      qed
    qed
  qed
qed

lemma updateActiveTimerDetails_writes:
  assumes run: "updateActiveTimerDetails srv updates p = Some p'"
  shows "\<exists>ev. trace p' = trace p @ ev \<and>
     (writes ev = [] \<or>
      (\<exists>a u p1 entry members tr m.
         api p = Some a \<and> updateActiveTimerDetails_user srv a p = (Inr u, p1) \<and>
         activeTimeEntry p1 = Some entry \<and>
         getMembers a (requestUrl_members srv) (entry_organization_id entry) (trace p1) =
           Some (members, tr) \<and>
         find (\<lambda>member. member_user_id member = user_id u) members = Some m \<and>
         member_id m \<noteq> [] \<and>
         writes ev = [prepare a (PUT (url_time_entry (entry_organization_id entry) (entry_id entry))
            (update_payloadToSend (member_id m) updates entry))]))"
proof (cases "api p")
  case None
  with run have "trace p' = trace p @ [Notice ''SolidTime: API not configured.'']"
    by (auto simp: updateActiveTimerDetails_def)
  then show ?thesis by (intro exI [of _ "[Notice ''SolidTime: API not configured.'']"]) simp
next
  case (Some a)
  obtain res p1 where user: "updateActiveTimerDetails_user srv a p = (res, p1)"
    by (cases "updateActiveTimerDetails_user srv a p")
  from updateActiveTimerDetails_user_trace(1) [OF user] obtain ev1 where
    ev1: "trace p1 = trace p @ ev1" "writes ev1 = []" by blast
  show ?thesis
  proof (cases res)
    case (Inl e)
    with run Some user have "p' = p1" by (simp add: updateActiveTimerDetails_def)
    with ev1 show ?thesis by blast
  next
    case (Inr u)
    show ?thesis
    proof (cases "activeTimeEntry p1")
      case None
      with run Some user Inr have "trace p' = trace p1 @ [Notice ''SolidTime: No timer is running to update.'']"
        by (auto simp: updateActiveTimerDetails_def)
      with ev1 have "trace p' = trace p @ (ev1 @ [Notice ''SolidTime: No timer is running to update.''])"
        "writes (ev1 @ [Notice ''SolidTime: No timer is running to update.'']) = []"
        by (simp_all add: writes_append)
      then show ?thesis by blast
    next
      case active: (Some entry)
      show ?thesis
      proof (cases "entry_organization_id entry = [] \<or> entry_start entry = []")
        case True
        from run Some user Inr active True
        have "trace p' = trace p1 @ [Notice ''Error: Active entry data incomplete.'']"
          by (auto simp: updateActiveTimerDetails_def)
        with ev1 have "trace p' = trace p @ (ev1 @ [Notice ''Error: Active entry data incomplete.''])"
          "writes (ev1 @ [Notice ''Error: Active entry data incomplete.'']) = []"
          by (simp_all add: writes_append)
        then show ?thesis by blast
      next
        case False
        then have org: "entry_organization_id entry \<noteq> []" and st: "entry_start entry \<noteq> []"
          by simp_all
        show ?thesis
        proof (cases "getMembers a (requestUrl_members srv) (entry_organization_id entry) (trace p1)")
          case None
          with run Some user Inr active False show ?thesis
            by (simp add: updateActiveTimerDetails_def)
        next
          case (Some mt)
          obtain members tr where mt: "mt = (members, tr)" by (cases mt)
          with Some have gm: "getMembers a (requestUrl_members srv) (entry_organization_id entry)
              (trace p1) = Some (members, tr)" by simp
          from getMembers_trace [OF gm] obtain ev2 where ev2: "tr = trace p1 @ ev2" "writes ev2 = []"
            by blast
          note resolved = updateActiveTimerDetails_resolved [OF \<open>api p = Some a\<close> user [unfolded Inr] active org st gm,
              of updates]
          show ?thesis
          proof (cases "find (\<lambda>member. member_user_id member = user_id u) members")
            case None
            with resolved run have "trace p' = tr @
              [Notice (''Error: User not found in org '' @ entry_organization_id entry @ ''.'')]"
              by auto
            with ev1 ev2 have "\<exists>ev3. trace p' = trace p @ (ev1 @ ev2 @ ev3) \<and> writes ev3 = []"
              by simp
            then obtain ev3 where "trace p' = trace p @ (ev1 @ ev2 @ ev3)" "writes ev3 = []"
              by blast
            with ev1 ev2 have "trace p' = trace p @ (ev1 @ ev2 @ ev3)"
              "writes (ev1 @ ev2 @ ev3) = []"
              by (simp_all add: writes_append)
            then show ?thesis by blast
          next
            case found: (Some m)
            show ?thesis
            proof (cases "member_id m = []")
              case True
              with found resolved run have "trace p' = tr @
                [Notice ''Error determining Member ID.'']"
                by auto
              with ev1 ev2 have "trace p' = trace p @ (ev1 @ ev2 @
                  [Notice ''Error determining Member ID.''])"
                "writes (ev1 @ ev2 @
                  [Notice ''Error determining Member ID.'']) = []"
                by (simp_all add: writes_append)
              then show ?thesis by blast
            next
              case False
              let ?pl = "update_payloadToSend (member_id m) updates entry"
              from found False resolved run have p': "p' = updateActiveTimerDetails_send srv a
                  (entry_organization_id entry) entry ?pl (p1\<lparr>trace := tr\<rparr>)"
                by auto
              from updateActiveTimerDetails_send_writes
                [of srv a "entry_organization_id entry" entry ?pl "p1\<lparr>trace := tr\<rparr>"]
              obtain ev3 where ev3: "trace p' = tr @ ev3"
                "writes ev3 = [] \<or> writes ev3 =
                   [prepare a (PUT (url_time_entry (entry_organization_id entry) (entry_id entry)) ?pl)]"
                using p' by auto
              from ev1 ev2 ev3 have t: "trace p' = trace p @ (ev1 @ ev2 @ ev3)"
                and w: "writes (ev1 @ ev2 @ ev3) = writes ev3"
                by (simp_all add: writes_append)
              from ev3(2) show ?thesis
              proof
                assume "writes ev3 = []"
                with t w show ?thesis by metis
              next
                assume "writes ev3 =
                   [prepare a (PUT (url_time_entry (entry_organization_id entry) (entry_id entry)) ?pl)]"
                with w have w3: "writes (ev1 @ ev2 @ ev3) =
                   [prepare a (PUT (url_time_entry (entry_organization_id entry) (entry_id entry)) ?pl)]"
                  by simp
                from user Inr have user': "updateActiveTimerDetails_user srv a p = (Inr u, p1)" by simp
                from \<open>api p = Some a\<close> user' active gm found False w3
                have "\<exists>a u p1 entry members tr m.
                   api p = Some a \<and> updateActiveTimerDetails_user srv a p = (Inr u, p1) \<and>
                   activeTimeEntry p1 = Some entry \<and>
                   getMembers a (requestUrl_members srv) (entry_organization_id entry) (trace p1) =
                     Some (members, tr) \<and>
                   find (\<lambda>member. member_user_id member = user_id u) members = Some m \<and>
                   member_id m \<noteq> [] \<and>
                   writes (ev1 @ ev2 @ ev3) =
                     [prepare a (PUT (url_time_entry (entry_organization_id entry) (entry_id entry))
                        (update_payloadToSend (member_id m) updates entry))]"
                  by blast
                with t show ?thesis by blast
              qed
            qed
          qed
        qed
      qed
    qed
  qed
qed


section \<open>Payloads of the PUT, and runs on the example service\<close>

lemma payload_keys:
  "keys (stop_payloadToSend m e entry) =
     [''member_id'', ''end'', ''billable'', ''project_id'', ''task_id'', ''description'', ''tags'']"
  "keys (update_payloadToSend m updates entry) =
     [''member_id'', ''billable'', ''project_id'', ''task_id'', ''description'', ''tags'']"
  "map_of (stop_payloadToSend m e entry) ''member_id'' = Some (JString m)"
  "map_of (update_payloadToSend m updates entry) ''member_id'' = Some (JString m)"
  by (simp_all add: stop_payloadToSend_def update_payloadToSend_def keys_def)

text \<open>Running the model on the example service.\<close>

lemma demo_members:
  assumes "requestUrl_members srv = (\<lambda>hist r. Inr (respond 200 (Some (PaginatedResponse (Some ms) None))))"
    and "length ms \<le> 10000"
  shows "getMembers demo_api (requestUrl_members srv) ''org1'' tr =
     Some (ms, tr @ [Request (prepare demo_api (GET (url_members ''org1'')))])"
  using getMembers_single_page [where a = demo_api and org = "''org1''" and tr = tr
      and req = "requestUrl_members srv"
      and response = "respond 200 (Some (PaginatedResponse (Some ms) None))" and ms = ms]
    assms
  by (simp add: demo_api_configured demo_respond)

lemma running_fields:
  "api running_plugin = Some demo_api" "currentUser running_plugin = Some demo_user"
  "activeTimeEntry running_plugin = Some demo_entry" "trace running_plugin = []"
  "statusBarItemEl running_plugin"
  "entry_organization_id demo_entry = ''org1''" "entry_start demo_entry \<noteq> []"
  "entry_id demo_entry = ''e1''" "user_id demo_user = ''u1''"
  by (simp_all add: running_plugin_def idle_plugin_def demo_entry_def demo_user_def)

lemma demo_user_block:
  "stopCurrentTimer_user srv demo_api running_plugin = (Inr demo_user, running_plugin)"
  "updateActiveTimerDetails_user srv demo_api running_plugin = (Inr demo_user, running_plugin)"
  by (simp_all add: stopCurrentTimer_user_def updateActiveTimerDetails_user_def running_fields)



lemma demo_stop:
  assumes "requestUrl_members srv =
      (\<lambda>hist r. Inr (respond 200 (Some (PaginatedResponse (Some [mem]) None))))"
  shows "stopCurrentTimer srv now running_plugin =
     Some (if member_user_id mem = ''u1'' then
             if member_id mem = [] then
               running_plugin\<lparr>trace := [Request (prepare demo_api (GET (url_members ''org1''))),
                 Notice ''Error: Could not determine correct Member ID. Cannot stop timer.'']\<rparr>
             else
               stopCurrentTimer_send srv demo_api ''org1'' demo_entry
                 (stop_payloadToSend (member_id mem) (moment_format now @ ''Z'') demo_entry)
                 (running_plugin\<lparr>trace := [Request (prepare demo_api (GET (url_members ''org1'')))]\<rparr>)
           else
             running_plugin\<lparr>trace := [Request (prepare demo_api (GET (url_members ''org1''))),
               ConsoleError,
               Notice (''Error: Your user was not found in the timer'' @ [CHR 0x27] @
                       ''s organization (org1). Cannot stop timer.''),
               Notice ''Error: Could not determine correct Member ID. Cannot stop timer.'']\<rparr>)"
proof -
  have gm: "getMembers demo_api (requestUrl_members srv) (entry_organization_id demo_entry)
      (trace running_plugin) = Some ([mem], [Request (prepare demo_api (GET (url_members ''org1'')))])"
    using demo_members [OF assms, of "[]"] by (simp add: running_fields)
  show ?thesis
    using stopCurrentTimer_resolved [OF running_fields(1) demo_user_block(1) running_fields(3) _ _ gm,
        of now]
    by (simp add: running_fields)
qed

lemma demo_update:
  assumes "requestUrl_members srv =
      (\<lambda>hist r. Inr (respond 200 (Some (PaginatedResponse (Some [mem]) None))))"
  shows "updateActiveTimerDetails srv updates running_plugin =
     Some (if member_user_id mem = ''u1'' then
             if member_id mem = [] then
               running_plugin\<lparr>trace := [Request (prepare demo_api (GET (url_members ''org1''))),
                 Notice ''Error determining Member ID.'']\<rparr>
             else
               updateActiveTimerDetails_send srv demo_api ''org1'' demo_entry
                 (update_payloadToSend (member_id mem) updates demo_entry)
                 (running_plugin\<lparr>trace := [Request (prepare demo_api (GET (url_members ''org1'')))]\<rparr>)
           else
             running_plugin\<lparr>trace := [Request (prepare demo_api (GET (url_members ''org1''))),
               Notice ''Error: User not found in org org1.'']\<rparr>)"
proof -
  have gm: "getMembers demo_api (requestUrl_members srv) (entry_organization_id demo_entry)
      (trace running_plugin) = Some ([mem], [Request (prepare demo_api (GET (url_members ''org1'')))])"
    using demo_members [OF assms, of "[]"] by (simp add: running_fields)
  show ?thesis
    using updateActiveTimerDetails_resolved [OF running_fields(1) demo_user_block(2) running_fields(3) _ _ gm,
        of updates]
    by (simp add: running_fields)
qed

lemma demo_put_ok:
  assumes "\<And>hist r. requestUrl_entry srv hist r = Inr (respond 200 (Some (Envelope (Some entry))))"
  shows "stopTimeEntry demo_api (requestUrl_entry srv) ''org1'' ''e1'' pl tr =
     (Inr entry, tr @ [Request (prepare demo_api (PUT (url_time_entry ''org1'' ''e1'') pl))])"
  by (rule stopTimeEntry_ok [where response = "respond 200 (Some (Envelope (Some entry)))"])
     (simp_all add: demo_api_configured demo_respond assms)

lemma demo_services:
  "requestUrl_members demo_service =
      (\<lambda>hist r. Inr (respond 200 (Some (PaginatedResponse (Some [demo_member]) None))))"
  "requestUrl_members put_failing_service =
      (\<lambda>hist r. Inr (respond 200 (Some (PaginatedResponse (Some [demo_member]) None))))"
  "requestUrl_members stranger_service =
      (\<lambda>hist r. Inr (respond 200 (Some (PaginatedResponse (Some [other_member]) None))))"
  "\<And>hist r. requestUrl_entry demo_service hist r =
      Inr (respond 200 (Some (Envelope (Some demo_entry))))"
  by (simp_all add: demo_service_def put_failing_service_def stranger_service_def)

lemma demo_stop_writes:
  "\<exists>p1. stopCurrentTimer demo_service demo_now running_plugin = Some p1 \<and>
     activeTimeEntry p1 = None \<and>
     writes (trace p1) =
       [prepare demo_api (PUT (url_time_entry ''org1'' ''e1'')
          (stop_payloadToSend ''m1'' ''2024-01-01T12:00:00Z'' demo_entry))]"
proof -
  let ?q = "running_plugin\<lparr>trace := [Request (prepare demo_api (GET (url_members ''org1'')))]\<rparr>"
  let ?pl = "stop_payloadToSend ''m1'' ''2024-01-01T12:00:00Z'' demo_entry"
  have run: "stopCurrentTimer demo_service demo_now running_plugin =
      Some (stopCurrentTimer_send demo_service demo_api ''org1'' demo_entry ?pl ?q)"
    using demo_stop [OF demo_services(1), of demo_now]
    by (simp add: demo_member_def demo_now_format)
  have put: "stopTimeEntry demo_api (requestUrl_entry demo_service) ''org1'' (entry_id demo_entry) ?pl
      (trace (stopCurrentTimer_clear ?q)) =
     (Inr demo_entry, trace (stopCurrentTimer_clear ?q) @
        [Request (prepare demo_api (PUT (url_time_entry ''org1'' ''e1'') ?pl))])"
    using demo_put_ok [of demo_service demo_entry, OF demo_services(4)]
    by (simp add: running_fields)
  show ?thesis
    unfolding run stopCurrentTimer_send_run [OF put]
    by (simp add: stopCurrentTimer_clear_fields writes_append prepare_fields GET_def PUT_def)
qed

lemma demo_update_writes:
  "\<exists>p2. updateActiveTimerDetails demo_service demo_updates running_plugin = Some p2 \<and>
     activeTimeEntry p2 = Some demo_entry \<and>
     writes (trace p2) =
       [prepare demo_api (PUT (url_time_entry ''org1'' ''e1'')
          (update_payloadToSend ''m1'' demo_updates demo_entry))]"
proof -
  let ?q = "running_plugin\<lparr>trace := [Request (prepare demo_api (GET (url_members ''org1'')))]\<rparr>"
  let ?pl = "update_payloadToSend ''m1'' demo_updates demo_entry"
  have run: "updateActiveTimerDetails demo_service demo_updates running_plugin =
      Some (updateActiveTimerDetails_send demo_service demo_api ''org1'' demo_entry ?pl ?q)"
    using demo_update [OF demo_services(1), of demo_updates]
    by (simp add: demo_member_def)
  have put: "stopTimeEntry demo_api (requestUrl_entry demo_service) ''org1'' (entry_id demo_entry) ?pl
      (trace ?q @ [Notice ''SolidTime: Updating timer...'']) =
     (Inr demo_entry, (trace ?q @ [Notice ''SolidTime: Updating timer...'']) @
        [Request (prepare demo_api (PUT (url_time_entry ''org1'' ''e1'') ?pl))])"
    using demo_put_ok [of demo_service demo_entry, OF demo_services(4)]
    by (simp add: running_fields)
  show ?thesis
    unfolding run updateActiveTimerDetails_send_run [OF put]
    by (simp add: writes_append prepare_fields GET_def PUT_def)
qed

section \<open>The payloads of stop and update\<close>

text \<open>
  Claim C1. The payload built for a stop has the keys member_id, end, billable,
  project_id, task_id, description and tags, and the payload built for a live update has
  the same keys without end, whatever the fields that change. Every write that
  stopCurrentTimer or updateActiveTimerDetails sends is a PUT whose body is such a
  payload: it never has a start key.
\<close>

theorem put_payload_without_start:
  "keys (stop_payloadToSend m e entry) =
     [''member_id'', ''end'', ''billable'', ''project_id'', ''task_id'', ''description'', ''tags''] \<and>
   keys (update_payloadToSend m updates entry) =
     [''member_id'', ''billable'', ''project_id'', ''task_id'', ''description'', ''tags''] \<and>
   (stopCurrentTimer srv now p = Some p1 \<longrightarrow>
      (\<exists>ev. trace p1 = trace p @ ev \<and>
         (\<forall>r \<in> set (writes ev).
            http_method r = ''PUT'' \<and>
            (\<exists>pl. body r = Some pl \<and>
               keys pl = [''member_id'', ''end'', ''billable'', ''project_id'', ''task_id'',
                          ''description'', ''tags''] \<and>
               ''start'' \<notin> set (keys pl))))) \<and>
   (updateActiveTimerDetails srv updates p = Some p2 \<longrightarrow>
      (\<exists>ev. trace p2 = trace p @ ev \<and>
         (\<forall>r \<in> set (writes ev).
            http_method r = ''PUT'' \<and>
            (\<exists>pl. body r = Some pl \<and>
               keys pl = [''member_id'', ''billable'', ''project_id'', ''task_id'',
                          ''description'', ''tags''] \<and>
               ''start'' \<notin> set (keys pl) \<and> ''end'' \<notin> set (keys pl)))))"
proof (intro conjI impI)
  show "keys (stop_payloadToSend m e entry) =
     [''member_id'', ''end'', ''billable'', ''project_id'', ''task_id'', ''description'', ''tags'']"
    by (rule payload_keys)
  show "keys (update_payloadToSend m updates entry) =
     [''member_id'', ''billable'', ''project_id'', ''task_id'', ''description'', ''tags'']"
    by (rule payload_keys)
next
  assume "stopCurrentTimer srv now p = Some p1"
  from stopCurrentTimer_writes [OF this] obtain ev where
    t: "trace p1 = trace p @ ev" and
    w: "writes ev = [] \<or>
      (\<exists>a u q entry members tr m.
         api p = Some a \<and> stopCurrentTimer_user srv a p = (Inr u, q) \<and>
         activeTimeEntry q = Some entry \<and>
         getMembers a (requestUrl_members srv) (entry_organization_id entry) (trace q) =
           Some (members, tr) \<and>
         find (\<lambda>member. member_user_id member = user_id u) members = Some m \<and>
         member_id m \<noteq> [] \<and>
         writes ev =
         [prepare a (PUT (url_time_entry (entry_organization_id entry) (entry_id entry))
            (stop_payloadToSend (member_id m) (moment_format now @ ''Z'') entry))])"
    by blast
  from w have "\<forall>r \<in> set (writes ev).
            http_method r = ''PUT'' \<and>
            (\<exists>pl. body r = Some pl \<and>
               keys pl = [''member_id'', ''end'', ''billable'', ''project_id'', ''task_id'',
                          ''description'', ''tags''] \<and>
               ''start'' \<notin> set (keys pl))"
    by (auto simp: prepare_fields PUT_def payload_keys)
  with t show "\<exists>ev. trace p1 = trace p @ ev \<and>
         (\<forall>r \<in> set (writes ev).
            http_method r = ''PUT'' \<and>
            (\<exists>pl. body r = Some pl \<and>
               keys pl = [''member_id'', ''end'', ''billable'', ''project_id'', ''task_id'',
                          ''description'', ''tags''] \<and>
               ''start'' \<notin> set (keys pl)))"
    by blast
next
  assume "updateActiveTimerDetails srv updates p = Some p2"
  from updateActiveTimerDetails_writes [OF this] obtain ev where
    t: "trace p2 = trace p @ ev" and
    w: "writes ev = [] \<or>
      (\<exists>a u q entry members tr m.
         api p = Some a \<and> updateActiveTimerDetails_user srv a p = (Inr u, q) \<and>
         activeTimeEntry q = Some entry \<and>
         getMembers a (requestUrl_members srv) (entry_organization_id entry) (trace q) =
           Some (members, tr) \<and>
         find (\<lambda>member. member_user_id member = user_id u) members = Some m \<and>
         member_id m \<noteq> [] \<and>
         writes ev =
         [prepare a (PUT (url_time_entry (entry_organization_id entry) (entry_id entry))
            (update_payloadToSend (member_id m) updates entry))])"
    by blast
  from w have "\<forall>r \<in> set (writes ev).
            http_method r = ''PUT'' \<and>
            (\<exists>pl. body r = Some pl \<and>
               keys pl = [''member_id'', ''billable'', ''project_id'', ''task_id'',
                          ''description'', ''tags''] \<and>
               ''start'' \<notin> set (keys pl) \<and> ''end'' \<notin> set (keys pl))"
    by (auto simp: prepare_fields PUT_def payload_keys)
  with t show "\<exists>ev. trace p2 = trace p @ ev \<and>
         (\<forall>r \<in> set (writes ev).
            http_method r = ''PUT'' \<and>
            (\<exists>pl. body r = Some pl \<and>
               keys pl = [''member_id'', ''billable'', ''project_id'', ''task_id'',
                          ''description'', ''tags''] \<and>
               ''start'' \<notin> set (keys pl) \<and> ''end'' \<notin> set (keys pl)))"
    by blast
qed

theorem put_payload_without_start_witness:
  "\<exists>p1 p2 r1 r2 pl1 pl2.
     stopCurrentTimer demo_service demo_now running_plugin = Some p1 \<and>
     writes (trace p1) = [r1] \<and> http_method r1 = ''PUT'' \<and> body r1 = Some pl1 \<and>
     keys pl1 = [''member_id'', ''end'', ''billable'', ''project_id'', ''task_id'',
                 ''description'', ''tags''] \<and>
     ''start'' \<notin> set (keys pl1) \<and>
     updateActiveTimerDetails demo_service demo_updates running_plugin = Some p2 \<and>
     writes (trace p2) = [r2] \<and> http_method r2 = ''PUT'' \<and> body r2 = Some pl2 \<and>
     keys pl2 = [''member_id'', ''billable'', ''project_id'', ''task_id'',
                 ''description'', ''tags''] \<and>
     ''start'' \<notin> set (keys pl2) \<and> ''end'' \<notin> set (keys pl2)"
proof -
  from demo_stop_writes obtain p1 where
    s: "stopCurrentTimer demo_service demo_now running_plugin = Some p1" and
    ws: "writes (trace p1) =
       [prepare demo_api (PUT (url_time_entry ''org1'' ''e1'')
          (stop_payloadToSend ''m1'' ''2024-01-01T12:00:00Z'' demo_entry))]"
    by blast
  from demo_update_writes obtain p2 where
    u: "updateActiveTimerDetails demo_service demo_updates running_plugin = Some p2" and
    wu: "writes (trace p2) =
       [prepare demo_api (PUT (url_time_entry ''org1'' ''e1'')
          (update_payloadToSend ''m1'' demo_updates demo_entry))]"
    by blast
  note main = put_payload_without_start
    [where srv = demo_service and now = demo_now and p = running_plugin and ?p1.0 = p1
       and ?p2.0 = p2 and updates = demo_updates]
  from main s have "\<exists>ev. trace p1 = trace running_plugin @ ev \<and>
         (\<forall>r \<in> set (writes ev).
            http_method r = ''PUT'' \<and>
            (\<exists>pl. body r = Some pl \<and>
               keys pl = [''member_id'', ''end'', ''billable'', ''project_id'', ''task_id'',
                          ''description'', ''tags''] \<and>
               ''start'' \<notin> set (keys pl)))"
    by blast
  then have a: "\<forall>r \<in> set (writes (trace p1)).
            http_method r = ''PUT'' \<and>
            (\<exists>pl. body r = Some pl \<and>
               keys pl = [''member_id'', ''end'', ''billable'', ''project_id'', ''task_id'',
                          ''description'', ''tags''] \<and>
               ''start'' \<notin> set (keys pl))"
    by (simp add: running_fields)
  from main u have "\<exists>ev. trace p2 = trace running_plugin @ ev \<and>
         (\<forall>r \<in> set (writes ev).
            http_method r = ''PUT'' \<and>
            (\<exists>pl. body r = Some pl \<and>
               keys pl = [''member_id'', ''billable'', ''project_id'', ''task_id'',
                          ''description'', ''tags''] \<and>
               ''start'' \<notin> set (keys pl) \<and> ''end'' \<notin> set (keys pl)))"
    by blast
  then have b: "\<forall>r \<in> set (writes (trace p2)).
            http_method r = ''PUT'' \<and>
            (\<exists>pl. body r = Some pl \<and>
               keys pl = [''member_id'', ''billable'', ''project_id'', ''task_id'',
                          ''description'', ''tags''] \<and>
               ''start'' \<notin> set (keys pl) \<and> ''end'' \<notin> set (keys pl))"
    by (simp add: running_fields)
  from a ws obtain pl1 where
    "http_method (prepare demo_api (PUT (url_time_entry ''org1'' ''e1'')
          (stop_payloadToSend ''m1'' ''2024-01-01T12:00:00Z'' demo_entry))) = ''PUT''"
    "body (prepare demo_api (PUT (url_time_entry ''org1'' ''e1'')
          (stop_payloadToSend ''m1'' ''2024-01-01T12:00:00Z'' demo_entry))) = Some pl1"
    "keys pl1 = [''member_id'', ''end'', ''billable'', ''project_id'', ''task_id'',
                          ''description'', ''tags'']" "''start'' \<notin> set (keys pl1)"
    by auto
  moreover from b wu obtain pl2 where
    "http_method (prepare demo_api (PUT (url_time_entry ''org1'' ''e1'')
          (update_payloadToSend ''m1'' demo_updates demo_entry))) = ''PUT''"
    "body (prepare demo_api (PUT (url_time_entry ''org1'' ''e1'')
          (update_payloadToSend ''m1'' demo_updates demo_entry))) = Some pl2"
    "keys pl2 = [''member_id'', ''billable'', ''project_id'', ''task_id'',
                          ''description'', ''tags'']"
    "''start'' \<notin> set (keys pl2)" "''end'' \<notin> set (keys pl2)"
    by auto
  ultimately show ?thesis using s u ws wu by blast
qed

section \<open>Which member id a write carries\<close>

lemma stopCurrentTimer_no_match:
  assumes "api p = Some a" "stopCurrentTimer_user srv a p = (Inr u, q)"
    "activeTimeEntry q = Some entry" "entry_organization_id entry \<noteq> []"
    "entry_start entry \<noteq> []"
    "getMembers a (requestUrl_members srv) (entry_organization_id entry) (trace q) =
       Some (members, tr)"
    "find (\<lambda>member. member_user_id member = user_id u) members = None"
  shows "stopCurrentTimer srv now p =
     Some (q\<lparr>trace := tr @
       [ConsoleError,
        Notice (''Error: Your user was not found in the timer'' @ [CHR 0x27] @
                ''s organization ('' @ entry_organization_id entry @ ''). Cannot stop timer.''),
        Notice ''Error: Could not determine correct Member ID. Cannot stop timer.'']\<rparr>)"
    and "writes tr = writes (trace p)"
proof -
  show "stopCurrentTimer srv now p =
     Some (q\<lparr>trace := tr @
       [ConsoleError,
        Notice (''Error: Your user was not found in the timer'' @ [CHR 0x27] @
                ''s organization ('' @ entry_organization_id entry @ ''). Cannot stop timer.''),
        Notice ''Error: Could not determine correct Member ID. Cannot stop timer.'']\<rparr>)"
    using stopCurrentTimer_resolved [OF assms(1-6), of now] assms(7) by simp
  from stopCurrentTimer_user_trace(1) [OF assms(2)] obtain ev1 where
    "trace q = trace p @ ev1" "writes ev1 = []" by blast
  moreover from getMembers_trace [OF assms(6)] obtain ev2 where
    "tr = trace q @ ev2" "writes ev2 = []" by blast
  ultimately show "writes tr = writes (trace p)" by (simp add: writes_append)
qed

lemma updateActiveTimerDetails_no_match:
  assumes "api p = Some a" "updateActiveTimerDetails_user srv a p = (Inr u, q)"
    "activeTimeEntry q = Some entry" "entry_organization_id entry \<noteq> []"
    "entry_start entry \<noteq> []"
    "getMembers a (requestUrl_members srv) (entry_organization_id entry) (trace q) =
       Some (members, tr)"
    "find (\<lambda>member. member_user_id member = user_id u) members = None"
  shows "updateActiveTimerDetails srv updates p =
     Some (q\<lparr>trace := tr @
       [Notice (''Error: User not found in org '' @ entry_organization_id entry @ ''.'')]\<rparr>)"
    and "writes tr = writes (trace p)"
proof -
  show "updateActiveTimerDetails srv updates p =
     Some (q\<lparr>trace := tr @
       [Notice (''Error: User not found in org '' @ entry_organization_id entry @ ''.'')]\<rparr>)"
    using updateActiveTimerDetails_resolved [OF assms(1-6), of updates] assms(7) by simp
  from updateActiveTimerDetails_user_trace(1) [OF assms(2)] obtain ev1 where
    "trace q = trace p @ ev1" "writes ev1 = []" by blast
  moreover from getMembers_trace [OF assms(6)] obtain ev2 where
    "tr = trace q @ ev2" "writes ev2 = []" by blast
  ultimately show "writes tr = writes (trace p)" by (simp add: writes_append)
qed

lemma startTimer_no_member:
  assumes "checkSettingsAndApi True p = (True, p0)" "selectedMemberId (settings p) = []"
  shows "startTimer srv now options p =
     notice ''Error: Member ID missing. Please re-select organization in settings.'' p0"
proof -
  have "settings p0 = settings p"
    using checkSettingsAndApi_keeps(2) [of True p] assms(1) by simp
  with assms show ?thesis by (simp add: startTimer_def)
qed

lemma demo_check_no_member:
  "checkSettingsAndApi True no_member_plugin = (True, no_member_plugin)"
  by (simp add: checkSettingsAndApi_def no_member_plugin_def idle_plugin_def demo_settings_def
      Let_def)


text \<open>A member list that is not empty was fetched: the request for the members was sent.\<close>

lemma getMembers_fetched:
  assumes gm: "getMembers a req org tr0 = Some (members, tr)" and ne: "members \<noteq> []"
  shows "\<exists>rest. sent tr = sent tr0 @ prepare a (GET (url_members org)) # rest"
proof -
  from gm ne have org: "org \<noteq> []" by (auto simp: getMembers_def split: if_splits)
  with gm ne have l: "fetchAllPaginated_loop a req [] (Some (url_members org)) tr0 =
      Some (Inr members, tr)"
    by (auto simp: getMembers_def fetchAllPaginated_def split: option.splits sum.splits)
  obtain res tr1 where rq: "request a req (GET (url_members org)) [] tr0 = (res, tr1)"
    by (cases "request a req (GET (url_members org)) [] tr0")
  show ?thesis
  proof (cases res)
    case (Inl e)
    with l rq show ?thesis by (simp add: loop_step url_nonempty)
  next
    case (Inr response)
    from request_Inr [OF rq [unfolded Inr]]
    have tr1: "tr1 = tr0 @ [Request (prepare a (GET (url_members org)))]" by simp
    obtain d1 n1 tr2 where ps: "page_step [] response tr1 = (d1, n1, tr2)"
      by (cases "page_step [] response tr1")
    from page_step_trace [OF ps] obtain w where tr2: "tr2 = tr1 @ w" by auto
    have "\<exists>ev. tr = tr2 @ ev"
    proof (cases "length d1 > 10000")
      case True
      with l rq Inr ps show ?thesis by (auto simp: loop_step url_nonempty)
    next
      case False
      with l rq Inr ps have "fetchAllPaginated_loop a req d1 n1 tr2 = Some (Inr members, tr)"
        by (simp add: loop_step url_nonempty)
      from loop_trace [OF this] show ?thesis by blast
    qed
    then obtain ev where "tr = tr2 @ ev" by blast
    with tr1 tr2 have "sent tr = sent tr0 @ prepare a (GET (url_members org)) # sent (w @ ev)"
      by (simp add: sent_append)
    then show ?thesis by blast
  qed
qed

text \<open>When stopCurrentTimer has written, the write follows the fetch of the members.\<close>

lemma stopCurrentTimer_put_order:
  assumes run: "stopCurrentTimer srv now p = Some p'"
    and a: "api p = Some a" and us: "stopCurrentTimer_user srv a p = (Inr u, q)"
    and act: "activeTimeEntry q = Some entry"
    and gm: "getMembers a (requestUrl_members srv) (entry_organization_id entry) (trace q) =
      Some (members, tr)"
    and found: "find (\<lambda>member. member_user_id member = user_id u) members = Some m"
    and mid: "member_id m \<noteq> []"
    and t: "trace p' = trace p @ ev" and w: "writes ev \<noteq> []"
  shows "\<exists>ev3. trace p' = tr @ ev3 \<and> writes ev3 = writes ev"
    and "writes tr = writes (trace p)"
    and "\<exists>rest. sent tr =
      sent (trace q) @ prepare a (GET (url_members (entry_organization_id entry))) # rest"
proof -
  from stopCurrentTimer_user_trace(1) [OF us] obtain ev1 where
    ev1: "trace q = trace p @ ev1" "writes ev1 = []" by blast
  from getMembers_trace [OF gm] obtain ev2 where ev2: "tr = trace q @ ev2" "writes ev2 = []"
    by blast
  from ev1 ev2 show wt: "writes tr = writes (trace p)" by (simp add: writes_append)
  from found have "members \<noteq> []" by auto
  from getMembers_fetched [OF gm this]
  show "\<exists>rest. sent tr =
      sent (trace q) @ prepare a (GET (url_members (entry_organization_id entry))) # rest" .
  have complete: "entry_organization_id entry \<noteq> [] \<and> entry_start entry \<noteq> []"
  proof (rule ccontr)
    assume "\<not> (entry_organization_id entry \<noteq> [] \<and> entry_start entry \<noteq> [])"
    with run a us act have p': "p' = updateStatus srv
        (notice ''Error: Cannot stop timer, active entry data is incomplete. Please refresh.''
           (console_error q))"
      by (auto simp: stopCurrentTimer_def)
    from updateStatus_trace [of srv
        "notice ''Error: Cannot stop timer, active entry data is incomplete. Please refresh.''
           (console_error q)"] p'
    obtain ev4 where "trace p' = trace q @ [ConsoleError,
        Notice ''Error: Cannot stop timer, active entry data is incomplete. Please refresh.''] @ ev4"
      "writes ev4 = []"
      by auto
    with ev1 t have "writes ev = []" by (auto simp: writes_append)
    with w show False by simp
  qed
  then have org: "entry_organization_id entry \<noteq> []" and st: "entry_start entry \<noteq> []"
    by simp_all
  from stopCurrentTimer_resolved [OF a us act org st gm, of now] run found mid
  have p': "p' = stopCurrentTimer_send srv a (entry_organization_id entry) entry
      (stop_payloadToSend (member_id m) (moment_format now @ ''Z'') entry) (q\<lparr>trace := tr\<rparr>)"
    by simp
  from stopCurrentTimer_send_writes [of srv a "entry_organization_id entry" entry
      "stop_payloadToSend (member_id m) (moment_format now @ ''Z'') entry" "q\<lparr>trace := tr\<rparr>"] p'
  obtain ev3 where ev3: "trace p' = tr @ ev3" by auto
  with t ev1 ev2 have "ev = ev1 @ ev2 @ ev3" by simp
  with ev1 ev2 have "writes ev3 = writes ev" by (simp add: writes_append)
  with ev3 show "\<exists>ev3. trace p' = tr @ ev3 \<and> writes ev3 = writes ev" by blast
qed

lemma updateActiveTimerDetails_put_order:
  assumes run: "updateActiveTimerDetails srv updates p = Some p'"
    and a: "api p = Some a" and us: "updateActiveTimerDetails_user srv a p = (Inr u, q)"
    and act: "activeTimeEntry q = Some entry"
    and gm: "getMembers a (requestUrl_members srv) (entry_organization_id entry) (trace q) =
      Some (members, tr)"
    and found: "find (\<lambda>member. member_user_id member = user_id u) members = Some m"
    and mid: "member_id m \<noteq> []"
    and t: "trace p' = trace p @ ev" and w: "writes ev \<noteq> []"
  shows "\<exists>ev3. trace p' = tr @ ev3 \<and> writes ev3 = writes ev"
    and "writes tr = writes (trace p)"
    and "\<exists>rest. sent tr =
      sent (trace q) @ prepare a (GET (url_members (entry_organization_id entry))) # rest"
proof -
  from updateActiveTimerDetails_user_trace(1) [OF us] obtain ev1 where
    ev1: "trace q = trace p @ ev1" "writes ev1 = []" by blast
  from getMembers_trace [OF gm] obtain ev2 where ev2: "tr = trace q @ ev2" "writes ev2 = []"
    by blast
  from ev1 ev2 show wt: "writes tr = writes (trace p)" by (simp add: writes_append)
  from found have "members \<noteq> []" by auto
  from getMembers_fetched [OF gm this]
  show "\<exists>rest. sent tr =
      sent (trace q) @ prepare a (GET (url_members (entry_organization_id entry))) # rest" .
  have complete: "entry_organization_id entry \<noteq> [] \<and> entry_start entry \<noteq> []"
  proof (rule ccontr)
    assume "\<not> (entry_organization_id entry \<noteq> [] \<and> entry_start entry \<noteq> [])"
    with run a us act have "trace p' = trace q @ [Notice ''Error: Active entry data incomplete.'']"
      by (auto simp: updateActiveTimerDetails_def)
    with ev1 t have "writes ev = []" by (auto simp: writes_append)
    with w show False by simp
  qed
  then have org: "entry_organization_id entry \<noteq> []" and st: "entry_start entry \<noteq> []"
    by simp_all
  from updateActiveTimerDetails_resolved [OF a us act org st gm, of updates] run found mid
  have p': "p' = updateActiveTimerDetails_send srv a (entry_organization_id entry) entry
      (update_payloadToSend (member_id m) updates entry) (q\<lparr>trace := tr\<rparr>)"
    by simp
  from updateActiveTimerDetails_send_writes [of srv a "entry_organization_id entry" entry
      "update_payloadToSend (member_id m) updates entry" "q\<lparr>trace := tr\<rparr>"] p'
  obtain ev3 where ev3: "trace p' = tr @ ev3" by auto
  with t ev1 ev2 have "ev = ev1 @ ev2 @ ev3" by simp
  with ev1 ev2 have "writes ev3 = writes ev" by (simp add: writes_append)
  with ev3 show "\<exists>ev3. trace p' = tr @ ev3 \<and> writes ev3 = writes ev" by blast
qed


lemma moved_stop_writes:
  "\<exists>p1. stopCurrentTimer moved_service demo_now running_plugin = Some p1 \<and>
     writes (trace p1) =
       [prepare demo_api (PUT (url_time_entry ''org1'' ''e1'')
          (stop_payloadToSend ''m9'' ''2024-01-01T12:00:00Z'' demo_entry))]"
proof -
  let ?q = "running_plugin\<lparr>trace := [Request (prepare demo_api (GET (url_members ''org1'')))]\<rparr>"
  let ?pl = "stop_payloadToSend ''m9'' ''2024-01-01T12:00:00Z'' demo_entry"
  have ms: "requestUrl_members moved_service =
      (\<lambda>hist r. Inr (respond 200 (Some (PaginatedResponse (Some [moved_member]) None))))"
    and es: "\<And>hist r. requestUrl_entry moved_service hist r =
      Inr (respond 200 (Some (Envelope (Some demo_entry))))"
    by (simp_all add: moved_service_def demo_service_def)
  have run: "stopCurrentTimer moved_service demo_now running_plugin =
      Some (stopCurrentTimer_send moved_service demo_api ''org1'' demo_entry ?pl ?q)"
    using demo_stop [OF ms, of demo_now]
    by (simp add: moved_member_def demo_member_def demo_now_format)
  have put: "stopTimeEntry demo_api (requestUrl_entry moved_service) ''org1'' (entry_id demo_entry) ?pl
      (trace (stopCurrentTimer_clear ?q)) =
     (Inr demo_entry, trace (stopCurrentTimer_clear ?q) @
        [Request (prepare demo_api (PUT (url_time_entry ''org1'' ''e1'') ?pl))])"
    using demo_put_ok [of moved_service demo_entry, OF es]
    by (simp add: running_fields)
  show ?thesis
    unfolding run stopCurrentTimer_send_run [OF put]
    by (simp add: stopCurrentTimer_clear_fields writes_append prepare_fields GET_def PUT_def)
qed

text \<open>
  Claim C2, amended. startTimer never fetches the members: with no member id in the
  settings it sends no request, and once the settings are otherwise valid it shows the
  notice that the member id is missing. Before every PUT of stopCurrentTimer and of
  updateActiveTimerDetails, whatever member id the settings hold, the members of the
  organization of the active entry have been fetched in that call and the one whose
  user_id is the id of the current user has been found: the request for the members
  comes first, nothing is written until the members are there, and the one PUT that
  follows carries the id of the member found. When no member matches, a notice says
  that the user was not found in the organization and nothing is written.
\<close>

theorem member_resolution:
  "(selectedMemberId (settings p) = [] \<longrightarrow>
      (\<exists>ev. trace (startTimer srv now options p) = trace p @ ev \<and> sent ev = []) \<and>
      (\<forall>p0. checkSettingsAndApi True p = (True, p0) \<longrightarrow>
         startTimer srv now options p =
           notice ''Error: Member ID missing. Please re-select organization in settings.'' p0)) \<and>
   (\<forall>p1. stopCurrentTimer srv now p = Some p1 \<longrightarrow>
      (\<exists>ev. trace p1 = trace p @ ev \<and>
         (writes ev = [] \<or>
          (\<exists>a u q entry members tr m rest ev3.
             api p = Some a \<and> stopCurrentTimer_user srv a p = (Inr u, q) \<and>
             activeTimeEntry q = Some entry \<and>
             getMembers a (requestUrl_members srv) (entry_organization_id entry) (trace q) =
               Some (members, tr) \<and>
             sent tr =
               sent (trace q) @
                 prepare a (GET (url_members (entry_organization_id entry))) # rest \<and>
             writes tr = writes (trace p) \<and>
             find (\<lambda>member. member_user_id member = user_id u) members = Some m \<and>
             member_id m \<noteq> [] \<and>
             trace p1 = tr @ ev3 \<and>
             writes ev3 =
               [prepare a (PUT (url_time_entry (entry_organization_id entry) (entry_id entry))
                  (stop_payloadToSend (member_id m) (moment_format now @ ''Z'') entry))] \<and>
             map_of (stop_payloadToSend (member_id m) (moment_format now @ ''Z'') entry) ''member_id'' =
               Some (JString (member_id m)))))) \<and>
   (\<forall>p2. updateActiveTimerDetails srv updates p = Some p2 \<longrightarrow>
      (\<exists>ev. trace p2 = trace p @ ev \<and>
         (writes ev = [] \<or>
          (\<exists>a u q entry members tr m rest ev3.
             api p = Some a \<and> updateActiveTimerDetails_user srv a p = (Inr u, q) \<and>
             activeTimeEntry q = Some entry \<and>
             getMembers a (requestUrl_members srv) (entry_organization_id entry) (trace q) =
               Some (members, tr) \<and>
             sent tr =
               sent (trace q) @
                 prepare a (GET (url_members (entry_organization_id entry))) # rest \<and>
             writes tr = writes (trace p) \<and>
             find (\<lambda>member. member_user_id member = user_id u) members = Some m \<and>
             member_id m \<noteq> [] \<and>
             trace p2 = tr @ ev3 \<and>
             writes ev3 =
               [prepare a (PUT (url_time_entry (entry_organization_id entry) (entry_id entry))
                  (update_payloadToSend (member_id m) updates entry))] \<and>
             map_of (update_payloadToSend (member_id m) updates entry) ''member_id'' =
               Some (JString (member_id m)))))) \<and>
   (\<forall>a u q entry members tr.
      api p = Some a \<and> activeTimeEntry q = Some entry \<and>
      entry_organization_id entry \<noteq> [] \<and> entry_start entry \<noteq> [] \<and>
      getMembers a (requestUrl_members srv) (entry_organization_id entry) (trace q) =
        Some (members, tr) \<and>
      find (\<lambda>member. member_user_id member = user_id u) members = None \<longrightarrow>
        (stopCurrentTimer_user srv a p = (Inr u, q) \<longrightarrow>
           stopCurrentTimer srv now p =
             Some (q\<lparr>trace := tr @
               [ConsoleError,
                Notice (''Error: Your user was not found in the timer'' @ [CHR 0x27] @
                        ''s organization ('' @ entry_organization_id entry @
                        ''). Cannot stop timer.''),
                Notice ''Error: Could not determine correct Member ID. Cannot stop timer.'']\<rparr>) \<and>
           writes tr = writes (trace p)) \<and>
        (updateActiveTimerDetails_user srv a p = (Inr u, q) \<longrightarrow>
           updateActiveTimerDetails srv updates p =
             Some (q\<lparr>trace := tr @
               [Notice (''Error: User not found in org '' @ entry_organization_id entry @
                        ''.'')]\<rparr>) \<and>
           writes tr = writes (trace p)))"
proof (intro conjI impI allI)
  assume none: "selectedMemberId (settings p) = []"
  obtain ok p0 where c: "checkSettingsAndApi True p = (ok, p0)"
    by (cases "checkSettingsAndApi True p")
  from startTimer_refused(1) [OF c, of srv now options] none
  show "\<exists>ev. trace (startTimer srv now options p) = trace p @ ev \<and> sent ev = []"
    by simp
next
  fix p0
  assume "selectedMemberId (settings p) = []" "checkSettingsAndApi True p = (True, p0)"
  then show "startTimer srv now options p =
      notice ''Error: Member ID missing. Please re-select organization in settings.'' p0"
    by (simp add: startTimer_no_member)
next
  fix p1
  assume run: "stopCurrentTimer srv now p = Some p1"
  from stopCurrentTimer_writes [OF run] obtain ev where
    t: "trace p1 = trace p @ ev" and
    w: "writes ev = [] \<or>
      (\<exists>a u q entry members tr m.
         api p = Some a \<and> stopCurrentTimer_user srv a p = (Inr u, q) \<and>
         activeTimeEntry q = Some entry \<and>
         getMembers a (requestUrl_members srv) (entry_organization_id entry) (trace q) =
           Some (members, tr) \<and>
         find (\<lambda>member. member_user_id member = user_id u) members = Some m \<and>
         member_id m \<noteq> [] \<and>
         writes ev =
         [prepare a (PUT (url_time_entry (entry_organization_id entry) (entry_id entry))
            (stop_payloadToSend (member_id m) (moment_format now @ ''Z'') entry))])"
    by blast
  from w show "(\<exists>ev. trace p1 = trace p @ ev \<and>
         (writes ev = [] \<or>
          (\<exists>a u q entry members tr m rest ev3.
             api p = Some a \<and> stopCurrentTimer_user srv a p = (Inr u, q) \<and>
             activeTimeEntry q = Some entry \<and>
             getMembers a (requestUrl_members srv) (entry_organization_id entry) (trace q) =
               Some (members, tr) \<and>
             sent tr =
               sent (trace q) @
                 prepare a (GET (url_members (entry_organization_id entry))) # rest \<and>
             writes tr = writes (trace p) \<and>
             find (\<lambda>member. member_user_id member = user_id u) members = Some m \<and>
             member_id m \<noteq> [] \<and>
             trace p1 = tr @ ev3 \<and>
             writes ev3 =
               [prepare a (PUT (url_time_entry (entry_organization_id entry) (entry_id entry))
                  (stop_payloadToSend (member_id m) (moment_format now @ ''Z'') entry))] \<and>
             map_of (stop_payloadToSend (member_id m) (moment_format now @ ''Z'') entry) ''member_id'' =
               Some (JString (member_id m)))))"
  proof
    assume "writes ev = []"
    with t show ?thesis by blast
  next
    assume "\<exists>a u q entry members tr m.
         api p = Some a \<and> stopCurrentTimer_user srv a p = (Inr u, q) \<and>
         activeTimeEntry q = Some entry \<and>
         getMembers a (requestUrl_members srv) (entry_organization_id entry) (trace q) =
           Some (members, tr) \<and>
         find (\<lambda>member. member_user_id member = user_id u) members = Some m \<and>
         member_id m \<noteq> [] \<and>
         writes ev =
         [prepare a (PUT (url_time_entry (entry_organization_id entry) (entry_id entry))
            (stop_payloadToSend (member_id m) (moment_format now @ ''Z'') entry))]"
    then obtain a u q entry members tr m where
      a: "api p = Some a" and us: "stopCurrentTimer_user srv a p = (Inr u, q)" and
      act: "activeTimeEntry q = Some entry" and
      gm: "getMembers a (requestUrl_members srv) (entry_organization_id entry) (trace q) =
           Some (members, tr)" and
      found: "find (\<lambda>member. member_user_id member = user_id u) members = Some m" and
      mid: "member_id m \<noteq> []" and
      put: "writes ev =
         [prepare a (PUT (url_time_entry (entry_organization_id entry) (entry_id entry))
            (stop_payloadToSend (member_id m) (moment_format now @ ''Z'') entry))]"
      by blast
    from put have ne: "writes ev \<noteq> []" by simp
    note o = stopCurrentTimer_put_order [OF run a us act gm found mid t ne]
    from o(1) put obtain ev3 where ev3: "trace p1 = tr @ ev3"
      "writes ev3 =
         [prepare a (PUT (url_time_entry (entry_organization_id entry) (entry_id entry))
            (stop_payloadToSend (member_id m) (moment_format now @ ''Z'') entry))]"
      by auto
    from o(3) obtain rest where rest: "sent tr =
        sent (trace q) @ prepare a (GET (url_members (entry_organization_id entry))) # rest"
      by blast
    have pk: "map_of (stop_payloadToSend (member_id m) (moment_format now @ ''Z'') entry) ''member_id'' =
        Some (JString (member_id m))"
      by (simp add: payload_keys)
    from a us act gm rest o(2) found mid ev3 pk
    have "\<exists>a u q entry members tr m rest ev3.
             api p = Some a \<and> stopCurrentTimer_user srv a p = (Inr u, q) \<and>
             activeTimeEntry q = Some entry \<and>
             getMembers a (requestUrl_members srv) (entry_organization_id entry) (trace q) =
               Some (members, tr) \<and>
             sent tr =
               sent (trace q) @
                 prepare a (GET (url_members (entry_organization_id entry))) # rest \<and>
             writes tr = writes (trace p) \<and>
             find (\<lambda>member. member_user_id member = user_id u) members = Some m \<and>
             member_id m \<noteq> [] \<and>
             trace p1 = tr @ ev3 \<and>
             writes ev3 =
               [prepare a (PUT (url_time_entry (entry_organization_id entry) (entry_id entry))
                  (stop_payloadToSend (member_id m) (moment_format now @ ''Z'') entry))] \<and>
             map_of (stop_payloadToSend (member_id m) (moment_format now @ ''Z'') entry) ''member_id'' =
               Some (JString (member_id m))"
      by blast
    with t show ?thesis by blast
  qed
next
  fix p2
  assume run: "updateActiveTimerDetails srv updates p = Some p2"
  from updateActiveTimerDetails_writes [OF run] obtain ev where
    t: "trace p2 = trace p @ ev" and
    w: "writes ev = [] \<or>
      (\<exists>a u q entry members tr m.
         api p = Some a \<and> updateActiveTimerDetails_user srv a p = (Inr u, q) \<and>
         activeTimeEntry q = Some entry \<and>
         getMembers a (requestUrl_members srv) (entry_organization_id entry) (trace q) =
           Some (members, tr) \<and>
         find (\<lambda>member. member_user_id member = user_id u) members = Some m \<and>
         member_id m \<noteq> [] \<and>
         writes ev =
         [prepare a (PUT (url_time_entry (entry_organization_id entry) (entry_id entry))
            (update_payloadToSend (member_id m) updates entry))])"
    by blast
  from w show "(\<exists>ev. trace p2 = trace p @ ev \<and>
         (writes ev = [] \<or>
          (\<exists>a u q entry members tr m rest ev3.
             api p = Some a \<and> updateActiveTimerDetails_user srv a p = (Inr u, q) \<and>
             activeTimeEntry q = Some entry \<and>
             getMembers a (requestUrl_members srv) (entry_organization_id entry) (trace q) =
               Some (members, tr) \<and>
             sent tr =
               sent (trace q) @
                 prepare a (GET (url_members (entry_organization_id entry))) # rest \<and>
             writes tr = writes (trace p) \<and>
             find (\<lambda>member. member_user_id member = user_id u) members = Some m \<and>
             member_id m \<noteq> [] \<and>
             trace p2 = tr @ ev3 \<and>
             writes ev3 =
               [prepare a (PUT (url_time_entry (entry_organization_id entry) (entry_id entry))
                  (update_payloadToSend (member_id m) updates entry))] \<and>
             map_of (update_payloadToSend (member_id m) updates entry) ''member_id'' =
               Some (JString (member_id m)))))"
  proof
    assume "writes ev = []"
    with t show ?thesis by blast
  next
    assume "\<exists>a u q entry members tr m.
         api p = Some a \<and> updateActiveTimerDetails_user srv a p = (Inr u, q) \<and>
         activeTimeEntry q = Some entry \<and>
         getMembers a (requestUrl_members srv) (entry_organization_id entry) (trace q) =
           Some (members, tr) \<and>
         find (\<lambda>member. member_user_id member = user_id u) members = Some m \<and>
         member_id m \<noteq> [] \<and>
         writes ev =
         [prepare a (PUT (url_time_entry (entry_organization_id entry) (entry_id entry))
            (update_payloadToSend (member_id m) updates entry))]"
    then obtain a u q entry members tr m where
      a: "api p = Some a" and us: "updateActiveTimerDetails_user srv a p = (Inr u, q)" and
      act: "activeTimeEntry q = Some entry" and
      gm: "getMembers a (requestUrl_members srv) (entry_organization_id entry) (trace q) =
           Some (members, tr)" and
      found: "find (\<lambda>member. member_user_id member = user_id u) members = Some m" and
      mid: "member_id m \<noteq> []" and
      put: "writes ev =
         [prepare a (PUT (url_time_entry (entry_organization_id entry) (entry_id entry))
            (update_payloadToSend (member_id m) updates entry))]"
      by blast
    from put have ne: "writes ev \<noteq> []" by simp
    note o = updateActiveTimerDetails_put_order [OF run a us act gm found mid t ne]
    from o(1) put obtain ev3 where ev3: "trace p2 = tr @ ev3"
      "writes ev3 =
         [prepare a (PUT (url_time_entry (entry_organization_id entry) (entry_id entry))
            (update_payloadToSend (member_id m) updates entry))]"
      by auto
    from o(3) obtain rest where rest: "sent tr =
        sent (trace q) @ prepare a (GET (url_members (entry_organization_id entry))) # rest"
      by blast
    have pk: "map_of (update_payloadToSend (member_id m) updates entry) ''member_id'' =
        Some (JString (member_id m))"
      by (simp add: payload_keys)
    from a us act gm rest o(2) found mid ev3 pk
    have "\<exists>a u q entry members tr m rest ev3.
             api p = Some a \<and> updateActiveTimerDetails_user srv a p = (Inr u, q) \<and>
             activeTimeEntry q = Some entry \<and>
             getMembers a (requestUrl_members srv) (entry_organization_id entry) (trace q) =
               Some (members, tr) \<and>
             sent tr =
               sent (trace q) @
                 prepare a (GET (url_members (entry_organization_id entry))) # rest \<and>
             writes tr = writes (trace p) \<and>
             find (\<lambda>member. member_user_id member = user_id u) members = Some m \<and>
             member_id m \<noteq> [] \<and>
             trace p2 = tr @ ev3 \<and>
             writes ev3 =
               [prepare a (PUT (url_time_entry (entry_organization_id entry) (entry_id entry))
                  (update_payloadToSend (member_id m) updates entry))] \<and>
             map_of (update_payloadToSend (member_id m) updates entry) ''member_id'' =
               Some (JString (member_id m))"
      by blast
    with t show ?thesis by blast
  qed
next
  fix a and u :: UserResource and q :: SolidTimePlugin and entry members tr
  assume h: "api p = Some a \<and> activeTimeEntry q = Some entry \<and>
      entry_organization_id entry \<noteq> [] \<and> entry_start entry \<noteq> [] \<and>
      getMembers a (requestUrl_members srv) (entry_organization_id entry) (trace q) =
        Some (members, tr) \<and>
      find (\<lambda>member. member_user_id member = user_id u) members = None"
  { assume us: "stopCurrentTimer_user srv a p = (Inr u, q)"
    from h us show "stopCurrentTimer srv now p =
             Some (q\<lparr>trace := tr @
               [ConsoleError,
                Notice (''Error: Your user was not found in the timer'' @ [CHR 0x27] @
                        ''s organization ('' @ entry_organization_id entry @
                        ''). Cannot stop timer.''),
                Notice ''Error: Could not determine correct Member ID. Cannot stop timer.'']\<rparr>)"
      by (intro stopCurrentTimer_no_match(1) [where a = a and u = u and members = members]) simp_all
    from h us show "writes tr = writes (trace p)"
      by (intro stopCurrentTimer_no_match(2) [where a = a and u = u and members = members
            and srv = srv and q = q and entry = entry]) simp_all }
  { assume us: "updateActiveTimerDetails_user srv a p = (Inr u, q)"
    from h us show "updateActiveTimerDetails srv updates p =
             Some (q\<lparr>trace := tr @
               [Notice (''Error: User not found in org '' @ entry_organization_id entry @
                        ''.'')]\<rparr>)"
      by (intro updateActiveTimerDetails_no_match(1) [where a = a and u = u and members = members])
         simp_all
    from h us show "writes tr = writes (trace p)"
      by (intro updateActiveTimerDetails_no_match(2) [where a = a and u = u and members = members
            and srv = srv and q = q and entry = entry]) simp_all }
qed


theorem member_resolution_witness:
  "startTimer demo_service demo_now demo_options no_member_plugin =
     notice ''Error: Member ID missing. Please re-select organization in settings.''
       no_member_plugin \<and>
   sent (trace (startTimer demo_service demo_now demo_options no_member_plugin)) = [] \<and>
   selectedMemberId (settings running_plugin) = ''m1'' \<and>
   (\<exists>p1 ev3. stopCurrentTimer moved_service demo_now running_plugin = Some p1 \<and>
      trace p1 = [Request (prepare demo_api (GET (url_members ''org1'')))] @ ev3 \<and>
      writes ev3 =
        [prepare demo_api (PUT (url_time_entry ''org1'' ''e1'')
           (stop_payloadToSend ''m9'' ''2024-01-01T12:00:00Z'' demo_entry))]) \<and>
   map_of (stop_payloadToSend ''m9'' ''2024-01-01T12:00:00Z'' demo_entry) ''member_id'' =
     Some (JString ''m9'') \<and>
   stopCurrentTimer stranger_service demo_now running_plugin =
     Some (running_plugin\<lparr>trace :=
       [Request (prepare demo_api (GET (url_members ''org1''))),
        ConsoleError,
        Notice (''Error: Your user was not found in the timer'' @ [CHR 0x27] @
                ''s organization (org1). Cannot stop timer.''),
        Notice ''Error: Could not determine correct Member ID. Cannot stop timer.'']\<rparr>) \<and>
   updateActiveTimerDetails stranger_service demo_updates running_plugin =
     Some (running_plugin\<lparr>trace :=
       [Request (prepare demo_api (GET (url_members ''org1''))),
        Notice ''Error: User not found in org org1.'']\<rparr>) \<and>
   writes [Request (prepare demo_api (GET (url_members ''org1'')))] = []"
proof -
  note main = member_resolution
  have nm: "selectedMemberId (settings no_member_plugin) = []" "trace no_member_plugin = []"
    by (simp_all add: no_member_plugin_def idle_plugin_def)
  from main [of no_member_plugin demo_service demo_now demo_options] nm(1) demo_check_no_member
  have one: "startTimer demo_service demo_now demo_options no_member_plugin =
     notice ''Error: Member ID missing. Please re-select organization in settings.''
       no_member_plugin"
    by blast
  from main [of no_member_plugin demo_service demo_now demo_options] nm
  have two: "sent (trace (startTimer demo_service demo_now demo_options no_member_plugin)) = []"
    by auto
  have cached: "selectedMemberId (settings running_plugin) = ''m1''"
    by (simp add: running_plugin_def idle_plugin_def demo_settings_def)
  from moved_stop_writes obtain p1 where
    s: "stopCurrentTimer moved_service demo_now running_plugin = Some p1" and
    ws: "writes (trace p1) =
       [prepare demo_api (PUT (url_time_entry ''org1'' ''e1'')
          (stop_payloadToSend ''m9'' ''2024-01-01T12:00:00Z'' demo_entry))]"
    by blast
  have ms: "requestUrl_members moved_service =
      (\<lambda>hist r. Inr (respond 200 (Some (PaginatedResponse (Some [moved_member]) None))))"
    by (simp add: moved_service_def demo_service_def)
  have gm9: "getMembers demo_api (requestUrl_members moved_service) ''org1'' [] =
      Some ([moved_member], [Request (prepare demo_api (GET (url_members ''org1'')))])"
    using demo_members [OF ms, of "[]"] by simp
  note stop_part = main [of running_plugin moved_service demo_now demo_options demo_updates,
      THEN conjunct2, THEN conjunct1, rule_format, OF s]
  then obtain ev where t: "trace p1 = trace running_plugin @ ev" and
    d: "writes ev = [] \<or>
          (\<exists>a u q entry members tr m rest ev3.
             api running_plugin = Some a \<and>
             stopCurrentTimer_user moved_service a running_plugin = (Inr u, q) \<and>
             activeTimeEntry q = Some entry \<and>
             getMembers a (requestUrl_members moved_service) (entry_organization_id entry)
               (trace q) = Some (members, tr) \<and>
             sent tr =
               sent (trace q) @
                 prepare a (GET (url_members (entry_organization_id entry))) # rest \<and>
             writes tr = writes (trace running_plugin) \<and>
             find (\<lambda>member. member_user_id member = user_id u) members = Some m \<and>
             member_id m \<noteq> [] \<and>
             trace p1 = tr @ ev3 \<and>
             writes ev3 =
               [prepare a (PUT (url_time_entry (entry_organization_id entry) (entry_id entry))
                  (stop_payloadToSend (member_id m) (moment_format demo_now @ ''Z'') entry))] \<and>
             map_of (stop_payloadToSend (member_id m) (moment_format demo_now @ ''Z'') entry)
               ''member_id'' = Some (JString (member_id m)))"
    by blast
  from t ws have "writes ev \<noteq> []" by (simp add: running_fields)
  with d obtain a u q entry members tr m ev3 where
    a: "api running_plugin = Some a" and
    us: "stopCurrentTimer_user moved_service a running_plugin = (Inr u, q)" and
    act: "activeTimeEntry q = Some entry" and
    gm: "getMembers a (requestUrl_members moved_service) (entry_organization_id entry)
               (trace q) = Some (members, tr)" and
    found: "find (\<lambda>member. member_user_id member = user_id u) members = Some m" and
    tr: "trace p1 = tr @ ev3" and
    put: "writes ev3 =
               [prepare a (PUT (url_time_entry (entry_organization_id entry) (entry_id entry))
                  (stop_payloadToSend (member_id m) (moment_format demo_now @ ''Z'') entry))]" and
    pk: "map_of (stop_payloadToSend (member_id m) (moment_format demo_now @ ''Z'') entry)
               ''member_id'' = Some (JString (member_id m))"
    by blast
  from a have a': "a = demo_api" by (simp add: running_fields)
  from us a' have q: "q = running_plugin" and u: "u = demo_user"
    by (simp_all add: demo_user_block)
  from act q have e: "entry = demo_entry" by (simp add: running_fields)
  from gm a' q e gm9 have mt: "members = [moved_member]"
    "tr = [Request (prepare demo_api (GET (url_members ''org1'')))]"
    by (simp_all add: running_fields)
  from found mt u have m: "m = moved_member"
    by (simp add: moved_member_def demo_member_def demo_user_def split: if_splits)
  have m9: "member_id moved_member = ''m9''" by (simp add: moved_member_def)
  from tr put pk a' e mt m m9
  have three: "trace p1 = [Request (prepare demo_api (GET (url_members ''org1'')))] @ ev3"
    "writes ev3 =
        [prepare demo_api (PUT (url_time_entry ''org1'' ''e1'')
           (stop_payloadToSend ''m9'' ''2024-01-01T12:00:00Z'' demo_entry))]"
    "map_of (stop_payloadToSend ''m9'' ''2024-01-01T12:00:00Z'' demo_entry) ''member_id'' =
     Some (JString ''m9'')"
    by (simp_all add: demo_now_format running_fields)
  have gms: "getMembers demo_api (requestUrl_members stranger_service)
      (entry_organization_id demo_entry) (trace running_plugin) =
      Some ([other_member], [Request (prepare demo_api (GET (url_members ''org1'')))])"
    using demo_members [OF demo_services(3), of "[]"] by (simp add: running_fields)
  have nomatch: "api running_plugin = Some demo_api \<and>
      activeTimeEntry running_plugin = Some demo_entry \<and>
      entry_organization_id demo_entry \<noteq> [] \<and> entry_start demo_entry \<noteq> [] \<and>
      getMembers demo_api (requestUrl_members stranger_service)
        (entry_organization_id demo_entry) (trace running_plugin) =
        Some ([other_member], [Request (prepare demo_api (GET (url_members ''org1'')))]) \<and>
      find (\<lambda>member. member_user_id member = user_id demo_user) [other_member] = None"
    using gms by (simp add: running_fields other_member_def)
  note d = main [of running_plugin stranger_service demo_now demo_options demo_updates,
      THEN conjunct2, THEN conjunct2, THEN conjunct2, rule_format, OF nomatch]
  from d demo_user_block [of stranger_service]
  have four: "stopCurrentTimer stranger_service demo_now running_plugin =
     Some (running_plugin\<lparr>trace :=
       [Request (prepare demo_api (GET (url_members ''org1''))),
        ConsoleError,
        Notice (''Error: Your user was not found in the timer'' @ [CHR 0x27] @
                ''s organization (org1). Cannot stop timer.''),
        Notice ''Error: Could not determine correct Member ID. Cannot stop timer.'']\<rparr>)"
    and five: "updateActiveTimerDetails stranger_service demo_updates running_plugin =
     Some (running_plugin\<lparr>trace :=
       [Request (prepare demo_api (GET (url_members ''org1''))),
        Notice ''Error: User not found in org org1.'']\<rparr>)"
    and six: "writes [Request (prepare demo_api (GET (url_members ''org1'')))] = []"
    by (simp_all add: running_fields)
  from s three(1,2) have "\<exists>p1 ev3. stopCurrentTimer moved_service demo_now running_plugin = Some p1 \<and>
      trace p1 = [Request (prepare demo_api (GET (url_members ''org1'')))] @ ev3 \<and>
      writes ev3 =
        [prepare demo_api (PUT (url_time_entry ''org1'' ''e1'')
           (stop_payloadToSend ''m9'' ''2024-01-01T12:00:00Z'' demo_entry))]"
    by blast
  with one two cached three(3) four five six show ?thesis
    by (intro conjI) 
qed

text \<open>
  Claim C2, as it is stated, fails for a start: with no member id in the settings
  startTimer shows a notice and returns. It sends no request at all, so the
  members are not fetched, although the service lists a member for the current user.
\<close>

theorem startTimer_does_not_fetch_members:
  "selectedMemberId (settings no_member_plugin) = [] \<and>
   currentUser no_member_plugin = Some demo_user \<and>
   getMembers demo_api (requestUrl_members demo_service) ''org1'' [] =
     Some ([demo_member], [Request (prepare demo_api (GET (url_members ''org1'')))]) \<and>
   member_user_id demo_member = user_id demo_user \<and>
   trace (startTimer demo_service demo_now demo_options no_member_plugin) =
     [Notice ''Error: Member ID missing. Please re-select organization in settings.''] \<and>
   sent (trace (startTimer demo_service demo_now demo_options no_member_plugin)) = []"
proof -
  have "startTimer demo_service demo_now demo_options no_member_plugin =
      notice ''Error: Member ID missing. Please re-select organization in settings.''
        no_member_plugin"
    by (rule startTimer_no_member [OF demo_check_no_member])
       (simp add: no_member_plugin_def)
  then show ?thesis
    using demo_members [OF demo_services(1), of "[]"]
    by (simp add: no_member_plugin_def idle_plugin_def demo_member_def demo_user_def)
qed

section \<open>Stopping clears the state first\<close>



section \<open>Refreshing the caches\<close>

lemma fetch_single_page:
  assumes "api_apiKey a \<noteq> []" "api_baseUrl a \<noteq> []" "u \<noteq> []"
    and "req (sent tr) (prepare a (GET u)) = Inr response"
    and "200 \<le> status response" "status response < 300" "status response \<noteq> 204"
      "bodyPresent response" "json response = Inr (Some (PaginatedResponse (Some ms) None))"
      "length ms \<le> 10000"
  shows "fetchAllPaginated a req u tr = Some (Inr ms, tr @ [Request (prepare a (GET u))])"
proof -
  have "request a req (GET u) [] tr =
      (Inr (Some (PaginatedResponse (Some ms) None)), tr @ [Request (prepare a (GET u))])"
    using assms(5-)
    by (simp add: request_sent [where requestUrl = req and allowed = "[]", OF assms(1,2,4)])
  then show ?thesis
    using assms(3,10) by (simp add: fetchAllPaginated_def loop_step page_step_def loop_None)
qed

lemma request_rejected:
  assumes "api_apiKey a \<noteq> []" "api_baseUrl a \<noteq> []"
    and "req (sent tr) (prepare a opts) = Inr response"
    and "\<not> (200 \<le> status response \<and> status response < 300)"
  shows "\<exists>e tr1. request a req opts [] tr = (Inl e, tr1)"
  using assms(4)
  by (auto simp: request_sent [where requestUrl = req and allowed = "[]", OF assms(1-3)]
      request_catch_def split: prod.splits)

lemma fetch_rejected:
  assumes "api_apiKey a \<noteq> []" "api_baseUrl a \<noteq> []" "u \<noteq> []"
    and "req (sent tr) (prepare a (GET u)) = Inr response"
    and "\<not> (200 \<le> status response \<and> status response < 300)"
  shows "\<exists>e tr1. fetchAllPaginated a req u tr = Some (Inl e, tr1)"
proof -
  from request_rejected [where req = req and opts = "GET u", OF assms(1,2,4,5)] obtain e tr1 where
    "request a req (GET u) [] tr = (Inl e, tr1)" by blast
  with assms(3) show ?thesis by (simp add: fetchAllPaginated_def loop_step)
qed

lemma getTags_rejected:
  assumes "org \<noteq> []" "request a req (GET (url_tags org)) [] tr = (Inl e, tr1)"
  shows "getTags a req org tr = ([], tr1 @ [ConsoleError])"
  using assms by (simp add: getTags_def)

lemma getTags_data:
  assumes "api_apiKey a \<noteq> []" "api_baseUrl a \<noteq> []" "org \<noteq> []"
    and "req (sent tr) (prepare a (GET (url_tags org))) = Inr response"
    and "200 \<le> status response" "status response < 300" "status response \<noteq> 204"
      "bodyPresent response" "json response = Inr (Some (Envelope (Some ts)))"
  shows "getTags a req org tr = (ts, tr @ [Request (prepare a (GET (url_tags org)))])"
  using assms(3,5-)
  by (simp add: getTags_def
      request_sent [where requestUrl = req and allowed = "[]", OF assms(1,2,4)])

lemma clear_caches_fields [simp]:
  "projects (clear_caches p) = []" "tasks (clear_caches p) = []" "tags (clear_caches p) = []"
  by (simp_all add: clear_caches_def)

lemma loadSolidTimeData_unconfigured:
  assumes "api p = None \<or> selectedOrganizationId (settings p) = []"
  shows "loadSolidTimeData srv p = Some (clear_caches p)"
  using assms by (auto simp: loadSolidTimeData_def split: option.splits)

lemma loadSolidTimeData_fulfilled:
  assumes "api p = Some a" "selectedOrganizationId (settings p) \<noteq> []"
    and "getProjects a (requestUrl_projects srv) (selectedOrganizationId (settings p)) (trace p) =
       Some (Inr ps, tr1)"
    and "getTasks a (requestUrl_tasks srv) (selectedOrganizationId (settings p)) None (trace p) =
       Some (Inr ts, tr2)"
  shows "\<exists>p'. loadSolidTimeData srv p = Some p' \<and> projects p' = ps \<and> tasks p' = ts \<and>
     tags p' =
       fst (getTags a (requestUrl_tags srv) (selectedOrganizationId (settings p)) (trace p))"
  using assms by (simp add: loadSolidTimeData_def Let_def Promise_all_def settle_def)

lemma loadSolidTimeData_rejected:
  assumes "api p = Some a" "selectedOrganizationId (settings p) \<noteq> []"
    and "(\<exists>e tr1. getProjects a (requestUrl_projects srv) (selectedOrganizationId (settings p))
            (trace p) = Some (Inl e, tr1)) \<or>
         (\<exists>e tr2. getTasks a (requestUrl_tasks srv) (selectedOrganizationId (settings p)) None
            (trace p) = Some (Inl e, tr2))"
  shows "\<exists>p'. loadSolidTimeData srv p = Some p' \<and> projects p' = [] \<and> tasks p' = [] \<and>
     tags p' = []"
proof -
  let ?rp = "getProjects a (requestUrl_projects srv) (selectedOrganizationId (settings p)) (trace p)"
  let ?rt = "getTasks a (requestUrl_tasks srv) (selectedOrganizationId (settings p)) None (trace p)"
  from assms(3) have "\<exists>e. Promise_all (settle ?rp) (settle ?rt)
      (Fulfilled (fst (getTags a (requestUrl_tags srv) (selectedOrganizationId (settings p))
         (trace p)))) = Rejected e"
    by (cases "settle ?rp"; cases "settle ?rt")
       (auto simp: Promise_all_def settle_def)
  then obtain e where "Promise_all (settle ?rp) (settle ?rt)
      (Fulfilled (fst (getTags a (requestUrl_tags srv) (selectedOrganizationId (settings p))
         (trace p)))) = Rejected e"
    by blast
  with assms(1,2) show ?thesis by (simp add: loadSolidTimeData_def Let_def)
qed

lemma loadSolidTimeData_pending:
  assumes "api p = Some a" "selectedOrganizationId (settings p) \<noteq> []"
    and "getProjects a (requestUrl_projects srv) (selectedOrganizationId (settings p)) (trace p) =
           None \<or>
         getTasks a (requestUrl_tasks srv) (selectedOrganizationId (settings p)) None (trace p) =
           None"
    and "\<forall>e tr1. getProjects a (requestUrl_projects srv) (selectedOrganizationId (settings p))
            (trace p) \<noteq> Some (Inl e, tr1)"
    and "\<forall>e tr2. getTasks a (requestUrl_tasks srv) (selectedOrganizationId (settings p)) None
            (trace p) \<noteq> Some (Inl e, tr2)"
  shows "loadSolidTimeData srv p = None"
proof -
  let ?rp = "getProjects a (requestUrl_projects srv) (selectedOrganizationId (settings p)) (trace p)"
  let ?rt = "getTasks a (requestUrl_tasks srv) (selectedOrganizationId (settings p)) None (trace p)"
  from assms(4) have np: "\<forall>e. settle ?rp \<noteq> Rejected e"
    by (auto simp: settle_def split: option.splits sum.splits)
  from assms(5) have nt: "\<forall>e. settle ?rt \<noteq> Rejected e"
    by (auto simp: settle_def split: option.splits sum.splits)
  from assms(3) have "settle ?rp = Pending \<or> settle ?rt = Pending"
    by (auto simp: settle_def)
  with np nt have "Promise_all (settle ?rp) (settle ?rt)
      (Fulfilled (fst (getTags a (requestUrl_tags srv) (selectedOrganizationId (settings p))
         (trace p)))) = Pending"
    by (cases "settle ?rp"; cases "settle ?rt") (auto simp: Promise_all_def)
  with assms(1,2) show ?thesis by (simp add: loadSolidTimeData_def Let_def)
qed

text \<open>The paginated fetches return on a service whose linked pages are never empty.\<close>

lemma getProjects_returns:
  assumes "\<And>hist r response d u. req hist r = Inr response \<Longrightarrow>
      json response = Inr (Some (PaginatedResponse (Some d) (Some u))) \<Longrightarrow> u \<noteq> [] \<Longrightarrow> d \<noteq> []"
  shows "\<exists>res. getProjects a req org tr = Some res"
  using loop_terminates [of req a "[]" "Some (url_projects org)" tr, OF assms]
  by (simp add: getProjects_def fetchAllPaginated_def)

lemma getTasks_returns:
  assumes "\<And>hist r response d u. req hist r = Inr response \<Longrightarrow>
      json response = Inr (Some (PaginatedResponse (Some d) (Some u))) \<Longrightarrow> u \<noteq> [] \<Longrightarrow> d \<noteq> []"
  shows "\<exists>res. getTasks a req org projectId tr = Some res"
  using loop_terminates [of req a "[]" "Some (url_tasks org projectId)" tr, OF assms]
  by (simp add: getTasks_def fetchAllPaginated_def)

lemma loadSolidTimeData_returns:
  assumes "\<And>hist r response d u. requestUrl_projects srv hist r = Inr response \<Longrightarrow>
      json response = Inr (Some (PaginatedResponse (Some d) (Some u))) \<Longrightarrow> u \<noteq> [] \<Longrightarrow> d \<noteq> []"
    and "\<And>hist r response d u. requestUrl_tasks srv hist r = Inr response \<Longrightarrow>
      json response = Inr (Some (PaginatedResponse (Some d) (Some u))) \<Longrightarrow> u \<noteq> [] \<Longrightarrow> d \<noteq> []"
  shows "\<exists>p'. loadSolidTimeData srv p = Some p'"
proof (cases "api p = None \<or> selectedOrganizationId (settings p) = []")
  case True
  then show ?thesis by (simp add: loadSolidTimeData_unconfigured)
next
  case False
  then obtain a where a: "api p = Some a" and o: "selectedOrganizationId (settings p) \<noteq> []"
    by auto
  have "\<exists>res. getProjects a (requestUrl_projects srv)
      (selectedOrganizationId (settings p)) (trace p) = Some res"
    by (rule getProjects_returns [where req = "requestUrl_projects srv", OF assms(1)])
  then obtain rp tr1 where gp: "getProjects a (requestUrl_projects srv)
      (selectedOrganizationId (settings p)) (trace p) = Some (rp, tr1)"
    by auto
  have "\<exists>res. getTasks a (requestUrl_tasks srv)
      (selectedOrganizationId (settings p)) None (trace p) = Some res"
    by (rule getTasks_returns [where req = "requestUrl_tasks srv", OF assms(2)])
  then obtain rt tr2 where gt: "getTasks a (requestUrl_tasks srv)
      (selectedOrganizationId (settings p)) None (trace p) = Some (rt, tr2)"
    by auto
  show ?thesis
  proof (cases "(\<exists>e. rp = Inl e) \<or> (\<exists>e. rt = Inl e)")
    case True
    with gp gt loadSolidTimeData_rejected [OF a o, of srv] show ?thesis by blast
  next
    case False
    then obtain ps ts where "rp = Inr ps" "rt = Inr ts"
      by (cases rp; cases rt) auto
    with gp gt loadSolidTimeData_fulfilled [OF a o, of srv ps tr1 ts tr2] show ?thesis by blast
  qed
qed

lemma cached_fields:
  "api cached_plugin = Some demo_api" "selectedOrganizationId (settings cached_plugin) = ''org1''"
  "trace cached_plugin = []" "projects cached_plugin = [demo_project 7]"
  "tags cached_plugin = [demo_tag]"
  by (simp_all add: cached_plugin_def idle_plugin_def demo_settings_def)

lemma demo_getProjects:
  assumes "\<And>hist r. requestUrl_projects srv hist r =
      Inr (respond 200 (Some (PaginatedResponse (Some [demo_project 0]) None)))"
  shows "getProjects demo_api (requestUrl_projects srv) ''org1'' tr =
     Some (Inr [demo_project 0], tr @ [Request (prepare demo_api (GET (url_projects ''org1'')))])"
  unfolding getProjects_def
  using fetch_single_page [where a = demo_api and req = "requestUrl_projects srv"
      and u = "url_projects ''org1''" and tr = tr and ms = "[demo_project 0]"
      and response = "respond 200 (Some (PaginatedResponse (Some [demo_project 0]) None))"]
  by (simp add: demo_api_configured demo_respond url_nonempty assms)

lemma demo_getTasks:
  assumes "\<And>hist r. requestUrl_tasks srv hist r =
      Inr (respond 200 (Some (PaginatedResponse (Some []) None)))"
  shows "getTasks demo_api (requestUrl_tasks srv) ''org1'' None tr =
     Some (Inr [], tr @ [Request (prepare demo_api (GET (url_tasks ''org1'' None)))])"
  unfolding getTasks_def
  using fetch_single_page [where a = demo_api and req = "requestUrl_tasks srv"
      and u = "url_tasks ''org1'' None" and tr = tr and ms = "[]"
      and response = "respond 200 (Some (PaginatedResponse (Some []) None))"]
  by (simp add: demo_api_configured demo_respond url_nonempty assms)

lemma demo_getTags:
  "getTags demo_api (requestUrl_tags demo_service) ''org1'' tr =
     ([demo_tag], tr @ [Request (prepare demo_api (GET (url_tags ''org1'')))])"
  by (rule getTags_data [where response = "respond 200 (Some (Envelope (Some [demo_tag])))"])
     (simp_all add: demo_api_configured demo_respond demo_service_def)

lemma demo_getTags_rejected:
  "fst (getTags demo_api (requestUrl_tags tags_failing_service) ''org1'' tr) = []"
proof -
  have "\<exists>e tr1. request demo_api (requestUrl_tags tags_failing_service)
      (GET (url_tags ''org1'')) [] tr = (Inl e, tr1)"
    by (rule request_rejected [where response = "respond 500 None"])
       (simp_all add: demo_api_configured tags_failing_service_def respond_def)
  then show ?thesis by (auto simp: getTags_rejected)
qed

lemma demo_getProjects_rejected:
  "\<exists>e tr1. getProjects demo_api (requestUrl_projects projects_failing_service) ''org1'' tr =
     Some (Inl e, tr1)"
  unfolding getProjects_def
  using fetch_rejected [where a = demo_api and req = "requestUrl_projects projects_failing_service"
      and u = "url_projects ''org1''" and tr = tr and response = "respond 500 None"]
  by (simp add: demo_api_configured url_nonempty projects_failing_service_def respond_def)

lemma demo_endpoints:
  "\<And>hist r. requestUrl_projects demo_service hist r =
      Inr (respond 200 (Some (PaginatedResponse (Some [demo_project 0]) None)))"
  "\<And>hist r. requestUrl_projects tags_failing_service hist r =
      Inr (respond 200 (Some (PaginatedResponse (Some [demo_project 0]) None)))"
  "\<And>hist r. requestUrl_tasks demo_service hist r =
      Inr (respond 200 (Some (PaginatedResponse (Some []) None)))"
  "\<And>hist r. requestUrl_tasks tags_failing_service hist r =
      Inr (respond 200 (Some (PaginatedResponse (Some []) None)))"
  "\<And>hist r. requestUrl_tasks projects_failing_service hist r =
      Inr (respond 200 (Some (PaginatedResponse (Some []) None)))"
  by (simp_all add: demo_service_def tags_failing_service_def projects_failing_service_def)

lemma demo_getTasks_rejected:
  "\<exists>e tr1. getTasks demo_api (requestUrl_tasks tasks_failing_service) ''org1'' None tr =
     Some (Inl e, tr1)"
  "\<exists>e tr1. getTasks demo_api (requestUrl_tasks stuck_service) ''org1'' None tr =
     Some (Inl e, tr1)"
proof -
  show "\<exists>e tr1. getTasks demo_api (requestUrl_tasks tasks_failing_service) ''org1'' None tr =
     Some (Inl e, tr1)"
    unfolding getTasks_def
    using fetch_rejected [where a = demo_api and req = "requestUrl_tasks tasks_failing_service"
        and u = "url_tasks ''org1'' None" and tr = tr and response = "respond 500 None"]
    by (simp add: demo_api_configured url_nonempty tasks_failing_service_def respond_def)
  then show "\<exists>e tr1. getTasks demo_api (requestUrl_tasks stuck_service) ''org1'' None tr =
     Some (Inl e, tr1)"
    by (simp add: stuck_service_def)
qed

lemma stuck_projects:
  "getProjects demo_api (requestUrl_projects stuck_service) ''org1'' tr = None"
proof (cases "getProjects demo_api (requestUrl_projects stuck_service) ''org1'' tr")
  case None
  then show ?thesis .
next
  case (Some y)
  then have "fetchAllPaginated_loop demo_api (cyclic [])
      [] (Some (url_projects ''org1'')) tr = Some y"
    by (simp add: getProjects_def fetchAllPaginated_def stuck_service_def)
  from cyclic_empty_no_result [OF this] show ?thesis by (simp add: url_nonempty)
qed



text \<open>
  Claim C8, as the code has it. Without a client or an organization the three caches
  are emptied. Otherwise the three fetches are started together; getTags catches its own
  errors and gives the empty list instead, so only getProjects and getTasks can make
  the combined fetch fail. When both return their lists, the refresh returns with the
  three caches replaced together, by the projects, the tasks and the tags fetched (no
  tags when their fetch failed). When getProjects or getTasks fails, the refresh returns
  with all three caches emptied, whether or not the other fetch ever ends. The refresh
  has no result only when none of the two fails and one of them never returns; it
  returns on every service whose linked pages are never empty.
\<close>

theorem loadSolidTimeData_caches:
  "(org \<noteq> [] \<and> request a req (GET (url_tags org)) [] tr = (Inl e, tr1) \<longrightarrow>
      getTags a req org tr = ([], tr1 @ [ConsoleError])) \<and>
   (api p = None \<or> selectedOrganizationId (settings p) = [] \<longrightarrow>
      loadSolidTimeData srv p = Some (clear_caches p)) \<and>
   (\<forall>c. api p = Some c \<and> selectedOrganizationId (settings p) \<noteq> [] \<longrightarrow>
      (\<forall>ps t1 ts t2.
         getProjects c (requestUrl_projects srv) (selectedOrganizationId (settings p))
           (trace p) = Some (Inr ps, t1) \<and>
         getTasks c (requestUrl_tasks srv) (selectedOrganizationId (settings p)) None
           (trace p) = Some (Inr ts, t2) \<longrightarrow>
         (\<exists>p'. loadSolidTimeData srv p = Some p' \<and> projects p' = ps \<and> tasks p' = ts \<and>
            tags p' =
              fst (getTags c (requestUrl_tags srv) (selectedOrganizationId (settings p))
                     (trace p)))) \<and>
      ((\<exists>e t1. getProjects c (requestUrl_projects srv) (selectedOrganizationId (settings p))
                  (trace p) = Some (Inl e, t1)) \<or>
       (\<exists>e t2. getTasks c (requestUrl_tasks srv) (selectedOrganizationId (settings p)) None
                  (trace p) = Some (Inl e, t2)) \<longrightarrow>
         (\<exists>p'. loadSolidTimeData srv p = Some p' \<and>
            projects p' = [] \<and> tasks p' = [] \<and> tags p' = [])) \<and>
      ((getProjects c (requestUrl_projects srv) (selectedOrganizationId (settings p))
          (trace p) = None \<or>
        getTasks c (requestUrl_tasks srv) (selectedOrganizationId (settings p)) None
          (trace p) = None) \<and>
       (\<forall>e t1. getProjects c (requestUrl_projects srv) (selectedOrganizationId (settings p))
                  (trace p) \<noteq> Some (Inl e, t1)) \<and>
       (\<forall>e t2. getTasks c (requestUrl_tasks srv) (selectedOrganizationId (settings p)) None
                  (trace p) \<noteq> Some (Inl e, t2)) \<longrightarrow>
         loadSolidTimeData srv p = None)) \<and>
   ((\<forall>hist r response d u.
       requestUrl_projects srv hist r = Inr response \<longrightarrow>
       json response = Inr (Some (PaginatedResponse (Some d) (Some u))) \<longrightarrow> u \<noteq> [] \<longrightarrow> d \<noteq> []) \<and>
    (\<forall>hist r response d u.
       requestUrl_tasks srv hist r = Inr response \<longrightarrow>
       json response = Inr (Some (PaginatedResponse (Some d) (Some u))) \<longrightarrow> u \<noteq> [] \<longrightarrow> d \<noteq> [])
    \<longrightarrow> (\<exists>p'. loadSolidTimeData srv p = Some p'))"
proof (intro conjI impI allI)
  assume "org \<noteq> [] \<and> request a req (GET (url_tags org)) [] tr = (Inl e, tr1)"
  then show "getTags a req org tr = ([], tr1 @ [ConsoleError])"
    by (simp add: getTags_rejected)
next
  assume "api p = None \<or> selectedOrganizationId (settings p) = []"
  then show "loadSolidTimeData srv p = Some (clear_caches p)"
    by (rule loadSolidTimeData_unconfigured)
next
  fix c ps t1 ts t2
  assume h: "api p = Some c \<and> selectedOrganizationId (settings p) \<noteq> []"
    and f: "getProjects c (requestUrl_projects srv) (selectedOrganizationId (settings p))
           (trace p) = Some (Inr ps, t1) \<and>
         getTasks c (requestUrl_tasks srv) (selectedOrganizationId (settings p)) None
           (trace p) = Some (Inr ts, t2)"
  from h f show "\<exists>p'. loadSolidTimeData srv p = Some p' \<and> projects p' = ps \<and> tasks p' = ts \<and>
            tags p' =
              fst (getTags c (requestUrl_tags srv) (selectedOrganizationId (settings p))
                     (trace p))"
    by (intro loadSolidTimeData_fulfilled [where ?tr1.0 = t1 and ?tr2.0 = t2]) simp_all
next
  fix c
  assume h: "api p = Some c \<and> selectedOrganizationId (settings p) \<noteq> []"
    and r: "(\<exists>e t1. getProjects c (requestUrl_projects srv) (selectedOrganizationId (settings p))
                  (trace p) = Some (Inl e, t1)) \<or>
       (\<exists>e t2. getTasks c (requestUrl_tasks srv) (selectedOrganizationId (settings p)) None
                  (trace p) = Some (Inl e, t2))"
  from h have c: "api p = Some c" and o: "selectedOrganizationId (settings p) \<noteq> []"
    by simp_all
  from loadSolidTimeData_rejected [OF c o r]
  show "\<exists>p'. loadSolidTimeData srv p = Some p' \<and>
            projects p' = [] \<and> tasks p' = [] \<and> tags p' = []" .
next
  fix c
  assume h: "api p = Some c \<and> selectedOrganizationId (settings p) \<noteq> []"
    and n: "(getProjects c (requestUrl_projects srv) (selectedOrganizationId (settings p))
          (trace p) = None \<or>
        getTasks c (requestUrl_tasks srv) (selectedOrganizationId (settings p)) None
          (trace p) = None) \<and>
       (\<forall>e t1. getProjects c (requestUrl_projects srv) (selectedOrganizationId (settings p))
                  (trace p) \<noteq> Some (Inl e, t1)) \<and>
       (\<forall>e t2. getTasks c (requestUrl_tasks srv) (selectedOrganizationId (settings p)) None
                  (trace p) \<noteq> Some (Inl e, t2))"
  from h have c: "api p = Some c" and o: "selectedOrganizationId (settings p) \<noteq> []"
    by simp_all
  from n show "loadSolidTimeData srv p = None"
    by (intro loadSolidTimeData_pending [OF c o]) simp_all
next
  assume g: "(\<forall>hist r response d u.
       requestUrl_projects srv hist r = Inr response \<longrightarrow>
       json response = Inr (Some (PaginatedResponse (Some d) (Some u))) \<longrightarrow> u \<noteq> [] \<longrightarrow> d \<noteq> []) \<and>
    (\<forall>hist r response d u.
       requestUrl_tasks srv hist r = Inr response \<longrightarrow>
       json response = Inr (Some (PaginatedResponse (Some d) (Some u))) \<longrightarrow> u \<noteq> [] \<longrightarrow> d \<noteq> [])"
  show "\<exists>p'. loadSolidTimeData srv p = Some p'"
  proof (rule loadSolidTimeData_returns)
    fix hist r response d u
    assume "requestUrl_projects srv hist r = Inr response"
      "json response = Inr (Some (PaginatedResponse (Some d) (Some u)))" "u \<noteq> []"
    with g show "d \<noteq> []" by blast
  next
    fix hist r response d u
    assume "requestUrl_tasks srv hist r = Inr response"
      "json response = Inr (Some (PaginatedResponse (Some d) (Some u)))" "u \<noteq> []"
    with g show "d \<noteq> []" by blast
  qed
qed

theorem loadSolidTimeData_caches_witness:
  "map_option projects (loadSolidTimeData demo_service cached_plugin) = Some [demo_project 0] \<and>
   map_option tasks (loadSolidTimeData demo_service cached_plugin) = Some [] \<and>
   map_option tags (loadSolidTimeData demo_service cached_plugin) = Some [demo_tag] \<and>
   map_option projects (loadSolidTimeData tasks_failing_service cached_plugin) = Some [] \<and>
   map_option tasks (loadSolidTimeData tasks_failing_service cached_plugin) = Some [] \<and>
   map_option tags (loadSolidTimeData tasks_failing_service cached_plugin) = Some [] \<and>
   getProjects demo_api (requestUrl_projects stuck_service) ''org1'' [] = None \<and>
   map_option projects (loadSolidTimeData stuck_service cached_plugin) = Some [] \<and>
   map_option tasks (loadSolidTimeData stuck_service cached_plugin) = Some [] \<and>
   map_option tags (loadSolidTimeData stuck_service cached_plugin) = Some []"
proof -
  have h: "api cached_plugin = Some demo_api \<and>
      selectedOrganizationId (settings cached_plugin) \<noteq> []"
    by (simp add: cached_fields)
  have f: "getProjects demo_api (requestUrl_projects demo_service)
      (selectedOrganizationId (settings cached_plugin)) (trace cached_plugin) =
        Some (Inr [demo_project 0], [] @ [Request (prepare demo_api (GET (url_projects ''org1'')))]) \<and>
      getTasks demo_api (requestUrl_tasks demo_service)
        (selectedOrganizationId (settings cached_plugin)) None (trace cached_plugin) =
        Some (Inr [], [] @ [Request (prepare demo_api (GET (url_tasks ''org1'' None)))])"
    by (simp add: cached_fields demo_getProjects demo_getTasks demo_endpoints)
  note ok = loadSolidTimeData_caches [of _ _ _ _ _ _ cached_plugin demo_service,
      THEN conjunct2, THEN conjunct2, THEN conjunct1, rule_format, OF h,
      THEN conjunct1, rule_format, OF f]
  then obtain p1 where "loadSolidTimeData demo_service cached_plugin = Some p1"
    "projects p1 = [demo_project 0]" "tasks p1 = []"
    "tags p1 = fst (getTags demo_api (requestUrl_tags demo_service)
       (selectedOrganizationId (settings cached_plugin)) (trace cached_plugin))"
    by blast
  then have one: "map_option projects (loadSolidTimeData demo_service cached_plugin) =
      Some [demo_project 0] \<and>
    map_option tasks (loadSolidTimeData demo_service cached_plugin) = Some [] \<and>
    map_option tags (loadSolidTimeData demo_service cached_plugin) = Some [demo_tag]"
    by (simp add: cached_fields demo_getTags)
  have r2: "(\<exists>e t1. getProjects demo_api (requestUrl_projects tasks_failing_service)
        (selectedOrganizationId (settings cached_plugin)) (trace cached_plugin) =
          Some (Inl e, t1)) \<or>
      (\<exists>e t2. getTasks demo_api (requestUrl_tasks tasks_failing_service)
        (selectedOrganizationId (settings cached_plugin)) None (trace cached_plugin) =
          Some (Inl e, t2))"
    using demo_getTasks_rejected(1) [of "[]"] by (simp add: cached_fields)
  note failed = loadSolidTimeData_caches [of _ _ _ _ _ _ cached_plugin tasks_failing_service,
      THEN conjunct2, THEN conjunct2, THEN conjunct1, rule_format, OF h,
      THEN conjunct2, THEN conjunct1, rule_format, OF r2]
  then obtain p2 where "loadSolidTimeData tasks_failing_service cached_plugin = Some p2"
    "projects p2 = []" "tasks p2 = []" "tags p2 = []"
    by blast
  then have two: "map_option projects (loadSolidTimeData tasks_failing_service cached_plugin) =
      Some [] \<and>
    map_option tasks (loadSolidTimeData tasks_failing_service cached_plugin) = Some [] \<and>
    map_option tags (loadSolidTimeData tasks_failing_service cached_plugin) = Some []"
    by simp
  have r3: "(\<exists>e t1. getProjects demo_api (requestUrl_projects stuck_service)
        (selectedOrganizationId (settings cached_plugin)) (trace cached_plugin) =
          Some (Inl e, t1)) \<or>
      (\<exists>e t2. getTasks demo_api (requestUrl_tasks stuck_service)
        (selectedOrganizationId (settings cached_plugin)) None (trace cached_plugin) =
          Some (Inl e, t2))"
    using demo_getTasks_rejected(2) [of "[]"] by (simp add: cached_fields)
  note stuck = loadSolidTimeData_caches [of _ _ _ _ _ _ cached_plugin stuck_service,
      THEN conjunct2, THEN conjunct2, THEN conjunct1, rule_format, OF h,
      THEN conjunct2, THEN conjunct1, rule_format, OF r3]
  then obtain p3 where "loadSolidTimeData stuck_service cached_plugin = Some p3"
    "projects p3 = []" "tasks p3 = []" "tags p3 = []"
    by blast
  then have three: "map_option projects (loadSolidTimeData stuck_service cached_plugin) =
      Some [] \<and>
    map_option tasks (loadSolidTimeData stuck_service cached_plugin) = Some [] \<and>
    map_option tags (loadSolidTimeData stuck_service cached_plugin) = Some []"
    by simp
  from one two three stuck_projects [of "[]"] show ?thesis by simp
qed

text \<open>
  Claim C8, as it is stated, fails when only the tags cannot be fetched: the tags
  endpoint answers with 500, the request for the tags fails, and yet the refresh fills
  the projects from the service and leaves the caches a partial set, with no tags.
\<close>

theorem loadSolidTimeData_keeps_projects_when_tags_fail:
  "fst (request demo_api (requestUrl_tags tags_failing_service) (GET (url_tags ''org1'')) []
         []) =
     Inl (Error ''SolidTime API Error: 500'') \<and>
   map_option projects (loadSolidTimeData tags_failing_service cached_plugin) =
     Some [demo_project 0] \<and>
   map_option tasks (loadSolidTimeData tags_failing_service cached_plugin) = Some [] \<and>
   map_option tags (loadSolidTimeData tags_failing_service cached_plugin) = Some []"
proof -
  have rq: "fst (request demo_api (requestUrl_tags tags_failing_service)
         (GET (url_tags ''org1'')) [] []) =
     Inl (Error ''SolidTime API Error: 500'')"
    by code_simp
  from loadSolidTimeData_fulfilled [where p = cached_plugin and srv = tags_failing_service
      and a = demo_api and ps = "[demo_project 0]" and ts = "[]"
      and ?tr1.0 = "[] @ [Request (prepare demo_api (GET (url_projects ''org1'')))]"
      and ?tr2.0 = "[] @ [Request (prepare demo_api (GET (url_tasks ''org1'' None)))]"]
  obtain p' where "loadSolidTimeData tags_failing_service cached_plugin = Some p'"
    "projects p' = [demo_project 0]" "tasks p' = []"
    "tags p' = fst (getTags demo_api (requestUrl_tags tags_failing_service)
       (selectedOrganizationId (settings cached_plugin)) (trace cached_plugin))"
    by (auto simp: cached_fields demo_getProjects demo_getTasks demo_endpoints)
  with rq show ?thesis by (simp add: cached_fields demo_getTags_rejected)
qed

section \<open>Creating a tag\<close>





lemma length_insert_sorted: "length (insert_sorted cmp x xs) = Suc (length xs)"
  by (induction xs) auto

lemma length_Array_sort: "length (Array_sort cmp xs) = length xs"
  unfolding Array_sort_def by (induction xs) (simp_all add: length_insert_sorted)










lemma demo_compare: "compare_codes ''Admin'' ''Focus'' = -1" "ascii_lower ''Focus'' = ''focus''"
  "ascii_lower ''focus'' = ''focus''" "ascii_lower ''Admin'' = ''admin''"
  by code_simp+














end
